theory Spec2Isabelle
  imports Complex_Main
begin

section \<open>Floating point values as numpy sees them\<close>

text \<open>
  The program computes with numpy \<open>float64\<close> values. They are modelled as exact reals
  extended by the two infinities and by NaN, with numpy's rules for the special values
  (\<open>0/0 = nan\<close>, \<open>x/0 = inf\<close> for positive \<open>x\<close>, every comparison with NaN is false).
  Rounding, overflow and the sign of zero are not modelled.
\<close>

datatype flt = Fin real | PInf | NInf | NaN

fun isfinite :: "flt \<Rightarrow> bool" where
  "isfinite (Fin r) = True"
| "isfinite PInf = False"
| "isfinite NInf = False"
| "isfinite NaN = False"

fun fneg :: "flt \<Rightarrow> flt" where
  "fneg (Fin r) = Fin (- r)"
| "fneg PInf = NInf"
| "fneg NInf = PInf"
| "fneg NaN = NaN"

fun fadd :: "flt \<Rightarrow> flt \<Rightarrow> flt" where
  "fadd (Fin a) (Fin b) = Fin (a + b)"
| "fadd (Fin a) PInf = PInf"
| "fadd (Fin a) NInf = NInf"
| "fadd PInf (Fin b) = PInf"
| "fadd PInf PInf = PInf"
| "fadd PInf NInf = NaN"
| "fadd NInf (Fin b) = NInf"
| "fadd NInf NInf = NInf"
| "fadd NInf PInf = NaN"
| "fadd NaN b = NaN"
| "fadd a NaN = NaN"

definition fsub :: "flt \<Rightarrow> flt \<Rightarrow> flt" where
  "fsub a b = fadd a (fneg b)"

fun fmul :: "flt \<Rightarrow> flt \<Rightarrow> flt" where
  "fmul (Fin a) (Fin b) = Fin (a * b)"
| "fmul (Fin a) PInf = (if a = 0 then NaN else if 0 < a then PInf else NInf)"
| "fmul (Fin a) NInf = (if a = 0 then NaN else if 0 < a then NInf else PInf)"
| "fmul PInf (Fin b) = (if b = 0 then NaN else if 0 < b then PInf else NInf)"
| "fmul NInf (Fin b) = (if b = 0 then NaN else if 0 < b then NInf else PInf)"
| "fmul PInf PInf = PInf"
| "fmul PInf NInf = NInf"
| "fmul NInf PInf = NInf"
| "fmul NInf NInf = PInf"
| "fmul NaN b = NaN"
| "fmul a NaN = NaN"

fun fdiv :: "flt \<Rightarrow> flt \<Rightarrow> flt" where
  "fdiv (Fin a) (Fin b) =
     (if b = 0 then (if a = 0 then NaN else if 0 < a then PInf else NInf) else Fin (a / b))"
| "fdiv (Fin a) PInf = Fin 0"
| "fdiv (Fin a) NInf = Fin 0"
| "fdiv PInf (Fin b) = (if 0 \<le> b then PInf else NInf)"
| "fdiv NInf (Fin b) = (if 0 \<le> b then NInf else PInf)"
| "fdiv PInf PInf = NaN"
| "fdiv PInf NInf = NaN"
| "fdiv NInf PInf = NaN"
| "fdiv NInf NInf = NaN"
| "fdiv NaN b = NaN"
| "fdiv a NaN = NaN"

fun fabs :: "flt \<Rightarrow> flt" where
  "fabs (Fin r) = Fin \<bar>r\<bar>"
| "fabs PInf = PInf"
| "fabs NInf = PInf"
| "fabs NaN = NaN"

text \<open>\<open>np.log\<close> and \<open>np.sqrt\<close>: NaN outside the domain, \<open>log 0 = -inf\<close>.\<close>

fun flog :: "flt \<Rightarrow> flt" where
  "flog (Fin r) = (if 0 < r then Fin (ln r) else if r = 0 then NInf else NaN)"
| "flog PInf = PInf"
| "flog NInf = NaN"
| "flog NaN = NaN"

fun fsqrt :: "flt \<Rightarrow> flt" where
  "fsqrt (Fin r) = (if 0 \<le> r then Fin (sqrt r) else NaN)"
| "fsqrt PInf = PInf"
| "fsqrt NInf = NaN"
| "fsqrt NaN = NaN"

text \<open>\<open>x % 1\<close> on floats: the fractional part, NaN for the special values.\<close>

fun fmod1 :: "flt \<Rightarrow> flt" where
  "fmod1 (Fin r) = Fin (frac r)"
| "fmod1 PInf = NaN"
| "fmod1 NInf = NaN"
| "fmod1 NaN = NaN"

text \<open>Comparisons: \<open>fgt a b\<close> is \<open>a > b\<close>, \<open>feq a b\<close> is \<open>a == b\<close>, \<open>fge a b\<close> is \<open>a >= b\<close>.\<close>

fun fgt :: "flt \<Rightarrow> flt \<Rightarrow> bool" where
  "fgt (Fin a) (Fin b) = (b < a)"
| "fgt (Fin a) NInf = True"
| "fgt PInf (Fin b) = True"
| "fgt PInf NInf = True"
| "fgt a b = False"

fun feq :: "flt \<Rightarrow> flt \<Rightarrow> bool" where
  "feq (Fin a) (Fin b) = (a = b)"
| "feq PInf b = (b = PInf)"
| "feq NInf b = (b = NInf)"
| "feq a b = False"

definition fge :: "flt \<Rightarrow> flt \<Rightarrow> bool" where
  "fge a b = (fgt a b \<or> feq a b)"

text \<open>\<open>np.sum\<close>, \<open>np.mean\<close> (the mean of nothing is \<open>0/0\<close>) and \<open>np.std\<close>
  (\<open>sqrt(mean((x - mean(x))**2))\<close>, the population standard deviation).\<close>

definition fsum :: "flt list \<Rightarrow> flt" where
  "fsum xs = foldl fadd (Fin 0) xs"

definition fmean :: "flt list \<Rightarrow> flt" where
  "fmean xs = fdiv (fsum xs) (Fin (real (length xs)))"

definition fstd :: "flt list \<Rightarrow> flt" where
  "fstd xs =
     (let m = fmean xs
      in fsqrt (fmean (map (\<lambda>x. fmul (fsub x m) (fsub x m)) xs)))"

text \<open>Boolean mask indexing \<open>a[mask]\<close> and mask assignment \<open>a[mask] = values\<close>
  (the values are consumed in order, one for each true position).\<close>

definition mask :: "bool list \<Rightarrow> 'a list \<Rightarrow> 'a list" where
  "mask m xs = map snd (filter fst (zip m xs))"

fun assign_mask :: "bool list \<Rightarrow> 'a list \<Rightarrow> 'a list \<Rightarrow> 'a list" where
  "assign_mask (True # m) (a # as) (v # vs) = v # assign_mask m as vs"
| "assign_mask (False # m) (a # as) vs = a # assign_mask m as vs"
| "assign_mask m as vs = as"

section \<open>Errors\<close>

text \<open>
  Every \<open>raise\<close> of the source is a value. \<open>External\<close> stands for a
  \<open>ValueError\<close> raised by one of the collaborators that are not part of the repository
  (the abundance evaluator, the profile fitter of a transition).
\<close>

datatype value_error =
    OversamplingRate
  | BoundsOnLocation
  | BlendingWithoutParameters flt flt
  | CannotFindWavelength flt
  | NoAtomicTransitions
  | LoadFailed string
  | MissingColumn string
  | UnknownCustomMask string
  | CannotConvert string
  | External string

datatype error =
    ValueError value_error
  | NameError string
  | IndexError
  | NotImplementedError
  | OtherError string

section \<open>Linear regression\<close>

text \<open>
  Modelled from the spec: \<open>scipy.stats.linregress\<close> is a library function, not part of the
  repository. The spec describes it as the linear-regression slope, undefined when the
  regression set has fewer than two points or all x-values are identical. It is the least
  squares line through the points, computed as scipy does from the biased covariances:
  slope \<open>ssxym / ssxm\<close>, intercept \<open>ymean - slope * xmean\<close>. An undefined slope is the
  value \<open>0/0\<close>, that is NaN. Only the first two fields of the result are used by the
  program.
\<close>

definition linregress :: "flt list \<Rightarrow> flt list \<Rightarrow> flt \<times> flt" where
  "linregress x y =
     (let xmean = fmean x;
          ymean = fmean y;
          ssxm = fmean (map (\<lambda>a. fmul (fsub a xmean) (fsub a xmean)) x);
          ssxym = fmean (map (\<lambda>(a, b). fmul (fsub a xmean) (fsub b ymean)) (zip x y));
          slope = fdiv ssxym ssxm;
          intercept = fsub ymean (fmul slope xmean)
      in (slope, intercept))"

section \<open>Transitions, spectra and the collaborators\<close>

text \<open>
  The fields every view of a transition shares are the four mandatory columns and the
  measured equivalent width. The transition objects that \<open>equalibrium_state\<close> walks over
  carry \<open>van_der_waals_broadening\<close> as well; the array given to the abundance evaluator
  (\<open>atomic_transitions_arr\<close>) has the extra column \<open>damp2\<close>; the record array
  \<open>atomic_transitions_rec\<close> adds \<open>abundance\<close>, \<open>is_filtered\<close> and \<open>is_outlier\<close>.
\<close>

record atomic_transition =
  wavelength :: flt
  species :: flt
  excitation_potential :: flt
  loggf :: flt
  equivalent_width :: flt

record transition_obj = atomic_transition +
  van_der_waals_broadening :: flt

record moog_line = transition_obj +
  damp2 :: flt

record line_rec = moog_line +
  abundance :: flt
  is_filtered :: bool
  is_outlier :: bool

record spectrum =
  disp :: "flt list"
  flux :: "flt list"

text \<open>
  What the model calls and the repository does not hold is a parameter:
  \<^item> \<open>continuum_order\<close>: \<open>self._continuum_order\<close> of the base class;
  \<^item> \<open>fit_profile\<close>: the method of a transition object; its result is not used by the
    caller, so what it measures reaches the caller through the object, which the model
    returns; the keyword arguments built from \<open>initial_theta\<close> only feed this call;
  \<^item> \<open>atomic_abundances\<close>: \<open>synthesis.atomic_abundances\<close>, called with the lines,
    \<open>[effective_temperature, surface_gravity, metallicity]\<close> and the microturbulence;
  \<^item> \<open>solar_abundance\<close>: \<open>atmospheres.solar_abundance\<close>, applied to each species.
\<close>

record collaborators =
  continuum_order :: "nat \<Rightarrow> int"
  fit_profile :: "transition_obj \<Rightarrow> nat \<Rightarrow> int option \<Rightarrow> error + transition_obj"
  atomic_abundances :: "moog_line list \<Rightarrow> flt list \<Rightarrow> flt option \<Rightarrow> error + flt list"
  solar_abundance :: "flt \<Rightarrow> flt"

text \<open>
  Names that nothing binds. \<open>equalibrium_state\<close> reads the names \<open>interpolator\<close> and
  \<open>atomic_transitions\<close>. They are not parameters or local variables of the method and
  no builtins, and the module neither imports nor defines them: at module level it binds
  \<open>logging\<close>, \<open>np\<close>, \<open>stats\<close>, \<open>ndimage\<close>, \<open>op\<close>, \<open>modeling\<close>, \<open>table\<close>, \<open>u\<close>,
  \<open>atmospheres\<close>, \<open>specutils\<close>, \<open>synthesis\<close>, \<open>utils\<close>, \<open>Model\<close>, \<open>transitions\<close>,
  \<open>stellar_parameter_jacobian_approximation\<close>, \<open>logger\<close>, \<open>plt\<close>, \<open>EqualibriaModel\<close>,
  \<open>wavelengths_in_data\<close> and \<open>minimum_pixel_sampling\<close>. Reading such a name raises
  \<open>NameError\<close>, whatever the type of the value that was expected.
\<close>

definition unbound_name :: "string \<Rightarrow> error + 'a" where
  "unbound_name name = Inl (NameError name)"

section \<open>Helpers of the module\<close>

text \<open>\<open>a.searchsorted(v)\<close> on an increasing array: the number of entries below \<open>v\<close>.
  \<open>np.diff\<close>: the differences of neighbours.\<close>

definition searchsorted :: "flt list \<Rightarrow> flt \<Rightarrow> nat" where
  "searchsorted xs v = length (takeWhile (\<lambda>a. fgt v a) xs)"

definition np_diff :: "flt list \<Rightarrow> flt list" where
  "np_diff xs = map (\<lambda>(a, b). fsub b a) (zip xs (tl xs))"

text \<open>\<open>minimum_pixel_sampling\<close>: the loop over the channels carries \<open>pixel_size\<close> and
  \<open>channel_indices\<close>. \<open>spectrum.disp[-1]\<close> of an empty channel and \<open>diff[index]\<close> past
  the end raise \<open>IndexError\<close>.\<close>

fun minimum_pixel_sampling_loop ::
  "flt \<Rightarrow> nat \<Rightarrow> spectrum list \<Rightarrow> flt \<Rightarrow> nat list \<Rightarrow> error + flt \<times> nat list" where
  "minimum_pixel_sampling_loop w i [] pixel_size channel_indices =
     Inr (pixel_size, channel_indices)"
| "minimum_pixel_sampling_loop w i (s # ss) pixel_size channel_indices =
     (if disp s = [] then Inl IndexError
      else if fge (last (disp s)) w \<and> fge w (hd (disp s)) then
        (let index = searchsorted (disp s) w;
             diff = np_diff (disp s)
         in if index < length diff then
              minimum_pixel_sampling_loop w (Suc i) ss
                (if fgt pixel_size (diff ! index) \<or> \<not> isfinite pixel_size
                 then diff ! index else pixel_size)
                (channel_indices @ [i])
            else Inl IndexError)
      else minimum_pixel_sampling_loop w (Suc i) ss pixel_size channel_indices)"

definition minimum_pixel_sampling :: "spectrum list \<Rightarrow> flt \<Rightarrow> error + flt \<times> nat list" where
  "minimum_pixel_sampling data w =
     (case minimum_pixel_sampling_loop w 0 data NaN [] of
        Inl e \<Rightarrow> Inl e
      | Inr (pixel_size, channel_indices) \<Rightarrow>
          if channel_indices = [] \<and> \<not> isfinite pixel_size
          then Inl (ValueError (CannotFindWavelength w))
          else Inr (pixel_size, channel_indices))"

section \<open>The equilibrium state\<close>

text \<open>The keyword arguments \<open>equalibrium_state\<close> pops. \<open>outlier_sigma_clip\<close> is
  \<open>None\<close> when the keyword is absent (the default 3 applies), \<open>Some None\<close> when it is
  given as Python's \<open>None\<close>, and \<open>Some (Some t)\<close> when it is given as the number \<open>t\<close>.\<close>

record eq_kwargs =
  filter_transition :: "(transition_obj \<Rightarrow> bool) option"
  outlier_sigma_clip :: "flt option option"

text \<open>The first loop of \<open>equalibrium_state\<close>: each transition is fitted in the first
  channel that holds its wavelength. A \<open>ValueError\<close> of the fit skips the transition;
  a failure of \<open>minimum_pixel_sampling\<close> is outside the \<open>try\<close> and ends the call.\<close>

fun fit_all ::
  "collaborators \<Rightarrow> spectrum list \<Rightarrow> transition_obj list \<Rightarrow> error + transition_obj list" where
  "fit_all env data [] = Inr []"
| "fit_all env data (a # as) =
     (case minimum_pixel_sampling data (wavelength a) of
        Inl e \<Rightarrow> Inl e
      | Inr (pixel_size, channel_indices) \<Rightarrow>
          (case channel_indices of
             [] \<Rightarrow> Inl IndexError
           | ci # _ \<Rightarrow>
               (let co = continuum_order env ci;
                    co = (if 0 \<le> co then Some co else None);
                    a' = (case fit_profile env a ci co of
                            Inl (ValueError v) \<Rightarrow> Inr a
                          | Inl e \<Rightarrow> Inl e
                          | Inr fitted \<Rightarrow> Inr fitted)
                in case a' of
                     Inl e \<Rightarrow> Inl e
                   | Inr a'' \<Rightarrow>
                       (case fit_all env data as of
                          Inl e \<Rightarrow> Inl e
                        | Inr as' \<Rightarrow> Inr (a'' # as')))))"

text \<open>The default filter \<open>lambda x: (200 > x.equivalent_width > 5)\<close>.\<close>

definition default_filter :: "transition_obj \<Rightarrow> bool" where
  "default_filter x = (fgt (Fin 200) (equivalent_width x) \<and> fgt (equivalent_width x) (Fin 5))"

text \<open>A row of \<open>atomic_transitions_arr\<close>: the sixth column is the constant 0.\<close>

definition arr_row :: "transition_obj \<Rightarrow> moog_line" where
  "arr_row a =
     \<lparr>wavelength = wavelength a, species = species a,
      excitation_potential = excitation_potential a, loggf = loggf a,
      equivalent_width = equivalent_width a,
      van_der_waals_broadening = van_der_waals_broadening a, damp2 = Fin 0\<rparr>"

definition rec_row :: "moog_line \<Rightarrow> flt \<Rightarrow> bool \<Rightarrow> bool \<Rightarrow> line_rec" where
  "rec_row m ab f out =
     \<lparr>wavelength = wavelength m, species = species m,
      excitation_potential = excitation_potential m, loggf = loggf m,
      equivalent_width = equivalent_width m,
      van_der_waals_broadening = van_der_waals_broadening m, damp2 = damp2 m,
      abundance = ab, is_filtered = f, is_outlier = out\<rparr>"

text \<open>\<open>all_abundances[is_filtered] = returned_abundances\<close>: numpy takes one value for
  each selected position, or a single value for all of them, and raises otherwise.\<close>

definition set_filtered :: "bool list \<Rightarrow> flt list \<Rightarrow> flt list \<Rightarrow> error + flt list" where
  "set_filtered m target values =
     (if length values = length (filter id m) then Inr (assign_mask m target values)
      else if length values = 1
        then Inr (assign_mask m target (replicate (length (filter id m)) (hd values)))
      else Inl (ValueError (External ''shape mismatch'')))"

text \<open>The body of the \<open>while True\<close> loop up to the state vector (the masks
  \<open>neutral_lines\<close> and \<open>ionised_lines\<close> are updated in place by \<open>*=\<close>).\<close>

record diagnostics =
  use_lines :: "bool list"
  neutral_lines :: "bool list"
  ionised_lines :: "bool list"
  excitation_slope :: "flt \<times> flt"
  ionisation_state :: flt
  abundance_state :: flt
  reduced_equivalent_width :: "flt list"
  line_strength_slope :: "flt \<times> flt"

definition diagnose ::
  "collaborators \<Rightarrow> flt \<Rightarrow> line_rec list \<Rightarrow> bool list \<Rightarrow> bool list \<Rightarrow> diagnostics" where
  "diagnose env metallicity rec neutral ionised =
     (let use = map (\<lambda>r. is_filtered r \<and> \<not> is_outlier r) rec;
          neutral = map (\<lambda>(a, b). a \<and> b) (zip neutral use);
          ionised = map (\<lambda>(a, b). a \<and> b) (zip ionised use);
          es = linregress (mask neutral (map excitation_potential rec))
                          (mask neutral (map abundance rec));
          ion = fsub (fmean (mask neutral (map abundance rec)))
                     (fmean (mask ionised (map abundance rec)));
          ab = fmean (map (\<lambda>r. fsub (abundance r)
                                  (fadd (solar_abundance env (species r)) metallicity))
                          (mask use rec));
          rew = map (\<lambda>r. flog (fdiv (equivalent_width r) (wavelength r))) rec;
          ls = linregress (mask neutral rew) (mask neutral (map abundance rec))
      in \<lparr>use_lines = use, neutral_lines = neutral, ionised_lines = ionised,
          excitation_slope = es, ionisation_state = ion, abundance_state = ab,
          reduced_equivalent_width = rew, line_strength_slope = ls\<rparr>)"

definition state_vector :: "diagnostics \<Rightarrow> flt list" where
  "state_vector d =
     [fst (excitation_slope d), ionisation_state d, abundance_state d,
      fst (line_strength_slope d)]"

text \<open>The rejection step (the \<open>else\<close> branch once the limit is accepted): the absolute
  deviations of the used lines from the two regression lines, each divided by the standard
  deviation of its set, are compared with the limit, and the result is written to
  \<open>is_outlier\<close> at the used positions.\<close>

definition sigma_deviations :: "flt \<times> flt \<Rightarrow> flt list \<Rightarrow> flt list \<Rightarrow> flt list" where
  "sigma_deviations fit x y =
     (let line = map (\<lambda>a. fadd (fmul (fst fit) a) (snd fit)) x;
          differences = map (\<lambda>(l, b). fabs (fsub l b)) (zip line y)
      in map (\<lambda>v. fdiv v (fstd differences)) differences)"

definition reject_outliers :: "flt \<Rightarrow> line_rec list \<Rightarrow> diagnostics \<Rightarrow> line_rec list" where
  "reject_outliers outlier_limit rec d =
     (let excitation_sigma =
            sigma_deviations (excitation_slope d)
              (mask (use_lines d) (map excitation_potential rec))
              (mask (use_lines d) (map abundance rec));
          line_strength_sigma =
            sigma_deviations (line_strength_slope d)
              (mask (use_lines d) (reduced_equivalent_width d))
              (mask (use_lines d) (map abundance rec));
          flags = map (\<lambda>(a, b). fgt a outlier_limit \<or> fgt b outlier_limit)
                      (zip excitation_sigma line_strength_sigma);
          outliers = assign_mask (use_lines d) (map is_outlier rec) flags
      in map (\<lambda>(r, out). r\<lparr>is_outlier := out\<rparr>) (zip rec outliers))"

text \<open>The \<open>while True\<close> loop: it runs once more after a rejection and then stops.\<close>

function state_loop ::
  "collaborators \<Rightarrow> flt \<Rightarrow> flt option option \<Rightarrow> bool \<Rightarrow> line_rec list \<Rightarrow>
   bool list \<Rightarrow> bool list \<Rightarrow> flt list \<times> line_rec list" where
  "state_loop env metallicity clip outliers_removed rec neutral ionised =
     (let d = diagnose env metallicity rec neutral ionised;
          state = state_vector d
      in if outliers_removed then (state, rec)
         else
           (case (case clip of None \<Rightarrow> Some (Fin 3) | Some given \<Rightarrow> given) of
              None \<Rightarrow> (state, rec)
            | Some outlier_limit \<Rightarrow>
                if \<not> isfinite outlier_limit \<or> fge (Fin 0) outlier_limit then (state, rec)
                else state_loop env metallicity clip True
                       (reject_outliers outlier_limit rec d)
                       (neutral_lines d) (ionised_lines d)))"
  by pat_completeness auto
termination
  by (relation "measure (\<lambda>(env, metallicity, clip, outliers_removed, rest).
                           if outliers_removed then 0 else 1)") auto

declare state_loop.simps [simp del]

text \<open>\<open>equalibrium_state\<close> in two parts. \<open>line_table\<close> is the call up to the record array
  \<open>atomic_transitions_rec\<close>: the photosphere is interpolated (and not used again), the
  transitions are fitted, filtered and given their abundances; lines that fail the filter
  keep the filler abundance NaN. \<open>equalibrium_state\<close> then classifies the lines by species
  and runs the loop. The first statement after the default of \<open>initial_theta\<close> is
  \<open>photospheric_structure = interpolator(effective_temperature, surface_gravity,
  metallicity)\<close>, and the loops run over \<open>atomic_transitions\<close>: both names are unbound.
  The model returns what the source returns with \<open>full_output\<close>; without it only the
  state vector is returned.\<close>

definition line_table ::
  "collaborators \<Rightarrow> spectrum list \<Rightarrow> flt \<Rightarrow> flt \<Rightarrow> flt \<Rightarrow>
   flt option \<Rightarrow> eq_kwargs \<Rightarrow> error + line_rec list \<times> transition_obj list" where
  "line_table env data effective_temperature surface_gravity metallicity microturbulence kwargs =
     (case (unbound_name ''interpolator'' :: error + (flt \<Rightarrow> flt \<Rightarrow> flt \<Rightarrow> error + unit)) of
        Inl e \<Rightarrow> Inl e
      | Inr interpolator \<Rightarrow>
     (case interpolator effective_temperature surface_gravity metallicity of
        Inl e \<Rightarrow> Inl e
      | Inr photospheric_structure \<Rightarrow>
     (case (unbound_name ''atomic_transitions'' :: error + transition_obj list) of
        Inl e \<Rightarrow> Inl e
      | Inr atomic_transitions \<Rightarrow>
     (case fit_all env data atomic_transitions of
        Inl e \<Rightarrow> Inl e
      | Inr atomic_transitions \<Rightarrow>
          (let filtered = (case filter_transition kwargs of
                             None \<Rightarrow> default_filter | Some f \<Rightarrow> f);
               is_filtered = map filtered atomic_transitions;
               atomic_transitions_arr = map arr_row atomic_transitions
           in case atomic_abundances env (mask is_filtered atomic_transitions_arr)
                     [effective_temperature, surface_gravity, metallicity] microturbulence of
                Inl e \<Rightarrow> Inl e
              | Inr returned_abundances \<Rightarrow>
                  (case set_filtered is_filtered
                          (replicate (length atomic_transitions_arr) NaN)
                          returned_abundances of
                     Inl e \<Rightarrow> Inl e
                   | Inr all_abundances \<Rightarrow>
                       Inr (map (\<lambda>(m, ab, f). rec_row m ab f False)
                              (zip atomic_transitions_arr (zip all_abundances is_filtered)),
                            atomic_transitions)))))))"

definition is_neutral :: "line_rec \<Rightarrow> bool" where
  "is_neutral r = feq (fmod1 (species r)) (Fin 0)"

definition equalibrium_state ::
  "collaborators \<Rightarrow> spectrum list \<Rightarrow> flt \<Rightarrow> flt \<Rightarrow> flt \<Rightarrow>
   flt option \<Rightarrow> eq_kwargs \<Rightarrow> error + flt list \<times> line_rec list \<times> transition_obj list" where
  "equalibrium_state env data effective_temperature surface_gravity metallicity microturbulence
     kwargs =
     (case line_table env data effective_temperature surface_gravity metallicity
             microturbulence kwargs of
        Inl e \<Rightarrow> Inl e
      | Inr (atomic_transitions_rec, atomic_transitions) \<Rightarrow>
          (let neutral = map is_neutral atomic_transitions_rec;
               ionised = map Not neutral;
               (state, final_rec) =
                  state_loop env metallicity (outlier_sigma_clip kwargs) False
                    atomic_transitions_rec neutral ionised
           in Inr (state, final_rec, atomic_transitions)))"

text \<open>One application of the rejection pass to a record array, for a limit the loop
  accepts: the diagnostics of the lines in use, then the rejection step. The loop of
  \<open>equalibrium_state\<close> applies it once and computes the diagnostics again.\<close>

definition rejection_pass ::
  "collaborators \<Rightarrow> flt \<Rightarrow> flt \<Rightarrow> line_rec list \<Rightarrow> line_rec list" where
  "rejection_pass env metallicity outlier_limit rec =
     reject_outliers outlier_limit rec
       (diagnose env metallicity rec (map is_neutral rec) (map Not (map is_neutral rec)))"

section \<open>The objective of the stellar parameter solver\<close>

text \<open>\<open>state_function\<close> is the closure \<open>estimate_stellar_parameters\<close> hands to the
  root finder; \<open>transitions_table\<close> is the record array of the initial
  \<open>equalibrium_state\<close> call, and the masks \<open>use\<close>, \<open>neutral\<close>, \<open>ionised\<close> and the
  reduced equivalent widths are computed from it before the closure is made. Indexing the
  abundances with a mask of another length raises \<open>IndexError\<close>. \<open>WTFError\<close> is not
  defined anywhere, so \<open>raise WTFError()\<close> raises \<open>NameError\<close>.\<close>

definition state_function ::
  "collaborators \<Rightarrow> line_rec list \<Rightarrow> flt \<times> flt \<times> flt \<times> flt \<Rightarrow> error + flt list" where
  "state_function env transitions_table x =
     (let use = map (\<lambda>r. is_filtered r \<and> \<not> is_outlier r) transitions_table;
          used = mask use transitions_table;
          neutral = map (\<lambda>r. feq (fmod1 (species r)) (Fin 0)) used;
          ionised = map (\<lambda>r. fgt (fmod1 (species r)) (Fin 0)) used;
          rew = map (\<lambda>r. flog (fdiv (equivalent_width r) (wavelength r))) transitions_table
      in case x of (x0, x1, x2, x3) \<Rightarrow>
        (case atomic_abundances env (map moog_line.truncate used) [x0, x1, x2] (Some x3) of
           Inl (ValueError v) \<Rightarrow> Inr [NaN, NaN, NaN, NaN]
         | Inl e \<Rightarrow> Inl e
         | Inr abundances \<Rightarrow>
             if length abundances \<noteq> length used then Inl IndexError
             else
               (let es = linregress (mask neutral (map excitation_potential used))
                                    (mask neutral abundances);
                    ion = fsub (fmean (mask neutral abundances))
                               (fmean (mask ionised abundances));
                    metallicity = x2;
                    ab = fmean (map (\<lambda>(a, r). fsub a
                                        (fadd (solar_abundance env (species r)) metallicity))
                                    (zip abundances used));
                    ls = linregress (mask neutral (mask use rew)) (mask neutral abundances);
                    state = [fst es, ion, fmul (Fin (1 / 10)) ab, fst ls]
                in if list_ex (\<lambda>v. \<not> isfinite v) state
                   then Inl (NameError ''WTFError'') else Inr state)))"

section \<open>The diagnostics and the rejection pass in the words of the specification\<close>

text \<open>
  The specification describes the evaluator on the lines in use: the excitation slope and
  the line strength slope are regressions over the neutral lines, the ionisation offset
  is the mean neutral abundance minus the mean ionised abundance, and the abundance offset
  is the mean of abundance minus (solar abundance plus metallicity) over all lines in use.
  A line is in use when it passed the filter and is not flagged as an outlier. The
  rejection pass flags a line in use when its absolute deviation from one of the two
  regression lines exceeds the threshold times the standard deviation of that set of
  deviations. These definitions are compared with the source's below.
\<close>

definition used :: "line_rec \<Rightarrow> bool" where
  "used r = (is_filtered r \<and> \<not> is_outlier r)"

definition reduced_ew :: "line_rec \<Rightarrow> flt" where
  "reduced_ew r = flog (fdiv (equivalent_width r) (wavelength r))"

definition excitation_fit :: "line_rec list \<Rightarrow> flt \<times> flt" where
  "excitation_fit rows =
     linregress (map excitation_potential (filter is_neutral rows))
                (map abundance (filter is_neutral rows))"

definition line_strength_fit :: "line_rec list \<Rightarrow> flt \<times> flt" where
  "line_strength_fit rows =
     linregress (map reduced_ew (filter is_neutral rows))
                (map abundance (filter is_neutral rows))"

definition lines_state :: "collaborators \<Rightarrow> flt \<Rightarrow> line_rec list \<Rightarrow> flt list" where
  "lines_state env metallicity rows =
     [fst (excitation_fit rows),
      fsub (fmean (map abundance (filter is_neutral rows)))
           (fmean (map abundance (filter (\<lambda>r. \<not> is_neutral r) rows))),
      fmean (map (\<lambda>r. fsub (abundance r) (fadd (solar_abundance env (species r)) metallicity))
                 rows),
      fst (line_strength_fit rows)]"

definition deviation :: "flt \<times> flt \<Rightarrow> flt \<Rightarrow> flt \<Rightarrow> flt" where
  "deviation fit x y = fabs (fsub (fadd (fmul (fst fit) x) (snd fit)) y)"

definition clipped :: "flt \<Rightarrow> line_rec list \<Rightarrow> line_rec \<Rightarrow> bool" where
  "clipped t rows r =
     (fgt (deviation (excitation_fit rows) (excitation_potential r) (abundance r))
          (fmul t (fstd (map (\<lambda>q. deviation (excitation_fit rows)
                                    (excitation_potential q) (abundance q)) rows)))
      \<or> fgt (deviation (line_strength_fit rows) (reduced_ew r) (abundance r))
             (fmul t (fstd (map (\<lambda>q. deviation (line_strength_fit rows)
                                       (reduced_ew q) (abundance q)) rows))))"

definition one_pass :: "flt \<Rightarrow> line_rec list \<Rightarrow> line_rec list" where
  "one_pass t rec =
     map (\<lambda>r. if used r then r\<lparr>is_outlier := clipped t (filter used rec) r\<rparr> else r) rec"

text \<open>What the pass does to one row of the table \<open>rec\<close>.\<close>

definition flag_row :: "flt \<Rightarrow> line_rec list \<Rightarrow> line_rec \<Rightarrow> line_rec" where
  "flag_row t rec r = (if used r then r\<lparr>is_outlier := clipped t (filter used rec) r\<rparr> else r)"

section \<open>The atomic transition table and its initialisation\<close>

text \<open>
  The table of \<open>_initialise_atomic_transitions\<close> is an astropy \<open>Table\<close>: an ordered list
  of named, typed columns. \<open>Table.read\<close> and the conversion of a column to another dtype
  (\<open>table.Column(data=..., dtype=...)\<close>) belong to the library and are parameters:
  \<open>read_table\<close> is \<open>None\<close> when the read raises, \<open>cast\<close> is \<open>None\<close> when the
  conversion raises. A converted column keeps its unit. The configuration holds what the
  method reads of \<open>config["model"]\<close>: the file name and format, the transitions given
  in place (\<open>atomic_transitions_data\<close>) and the names of the custom masks; the entry
  the table came from is deleted. The source walks over the set of masks in use, so which
  of several unknown masks the error names is not determined; the model names the first in
  column order.
\<close>

datatype dtype = Float64 | Bool | Bytes nat | Int64 | OtherType string

datatype cell = CFloat flt | CBool bool | CStr string | CInt int

record column =
  name :: string
  dtype :: dtype
  unit :: "string option"
  col_data :: "cell list"

type_synonym table = "column list"

record model_config =
  atomic_transitions_filename :: "string option"
  atomic_transitions_format :: "string option"
  atomic_transitions_data :: "table option"
  custom_mask :: "string list"

record table_library =
  read_table :: "string \<Rightarrow> string option \<Rightarrow> table option"
  cast :: "dtype \<Rightarrow> cell list \<Rightarrow> cell list option"

definition table_len :: "table \<Rightarrow> nat" where
  "table_len t = (case t of [] \<Rightarrow> 0 | c # cs \<Rightarrow> length (col_data c))"

definition default_columns :: "nat \<Rightarrow> column list" where
  "default_columns N =
     [\<lparr>name = ''equivalent_width'', dtype = Float64, unit = Some ''milliAngstrom'',
       col_data = replicate N (CFloat NaN)\<rparr>,
      \<lparr>name = ''clean'', dtype = Bool, unit = None, col_data = replicate N (CBool True)\<rparr>,
      \<lparr>name = ''abundance'', dtype = Float64, unit = None, col_data = replicate N (CFloat NaN)\<rparr>,
      \<lparr>name = ''custom_mask'', dtype = Bytes 32, unit = None, col_data = replicate N (CStr [])\<rparr>]"

fun add_default_columns :: "table_library \<Rightarrow> column list \<Rightarrow> table \<Rightarrow> error + table" where
  "add_default_columns lib [] t = Inr t"
| "add_default_columns lib (c # cs) t =
     (case find (\<lambda>old. name old = name c) t of
        None \<Rightarrow> add_default_columns lib cs (t @ [c])
      | Some old \<Rightarrow>
          if dtype c \<noteq> dtype old then
            (case cast lib (dtype c) (col_data old) of
               None \<Rightarrow> Inl (ValueError (CannotConvert (name c)))
             | Some converted \<Rightarrow>
                 add_default_columns lib cs
                   (filter (\<lambda>col. name col \<noteq> name c) t @ [old\<lparr>dtype := dtype c, col_data := converted\<rparr>]))
          else add_default_columns lib cs t)"

definition set_unit :: "string \<Rightarrow> string \<Rightarrow> table \<Rightarrow> table" where
  "set_unit n u t = map (\<lambda>c. if name c = n then c\<lparr>unit := Some u\<rparr> else c) t"

definition used_masks :: "table \<Rightarrow> string list" where
  "used_masks t =
     concat (map (\<lambda>c. if name c = ''custom_mask''
                        then concat (map (\<lambda>v. case v of CStr s \<Rightarrow> (if s = [] then [] else [s])
                                                  | _ \<Rightarrow> []) (col_data c))
                        else []) t)"

definition load_transitions ::
  "table_library \<Rightarrow> model_config \<Rightarrow> error + table \<times> model_config" where
  "load_transitions lib config =
     (case atomic_transitions_filename config of
        Some filename \<Rightarrow>
          (case read_table lib filename (atomic_transitions_format config) of
             None \<Rightarrow> Inl (ValueError (LoadFailed filename))
           | Some t \<Rightarrow> Inr (t, config\<lparr>atomic_transitions_filename := None\<rparr>))
      | None \<Rightarrow>
          (case atomic_transitions_data config of
             None \<Rightarrow> Inl (ValueError NoAtomicTransitions)
           | Some t \<Rightarrow> Inr (t, config\<lparr>atomic_transitions_data := None\<rparr>)))"

definition required_columns :: "string list" where
  "required_columns = [''wavelength'', ''species'', ''excitation_potential'', ''loggf'']"

definition initialise_atomic_transitions ::
  "table_library \<Rightarrow> model_config \<Rightarrow> error + table \<times> model_config" where
  "initialise_atomic_transitions lib config =
     (case load_transitions lib config of
        Inl e \<Rightarrow> Inl e
      | Inr (atomic_transitions, config') \<Rightarrow>
          (case find (\<lambda>column. column \<notin> set (map name atomic_transitions))
                  required_columns of
             Some column \<Rightarrow> Inl (ValueError (MissingColumn column))
           | None \<Rightarrow>
               (case add_default_columns lib (default_columns (table_len atomic_transitions))
                       atomic_transitions of
                  Inl e \<Rightarrow> Inl e
                | Inr t \<Rightarrow>
                    (let t = set_unit ''wavelength'' ''Angstrom'' t;
                         t = set_unit ''excitation_potential'' ''eV'' t;
                         t = set_unit ''equivalent_width'' ''milliAngstrom'' t
                     in case find (\<lambda>m. m \<notin> set (custom_mask config')) (used_masks t) of
                          Some m \<Rightarrow> Inl (ValueError (UnknownCustomMask m))
                        | None \<Rightarrow> Inr (t, config')))))"

definition schema :: "(string \<times> dtype) list" where
  "schema = [(''equivalent_width'', Float64), (''clean'', Bool), (''abundance'', Float64),
             (''custom_mask'', Bytes 32)]"

definition dtype_of :: "table \<Rightarrow> string \<Rightarrow> dtype option" where
  "dtype_of t n = map_option dtype (find (\<lambda>c. name c = n) t)"


definition with_units :: "table \<Rightarrow> table" where
  "with_units t =
     set_unit ''equivalent_width'' ''milliAngstrom''
       (set_unit ''excitation_potential'' ''eV'' (set_unit ''wavelength'' ''Angstrom'' t))"

section \<open>Fitting the atomic transitions\<close>

text \<open>
  A profile is astropy's (compound) absorption model: the product of its Gaussian
  absorption components, the first of which belongs to the transition being measured.
  When the transition has blending lines the first component is the custom class that
  multiplies the synthesised spectrum in; the model keeps what that class closes over.
  A single model names its parameters \<open>amplitude\<close>, \<open>mean\<close>, \<open>stddev\<close>; a compound
  model of \<open>n\<close> components names them \<open>amplitude_0\<close>, \<open>mean_0\<close>, \<open>stddev_0\<close>, ...,
  \<open>stddev_(n-1)\<close>.
\<close>

record gaussian =
  amplitude :: flt
  mean :: flt
  stddev :: flt

datatype absorption = GaussianAbsorption1D | SynthesisedAbsorption1D "flt list" "flt list" flt

text \<open>The \<open>lambda\<close> that ties a stddev closes over the variables \<open>compound_model\<close> and
  \<open>num\<close> of the call of \<open>_update_compound_model\<close> that made it. A Python closure holds
  the variable, not the value it had when the \<open>lambda\<close> was made: every \<open>lambda\<close> of one
  call reads, when the fitter evaluates it, what the loop left in \<open>num\<close>.\<close>

record closure =
  captured_model :: "gaussian list"
  captured_num :: string

record profile =
  kind :: absorption
  components :: "gaussian list"
  fixed :: "string \<Rightarrow> bool"
  bounds :: "string \<rightharpoonup> flt \<times> flt"
  tied :: "string \<rightharpoonup> closure"

text \<open>Decimal numerals, as in the parameter names.\<close>

function str :: "nat \<Rightarrow> string" where
  "str n = (if n < 10 then [''0123456789'' ! n]
            else str (n div 10) @ [''0123456789'' ! (n mod 10)])"
  by pat_completeness auto
termination
  by (relation "measure id") auto

declare str.simps [simp del]

definition param_names :: "gaussian list \<Rightarrow> string list" where
  "param_names cs =
     (if length cs = 1 then [''amplitude'', ''mean'', ''stddev'']
      else concat (map (\<lambda>k. [''amplitude_'' @ str k, ''mean_'' @ str k, ''stddev_'' @ str k])
                       [0..<length cs]))"

definition param_values :: "gaussian list \<Rightarrow> flt list" where
  "param_values cs = concat (map (\<lambda>c. [amplitude c, mean c, stddev c]) cs)"

text \<open>\<open>getattr(model, name)\<close>: \<open>None\<close> stands for \<open>AttributeError\<close>.\<close>

definition getattr :: "gaussian list \<Rightarrow> string \<Rightarrow> flt option" where
  "getattr cs key = map_of (zip (param_names cs) (param_values cs)) key"

text \<open>\<open>param_name.split("_")\<close>, and the unpacking \<open>prefix, num = ...\<close> that falls back
  to \<open>(param_name, "0")\<close> unless there are exactly two parts.\<close>

fun split_underscore :: "string \<Rightarrow> string list" where
  "split_underscore [] = [[]]"
| "split_underscore (ch # rest) =
     (if ch = CHR ''_'' then [] # split_underscore rest
      else (case split_underscore rest of
              [] \<Rightarrow> [[ch]]
            | part # parts \<Rightarrow> (ch # part) # parts))"

definition prefix_num :: "string \<Rightarrow> string \<times> string" where
  "prefix_num param_name =
     (case split_underscore param_name of
        [prefix, num] \<Rightarrow> (prefix, num)
      | _ \<Rightarrow> (param_name, ''0''))"

text \<open>The keyword arguments of \<open>fit_atomic_transitions\<close> after the method has read them:
  \<open>int(oversampling_rate)\<close>, \<open>abs(wavelength_tolerance)\<close> and the bounds by prefix.\<close>

record fit_kwargs =
  oversampling_rate :: int
  wavelength_tolerance :: flt
  common_bounds :: "(string \<times> flt \<times> flt) list"

definition default_fit_kwargs :: fit_kwargs where
  "default_fit_kwargs =
     \<lparr>oversampling_rate = 4, wavelength_tolerance = Fin 0,
      common_bounds = [(''stddev'', (Fin 0, Fin 0.3)), (''amplitude'', (Fin 0, Fin 1))]\<rparr>"

text \<open>\<open>_update_compound_model\<close>. The loop over the parameter names carries the
  dictionaries, the names a \<open>lambda\<close> was stored for, and the variable \<open>num\<close>. When the
  loop is over, each of these names is tied by a closure over this call's model and over
  \<open>num\<close> as the loop left it.\<close>

record update_frame =
  frame_fixed :: "string \<Rightarrow> bool"
  frame_bounds :: "string \<rightharpoonup> flt \<times> flt"
  frame_tied :: "string list"
  frame_num :: string

definition update_step :: "fit_kwargs \<Rightarrow> string \<Rightarrow> update_frame \<Rightarrow> string \<Rightarrow> update_frame" where
  "update_step kwargs transition_mean_key fr param_name =
     (let fixed' = (if take 5 param_name = ''mean_'' \<and> param_name \<noteq> transition_mean_key
                    then (frame_fixed fr)(param_name := True) else frame_fixed fr);
          (prefix, num) = prefix_num param_name;
          bounds' = (case map_of (common_bounds kwargs) prefix of
                       Some b \<Rightarrow> (frame_bounds fr)(param_name \<mapsto> b)
                     | None \<Rightarrow> frame_bounds fr);
          tied' = (if prefix = ''stddev'' \<and> num \<noteq> ''0''
                   then frame_tied fr @ [param_name] else frame_tied fr)
      in \<lparr>frame_fixed = fixed', frame_bounds = bounds', frame_tied = tied', frame_num = num\<rparr>)"

definition update_compound_model :: "fit_kwargs \<Rightarrow> profile \<Rightarrow> flt \<Rightarrow> profile" where
  "update_compound_model kwargs compound_model wl =
     (let single_model = (length (components compound_model) = 1);
          transition_mean_key = (if single_model then ''mean'' else ''mean_0'');
          bounds0 = (if fgt (wavelength_tolerance kwargs) (Fin 0)
                     then (bounds compound_model)
                            (transition_mean_key \<mapsto>
                               (fsub wl (wavelength_tolerance kwargs),
                                fadd wl (wavelength_tolerance kwargs)))
                     else bounds compound_model);
          fixed0 = (if fgt (wavelength_tolerance kwargs) (Fin 0) then fixed compound_model
                    else (fixed compound_model)(transition_mean_key := True));
          fr = foldl (update_step kwargs transition_mean_key)
                 \<lparr>frame_fixed = fixed0, frame_bounds = bounds0, frame_tied = [],
                  frame_num = ''0''\<rparr>
                 (param_names (components compound_model));
          made = \<lparr>captured_model = components compound_model, captured_num = frame_num fr\<rparr>
      in compound_model
           \<lparr>fixed := frame_fixed fr, bounds := frame_bounds fr,
            tied := foldl (\<lambda>m key. m(key \<mapsto> made)) (tied compound_model) (frame_tied fr)\<rparr>)"

text \<open>What the fitter computes when it evaluates a tie for the model \<open>m\<close> it is fitting:
  \<open>_.stddev_0 * getattr(compound_model, "mean_" + num) / _.mean_0\<close>.\<close>

definition tied_value :: "closure \<Rightarrow> gaussian list \<Rightarrow> flt option" where
  "tied_value made m =
     (case (getattr m ''stddev_0'', getattr (captured_model made) (''mean_'' @ captured_num made),
            getattr m ''mean_0'') of
        (Some s0, Some mean_num, Some m0) \<Rightarrow> Some (fdiv (fmul s0 mean_num) m0)
      | _ \<Rightarrow> None)"

text \<open>
  The rows of \<open>self.atomic_transitions\<close> as \<open>fit_atomic_transitions\<close> reads and writes
  them: the wavelengths, the \<open>clean\<close> flags and the equivalent widths (the other columns
  are passed on to the synthesis untouched). The collaborators of the fit:
  \<^item> \<open>self_interpolator\<close>: \<open>self._interpolator\<close>, the photosphere interpolator;
  \<^item> \<open>self_continuum_order\<close>: \<open>self._continuum_order\<close>;
  \<^item> \<open>synthesise\<close>: \<open>synthesis.moog.synthesise\<close>, called with the blending rows, the
    photosphere, the microturbulence, \<open>[x.min(), x.max()]\<close> and the wavelength step;
  \<^item> \<open>fitter\<close>: astropy's \<open>LevMarLSQFitter\<close>, which returns a fitted copy of the model;
  \<^item> \<open>evaluate\<close>: the value of a model at a wavelength, \<open>profile(x)\<close>;
  \<^item> \<open>moog_atomic_abundances\<close>: \<open>synthesis.moog.atomic_abundances\<close>.
\<close>

record table_row = atomic_transition +
  clean :: bool

record 'ph fit_collaborators =
  self_interpolator :: "flt \<Rightarrow> flt \<Rightarrow> flt \<Rightarrow> error + 'ph"
  self_continuum_order :: "nat \<Rightarrow> int"
  synthesise :: "table_row list \<Rightarrow> 'ph \<Rightarrow> flt option \<Rightarrow> flt \<times> flt \<Rightarrow> flt \<Rightarrow>
                 error + flt list \<times> flt list"
  fitter :: "profile \<Rightarrow> flt list \<Rightarrow> flt list \<Rightarrow> error + profile"
  evaluate :: "profile \<Rightarrow> flt \<Rightarrow> flt"
  moog_atomic_abundances :: "table_row list \<Rightarrow> 'ph option \<Rightarrow> flt option \<Rightarrow> error + flt list"

text \<open>\<open>wavelengths_in_data\<close>: the index of the last spectrum that covers each
  wavelength, or -1.\<close>

fun wavelengths_in_data_loop ::
  "flt list \<Rightarrow> int \<Rightarrow> spectrum list \<Rightarrow> int list \<Rightarrow> error + int list" where
  "wavelengths_in_data_loop wavelengths i [] orders = Inr orders"
| "wavelengths_in_data_loop wavelengths i (s # ss) orders =
     (if disp s = [] then Inl IndexError
      else wavelengths_in_data_loop wavelengths (i + 1) ss
             (map (\<lambda>(w, order). if fge (last (disp s)) w \<and> fge w (hd (disp s)) then i else order)
                  (zip wavelengths orders)))"

definition wavelengths_in_data :: "flt list \<Rightarrow> spectrum list \<Rightarrow> error + int list" where
  "wavelengths_in_data wavelengths data' =
     wavelengths_in_data_loop wavelengths 0 data' (replicate (length wavelengths) (- 1))"

text \<open>Slices \<open>a[i:j]\<close>, \<open>a[i:j] = 0\<close>, \<open>np.clip(v, 0, n - 1)\<close>, \<open>a.min()\<close>,
  \<open>a.max()\<close> and \<open>a.argmax()\<close>; the last three raise \<open>ValueError\<close> on an empty array,
  and NaN wins over every number.\<close>

definition slice :: "nat \<Rightarrow> nat \<Rightarrow> 'a list \<Rightarrow> 'a list" where
  "slice i j xs = take (j - i) (drop i xs)"

definition zero_slice :: "nat \<Rightarrow> nat \<Rightarrow> flt list \<Rightarrow> flt list" where
  "zero_slice i j xs = map (\<lambda>(k, v). if i \<le> k \<and> k < j then Fin 0 else v) (zip [0..<length xs] xs)"

definition clip_index :: "nat \<Rightarrow> nat \<Rightarrow> nat" where
  "clip_index n v = (if n = 0 then 0 else min v (n - 1))"

fun argmax_loop :: "nat \<Rightarrow> flt \<Rightarrow> nat \<Rightarrow> flt list \<Rightarrow> nat" where
  "argmax_loop best best_value k [] = best"
| "argmax_loop best best_value k (v # vs) =
     (if best_value \<noteq> NaN \<and> (v = NaN \<or> fgt v best_value)
      then argmax_loop k v (Suc k) vs
      else argmax_loop best best_value (Suc k) vs)"

definition np_argmax :: "flt list \<Rightarrow> nat option" where
  "np_argmax xs = (case xs of [] \<Rightarrow> None | v # vs \<Rightarrow> Some (argmax_loop 0 v 1 vs))"

definition np_max :: "flt list \<Rightarrow> flt option" where
  "np_max xs = map_option (\<lambda>k. xs ! k) (np_argmax xs)"

definition np_min :: "flt list \<Rightarrow> flt option" where
  "np_min xs = map_option (\<lambda>k. xs ! k) (np_argmax (map fneg xs))"

text \<open>The test after a fit: the stddev of the transition sits on its upper bound, or
  the model is more than 5 per cent off the data at the transition
  (\<open>not (1.05 > y[_]/profile(x[_]) > 0.95)\<close>). A bound that was never set compares
  unequal to every number.\<close>

definition upper_bound :: "profile \<Rightarrow> string \<Rightarrow> flt option" where
  "upper_bound p key = map_option snd (bounds p key)"

definition needs_outlier ::
  "'ph fit_collaborators \<Rightarrow> int \<Rightarrow> profile \<Rightarrow> flt list \<Rightarrow> flt list \<Rightarrow> nat \<Rightarrow> error + bool" where
  "needs_outlier env j p x y idx =
     (let saturated = (\<lambda>key. case (getattr (components p) key, upper_bound p key) of
                                (Some s, Some b) \<Rightarrow> Inr (feq s b)
                              | (Some s, None) \<Rightarrow> Inr False
                              | (None, b) \<Rightarrow> Inl (OtherError ''AttributeError''))
      in case (if j = 1 then saturated ''stddev'' else Inr False) of
           Inl e \<Rightarrow> Inl e
         | Inr True \<Rightarrow> Inr True
         | Inr False \<Rightarrow>
             (case (if 1 < j then saturated ''stddev_0'' else Inr False) of
                Inl e \<Rightarrow> Inl e
              | Inr True \<Rightarrow> Inr True
              | Inr False \<Rightarrow>
                  if idx < length y \<and> idx < length x then
                    (let ratio = fdiv (y ! idx) (evaluate env p (x ! idx))
                     in Inr (\<not> (fgt (Fin 1.05) ratio \<and> fgt ratio (Fin 0.95))))
                  else Inl IndexError))"

text \<open>The new component: the residual is set to zero within three initial stddevs of
  every existing mean, and the component is put where the residual is largest.\<close>

definition most_discrepant ::
  "'ph fit_collaborators \<Rightarrow> profile \<Rightarrow> flt list \<Rightarrow> flt list \<Rightarrow> flt \<Rightarrow> error + nat" where
  "most_discrepant env p x y initial_stddev =
     (if length x \<noteq> length y then Inl (ValueError (External ''shape mismatch''))
      else
        (let existing_means = map mean (components p);
             difference = map (\<lambda>(a, b). fsub (evaluate env p a) b) (zip x y);
             masked = foldl (\<lambda>d m.
                         zero_slice
                           (clip_index (length d)
                              (searchsorted x (fsub m (fmul (Fin 3) initial_stddev))))
                           (clip_index (length d)
                              (searchsorted x (fadd m (fmul (Fin 3) initial_stddev)) + 1))
                           d)
                       difference existing_means
         in case np_argmax masked of
              None \<Rightarrow> Inl (ValueError (External ''argmax of an empty sequence''))
            | Some k \<Rightarrow> Inr k))"

definition add_outlier_profile ::
  "'ph fit_collaborators \<Rightarrow> fit_kwargs \<Rightarrow> flt \<Rightarrow> profile \<Rightarrow> flt list \<Rightarrow> flt list \<Rightarrow> flt \<Rightarrow>
   error + profile" where
  "add_outlier_profile env kwargs wl p x y initial_stddev =
     (case most_discrepant env p x y initial_stddev of
        Inl e \<Rightarrow> Inl e
      | Inr k \<Rightarrow>
          Inr (update_compound_model kwargs
                 (p\<lparr>components := components p @
                       [\<lparr>amplitude = fsub (Fin 1) (y ! k), mean = x ! k,
                         stddev = initial_stddev\<rparr>]\<rparr>)
                 wl))"

text \<open>The \<open>while True\<close> loop of one transition, with its counter \<open>j\<close>. Nothing in the
  loop itself bounds it when \<open>max_outlier_profiles\<close> is below \<open>j\<close>, so not returning is
  a possible outcome of the model (the value \<open>None\<close>).\<close>

partial_function (option) outlier_loop ::
  "'ph fit_collaborators \<Rightarrow> fit_kwargs \<Rightarrow> bool \<Rightarrow> int \<Rightarrow> flt \<Rightarrow> flt list \<Rightarrow> flt list \<Rightarrow>
   flt \<Rightarrow> nat \<Rightarrow> int \<Rightarrow> profile \<Rightarrow> (error + profile \<times> int) option" where
  "outlier_loop env kwargs outlier_modeling max_outlier_profiles wl x y initial_stddev idx j p =
     (case fitter env p x y of
        Inl e \<Rightarrow> Some (Inl e)
      | Inr fitted \<Rightarrow>
          if \<not> outlier_modeling \<or> max_outlier_profiles = j then Some (Inr (fitted, j))
          else
            (case needs_outlier env j fitted x y idx of
               Inl e \<Rightarrow> Some (Inl e)
             | Inr triggered \<Rightarrow>
                 if triggered then
                   (case add_outlier_profile env kwargs wl fitted x y initial_stddev of
                      Inl e \<Rightarrow> Some (Inl e)
                    | Inr augmented \<Rightarrow>
                        outlier_loop env kwargs outlier_modeling max_outlier_profiles wl x y
                          initial_stddev idx (j + 1) augmented)
                 else Some (Inr (fitted, j))))"

text \<open>The body of the loop over the measurable transitions, up to the fitted profile:
  the other lines within the window (\<open>blending\<close>), the slice of the spectrum, the first
  guesses, the checks and the first model. \<open>None\<close> means that the outlier loop does not
  return.\<close>

definition first_profile ::
  "'ph fit_collaborators \<Rightarrow> fit_kwargs \<Rightarrow> 'ph option \<Rightarrow> flt option \<Rightarrow> flt \<Rightarrow>
   table_row list \<Rightarrow> bool list \<Rightarrow> flt list \<Rightarrow> flt \<Rightarrow> error + absorption" where
  "first_profile env kwargs photosphere microturbulence wavelength_region table blending x wl =
     (if list_ex id blending then
        (case photosphere of
           None \<Rightarrow> Inl (ValueError (BlendingWithoutParameters wl wavelength_region))
         | Some ph \<Rightarrow>
             (let synth_pixel_size =
                    fdiv (fmean (np_diff x)) (Fin (real_of_int (oversampling_rate kwargs)))
              in case (np_min x, np_max x) of
                   (Some xmin, Some xmax) \<Rightarrow>
                     (case synthesise env (mask blending table) ph microturbulence (xmin, xmax)
                             synth_pixel_size of
                        Inl e \<Rightarrow> Inl e
                      | Inr (synth_disp, synth_flux) \<Rightarrow>
                          Inr (SynthesisedAbsorption1D synth_disp synth_flux synth_pixel_size))
                 | _ \<Rightarrow> Inl (ValueError (External ''zero-size array''))))
      else Inr GaussianAbsorption1D)"

definition window :: "spectrum \<Rightarrow> flt \<Rightarrow> flt \<Rightarrow> flt list \<times> flt list" where
  "window spectrum wl wavelength_region =
     (let lo = searchsorted (disp spectrum) (fsub wl wavelength_region);
          hi = searchsorted (disp spectrum) (fadd wl wavelength_region) + 1
      in (slice lo hi (disp spectrum), slice lo hi (flux spectrum)))"

definition blending_lines :: "table_row list \<Rightarrow> flt \<Rightarrow> nat \<Rightarrow> flt \<Rightarrow> bool list" where
  "blending_lines table wavelength_region transition_index wl =
     (map (\<lambda>r. fge wavelength_region (fabs (fsub (wavelength r) wl))) table)
       [transition_index := False]"

definition fit_transition ::
  "'ph fit_collaborators \<Rightarrow> fit_kwargs \<Rightarrow> 'ph option \<Rightarrow> flt option \<Rightarrow> flt \<Rightarrow> bool \<Rightarrow> int \<Rightarrow>
   table_row list \<Rightarrow> spectrum list \<Rightarrow> nat \<Rightarrow> flt \<Rightarrow> nat \<Rightarrow> (error + profile) option" where
  "fit_transition env kwargs photosphere microturbulence wavelength_region outlier_modeling
     max_outlier_profiles table data' transition_index wl data_index =
     (let blending = blending_lines table wavelength_region transition_index wl;
          (x, y) = window (data' ! data_index) wl wavelength_region;
          initial_stddev = fmul (Fin 5) (fmean (np_diff x));
          idx = searchsorted x wl
      in if \<not> idx < length y then Some (Inl IndexError)
         else if - 1 < self_continuum_order env data_index then Some (Inl NotImplementedError)
         else
           (case first_profile env kwargs photosphere microturbulence wavelength_region table
                   blending x wl of
              Inl e \<Rightarrow> Some (Inl e)
            | Inr k \<Rightarrow>
                map_option (map_sum id fst)
                  (outlier_loop env kwargs outlier_modeling max_outlier_profiles wl x y
                     initial_stddev idx 1
                     (update_compound_model kwargs
                        \<lparr>kind = k,
                         components = [\<lparr>amplitude = fsub (Fin 1) (y ! idx), mean = wl,
                                        stddev = initial_stddev\<rparr>],
                         fixed = (\<lambda>key. False), bounds = Map.empty, tied = Map.empty\<rparr>
                        wl))))"

text \<open>The equivalent width of a fitted profile, in the order the source multiplies:
  \<open>10e3 * np.sqrt(np.pi) * amplitude * 0.25 * stddev\<close>, where \<open>10e3\<close> is ten times
  \<open>10^3\<close>. \<open>None\<close> stands for the \<open>AttributeError\<close> of a missing parameter.\<close>

definition equivalent_width_of :: "profile \<Rightarrow> flt option" where
  "equivalent_width_of p =
     (let single = (''mean'' \<in> set (param_names (components p)));
          amplitude_key = (if single then ''amplitude'' else ''amplitude_0'');
          stddev_key = (if single then ''stddev'' else ''stddev_0'')
      in case (getattr (components p) stddev_key, getattr (components p) amplitude_key) of
           (Some s, Some a) \<Rightarrow>
             Some (fmul (fmul (fmul (fmul (Fin (10 * 10 ^ 3)) (fsqrt (Fin pi))) a) (Fin 0.25)) s)
         | _ \<Rightarrow> None)"

text \<open>The loop over the measurable transitions \<open>(transition_index, wavelength,
  data_index)\<close>. The table is the state: each fitted transition gets its equivalent width
  written, and what was written stays when a later transition raises.\<close>

fun fit_loop ::
  "'ph fit_collaborators \<Rightarrow> fit_kwargs \<Rightarrow> 'ph option \<Rightarrow> flt option \<Rightarrow> flt \<Rightarrow> bool \<Rightarrow> int \<Rightarrow>
   spectrum list \<Rightarrow> (nat \<times> flt \<times> nat) list \<Rightarrow> table_row list \<Rightarrow>
   (error option \<times> table_row list) option" where
  "fit_loop env kwargs photosphere microturbulence wavelength_region outlier_modeling
     max_outlier_profiles data' [] table = Some (None, table)"
| "fit_loop env kwargs photosphere microturbulence wavelength_region outlier_modeling
     max_outlier_profiles data' ((transition_index, wl, data_index) # rest) table =
     (case fit_transition env kwargs photosphere microturbulence wavelength_region
             outlier_modeling max_outlier_profiles table data' transition_index wl data_index of
        None \<Rightarrow> None
      | Some (Inl e) \<Rightarrow> Some (Some e, table)
      | Some (Inr p) \<Rightarrow>
          (case equivalent_width_of p of
             None \<Rightarrow> Some (Some (OtherError ''AttributeError''), table)
           | Some ew \<Rightarrow>
               fit_loop env kwargs photosphere microturbulence wavelength_region
                 outlier_modeling max_outlier_profiles data' rest
                 (table[transition_index := (table ! transition_index)\<lparr>equivalent_width := ew\<rparr>])))"

text \<open>The measurable transitions: clean and covered by a spectrum.\<close>

definition measurable_transitions :: "table_row list \<Rightarrow> int list \<Rightarrow> (nat \<times> flt \<times> nat) list" where
  "measurable_transitions table data_indices =
     map (\<lambda>i. (i, wavelength (table ! i), nat (data_indices ! i)))
         (filter (\<lambda>i. clean (table ! i) \<and> - 1 < data_indices ! i) [0..<length table])"

text \<open>The photosphere of the fit: interpolated when all three stellar parameters are
  given, \<open>None\<close> otherwise.\<close>

definition interpolate_photosphere ::
  "'ph fit_collaborators \<Rightarrow> flt option \<Rightarrow> flt option \<Rightarrow> flt option \<Rightarrow> error + 'ph option" where
  "interpolate_photosphere env effective_temperature surface_gravity metallicity =
     (case (effective_temperature, surface_gravity, metallicity) of
        (Some t, Some g, Some m) \<Rightarrow> map_sum id Some (self_interpolator env t g m)
      | _ \<Rightarrow> Inr None)"

text \<open>\<open>fit_atomic_transitions\<close>. The method has no \<open>return\<close>: after the loop it
  computes abundances and ends in \<open>raise a\<close>, an undefined name. Its outcome is the error
  it raises and the table it leaves behind; \<open>None\<close> means that it does not return. The
  plotting calls are left out.\<close>

definition fit_atomic_transitions ::
  "'ph fit_collaborators \<Rightarrow> table_row list \<Rightarrow> spectrum list \<Rightarrow> flt option \<Rightarrow> flt option \<Rightarrow>
   flt option \<Rightarrow> flt option \<Rightarrow> flt \<Rightarrow> bool \<Rightarrow> int \<Rightarrow> fit_kwargs \<Rightarrow>
   (error \<times> table_row list) option" where
  "fit_atomic_transitions env table data' effective_temperature surface_gravity metallicity
     microturbulence wavelength_region outlier_modeling max_outlier_profiles kwargs =
     (if 1 > oversampling_rate kwargs then Some (ValueError OversamplingRate, table)
      else if ''wavelength'' \<in> set (map fst (common_bounds kwargs))
              \<or> ''mean'' \<in> set (map fst (common_bounds kwargs))
        then Some (ValueError BoundsOnLocation, table)
      else
        (case interpolate_photosphere env effective_temperature surface_gravity metallicity of
           Inl e \<Rightarrow> Some (e, table)
         | Inr photosphere \<Rightarrow>
             (case wavelengths_in_data (map wavelength table) data' of
                Inl e \<Rightarrow> Some (e, table)
              | Inr data_indices \<Rightarrow>
                  (case fit_loop env
                          (kwargs\<lparr>wavelength_tolerance := fabs (wavelength_tolerance kwargs)\<rparr>)
                          photosphere microturbulence wavelength_region outlier_modeling
                          max_outlier_profiles data'
                          (measurable_transitions table data_indices) table of
                     None \<Rightarrow> None
                   | Some (Some e, fitted_table) \<Rightarrow> Some (e, fitted_table)
                   | Some (None, fitted_table) \<Rightarrow>
                       (case moog_atomic_abundances env
                               (map (\<lambda>(i, w, d). fitted_table ! i)
                                    (measurable_transitions table data_indices))
                               photosphere microturbulence of
                          Inl e \<Rightarrow> Some (e, fitted_table)
                        | Inr abundances \<Rightarrow> Some (NameError ''a'', fitted_table))))))"

section \<open>Masks and lists\<close>

lemma mask_map: "mask (map P xs) (map f xs) = map f (filter P xs)"
  by (induction xs) (auto simp: mask_def)

lemma mask_map_id: "mask (map P xs) xs = filter P xs"
  using mask_map[of P xs id] by simp

lemma and_masks: "map (\<lambda>(a, b). a \<and> b) (zip (map N xs) (map P xs)) = map (\<lambda>x. N x \<and> P x) xs"
  by (induction xs) auto

lemma assign_mask_map:
  "assign_mask (map P xs) (map g xs) (map f (filter P xs)) = map (\<lambda>x. if P x then f x else g x) xs"
  by (induction xs) auto

lemma clip_equiv:
  assumes "0 < t"
  shows "fgt (fdiv (fabs a) (fsqrt v)) (Fin t) = fgt (fabs a) (fmul (Fin t) (fsqrt v))"
proof (cases a; cases v)
qed (use assms in \<open>auto simp: field_simps\<close>)


lemma diagnose_map:
  assumes "\<And>r. r \<in> set rec \<Longrightarrow> used (g r) \<Longrightarrow> N r = is_neutral (g r) \<and> I r = (\<not> is_neutral (g r))"
  shows "diagnose env mh (map g rec) (map N rec) (map I rec) =
     \<lparr>use_lines = map used (map g rec),
      neutral_lines = map (\<lambda>r. N r \<and> used (g r)) rec,
      ionised_lines = map (\<lambda>r. I r \<and> used (g r)) rec,
      excitation_slope = excitation_fit (filter used (map g rec)),
      ionisation_state =
        fsub (fmean (map abundance (filter is_neutral (filter used (map g rec)))))
             (fmean (map abundance (filter (\<lambda>r. \<not> is_neutral r) (filter used (map g rec))))),
      abundance_state =
        fmean (map (\<lambda>r. fsub (abundance r) (fadd (solar_abundance env (species r)) mh))
                 (filter used (map g rec))),
      reduced_equivalent_width = map reduced_ew (map g rec),
      line_strength_slope = line_strength_fit (filter used (map g rec))\<rparr>"
proof -
  have u: "map (\<lambda>r. is_filtered r \<and> \<not> is_outlier r) (map g rec) = map (used \<circ> g) rec"
    by (simp add: used_def comp_def)
  have n: "map (\<lambda>(a, b). a \<and> b) (zip (map N rec) (map (used \<circ> g) rec)) = map (\<lambda>r. N r \<and> used (g r)) rec"
    using and_masks[of N rec "used \<circ> g"] by simp
  have i: "map (\<lambda>(a, b). a \<and> b) (zip (map I rec) (map (used \<circ> g) rec)) = map (\<lambda>r. I r \<and> used (g r)) rec"
    using and_masks[of I rec "used \<circ> g"] by simp
  have fn: "filter (\<lambda>r. N r \<and> used (g r)) rec = filter (\<lambda>r. is_neutral (g r) \<and> used (g r)) rec"
    using assms by (intro filter_cong) auto
  have fi: "filter (\<lambda>r. I r \<and> used (g r)) rec = filter (\<lambda>r. \<not> is_neutral (g r) \<and> used (g r)) rec"
    using assms by (intro filter_cong) auto
  have mn: "\<And>f. mask (map (\<lambda>r. N r \<and> used (g r)) rec) (map f (map g rec))
      = map f (filter is_neutral (filter used (map g rec)))"
  proof -
    fix f :: "line_rec \<Rightarrow> 'x"
    have "mask (map (\<lambda>r. N r \<and> used (g r)) rec) (map (f \<circ> g) rec) = map (f \<circ> g) (filter (\<lambda>r. N r \<and> used (g r)) rec)"
      by (rule mask_map)
    also have "\<dots> = map f (filter is_neutral (filter used (map g rec)))"
      by (simp add: fn filter_map comp_def conj_commute)
    finally show "mask (map (\<lambda>r. N r \<and> used (g r)) rec) (map f (map g rec))
      = map f (filter is_neutral (filter used (map g rec)))" by simp
  qed
  have mi: "\<And>f. mask (map (\<lambda>r. I r \<and> used (g r)) rec) (map f (map g rec))
      = map f (filter (\<lambda>r. \<not> is_neutral r) (filter used (map g rec)))"
  proof -
    fix f :: "line_rec \<Rightarrow> 'x"
    have "mask (map (\<lambda>r. I r \<and> used (g r)) rec) (map (f \<circ> g) rec) = map (f \<circ> g) (filter (\<lambda>r. I r \<and> used (g r)) rec)"
      by (rule mask_map)
    also have "\<dots> = map f (filter (\<lambda>r. \<not> is_neutral r) (filter used (map g rec)))"
      by (simp add: fi filter_map comp_def conj_commute)
    finally show "mask (map (\<lambda>r. I r \<and> used (g r)) rec) (map f (map g rec))
      = map f (filter (\<lambda>r. \<not> is_neutral r) (filter used (map g rec)))" by simp
  qed
  have mu: "mask (map (used \<circ> g) rec) (map g rec) = filter used (map g rec)"
    using mask_map[of "used \<circ> g" rec g] by (simp add: filter_map)
  have rw: "map (\<lambda>r. flog (fdiv (equivalent_width r) (wavelength r))) (map g rec) = map reduced_ew (map g rec)"
    by (simp add: reduced_ew_def)
  show ?thesis
    unfolding diagnose_def Let_def u n i rw mn mi mu
    by (simp add: excitation_fit_def line_strength_fit_def)
qed


lemma clip_deviation:
  assumes "0 < t"
  shows "fgt (fdiv (deviation fit x y) (fstd ds)) (Fin t) = fgt (deviation fit x y) (fmul (Fin t) (fstd ds))"
  unfolding deviation_def fstd_def Let_def by (rule clip_equiv[OF assms])

lemma zip_same_map: "zip (map f xs) (map g xs) = map (\<lambda>x. (f x, g x)) xs"
  by (induction xs) auto

lemma zip_self_map: "zip xs (map g xs) = map (\<lambda>x. (x, g x)) xs"
  by (induction xs) auto

lemma sigma_deviations_map:
  "sigma_deviations fit (map fx rows) (map fy rows) =
     map (\<lambda>r. fdiv (deviation fit (fx r) (fy r)) (fstd (map (\<lambda>q. deviation fit (fx q) (fy q)) rows))) rows"
  by (simp add: sigma_deviations_def Let_def zip_same_map deviation_def comp_def)

lemma reject_outliers_spec:
  assumes t: "0 < t"
    and d: "use_lines d = map used rec" "excitation_slope d = excitation_fit (filter used rec)"
      "reduced_equivalent_width d = map reduced_ew rec"
      "line_strength_slope d = line_strength_fit (filter used rec)"
  shows "reject_outliers (Fin t) rec d = one_pass (Fin t) rec"
proof -
  let ?rows = "filter used rec"
  have flags: "map (\<lambda>(a, b). fgt a (Fin t) \<or> fgt b (Fin t))
          (zip (sigma_deviations (excitation_fit ?rows) (map excitation_potential ?rows) (map abundance ?rows))
               (sigma_deviations (line_strength_fit ?rows) (map reduced_ew ?rows) (map abundance ?rows)))
        = map (clipped (Fin t) ?rows) ?rows"
    by (simp add: sigma_deviations_map zip_same_map comp_def clipped_def clip_deviation[OF t])
  have "reject_outliers (Fin t) rec d =
      map (\<lambda>(r, out). r\<lparr>is_outlier := out\<rparr>)
        (zip rec (assign_mask (map used rec) (map is_outlier rec) (map (clipped (Fin t) ?rows) ?rows)))"
    unfolding reject_outliers_def Let_def d mask_map flags ..
  also have "\<dots> = map (\<lambda>r. r\<lparr>is_outlier := (if used r then clipped (Fin t) ?rows r else is_outlier r)\<rparr>) rec"
    by (simp add: assign_mask_map zip_self_map comp_def)
  also have "\<dots> = one_pass (Fin t) rec"
    unfolding one_pass_def by (rule map_cong) auto
  finally show ?thesis .
qed


lemma one_pass_map: "one_pass t rec = map (flag_row t rec) rec"
  by (simp add: one_pass_def flag_row_def)

lemma flag_row_used: "used (flag_row t rec r) \<Longrightarrow> used r"
  by (auto simp: flag_row_def split: if_splits)

lemma flag_row_neutral: "is_neutral (flag_row t rec r) = is_neutral r"
  by (simp add: flag_row_def is_neutral_def)

lemma state_vector_diagnose:
  assumes "\<And>r. r \<in> set rec \<Longrightarrow> used (g r) \<Longrightarrow> N r = is_neutral (g r) \<and> I r = (\<not> is_neutral (g r))"
  shows "state_vector (diagnose env mh (map g rec) (map N rec) (map I rec)) =
         lines_state env mh (filter used (map g rec))"
  by (simp add: diagnose_map[OF assms] state_vector_def lines_state_def)

lemma state_loop_removed:
  "state_loop env mh clip True rec n i = (state_vector (diagnose env mh rec n i), rec)"
  by (subst state_loop.simps) (simp add: Let_def)

lemma state_loop_skip:
  assumes "clip = Some None \<or> (\<exists>v. clip = Some (Some v) \<and> (\<not> isfinite v \<or> fge (Fin 0) v))"
  shows "state_loop env mh clip False rec n i = (state_vector (diagnose env mh rec n i), rec)"
  using assms by (subst state_loop.simps) (auto simp: Let_def)

lemma state_loop_limit:
  assumes "isfinite v" "\<not> fge (Fin 0) v"
  shows "state_loop env mh (Some (Some v)) False rec n i =
     state_loop env mh (Some (Some v)) True
       (reject_outliers v rec (diagnose env mh rec n i))
       (neutral_lines (diagnose env mh rec n i)) (ionised_lines (diagnose env mh rec n i))"
  using assms by (subst state_loop.simps) (simp add: Let_def)

lemma state_loop_default:
  "state_loop env mh None False rec n i =
     state_loop env mh None True
       (reject_outliers (Fin 3) rec (diagnose env mh rec n i))
       (neutral_lines (diagnose env mh rec n i)) (ionised_lines (diagnose env mh rec n i))"
  by (subst state_loop.simps) (simp add: Let_def fge_def)

lemma diagnose_first:
  "diagnose env mh rec (map is_neutral rec) (map (Not \<circ> is_neutral) rec) =
     \<lparr>use_lines = map used rec,
      neutral_lines = map (\<lambda>r. is_neutral r \<and> used r) rec,
      ionised_lines = map (\<lambda>r. \<not> is_neutral r \<and> used r) rec,
      excitation_slope = excitation_fit (filter used rec),
      ionisation_state =
        fsub (fmean (map abundance (filter is_neutral (filter used rec))))
             (fmean (map abundance (filter (\<lambda>r. \<not> is_neutral r) (filter used rec)))),
      abundance_state =
        fmean (map (\<lambda>r. fsub (abundance r) (fadd (solar_abundance env (species r)) mh))
                 (filter used rec)),
      reduced_equivalent_width = map reduced_ew rec,
      line_strength_slope = line_strength_fit (filter used rec)\<rparr>"
  using diagnose_map[of rec "\<lambda>r. r" is_neutral "Not \<circ> is_neutral" env mh]
  by simp

lemma rejection_pass_one_pass:
  assumes "0 < t"
  shows "rejection_pass env mh (Fin t) rec = one_pass (Fin t) rec"
  unfolding rejection_pass_def
  by (rule reject_outliers_spec[OF assms]) (simp_all add: diagnose_first)

lemma second_diagnosis:
  "state_vector (diagnose env mh (one_pass t rec)
        (map (\<lambda>r. is_neutral r \<and> used r) rec) (map (\<lambda>r. \<not> is_neutral r \<and> used r) rec))
     = lines_state env mh (filter used (one_pass t rec))"
  unfolding one_pass_map
  by (rule state_vector_diagnose) (auto simp: flag_row_neutral dest: flag_row_used)

lemma pass_then_state:
  assumes "0 < t"
  shows "state_loop env mh clip True
       (reject_outliers (Fin t) rec (diagnose env mh rec (map is_neutral rec) (map Not (map is_neutral rec))))
       (neutral_lines (diagnose env mh rec (map is_neutral rec) (map Not (map is_neutral rec))))
       (ionised_lines (diagnose env mh rec (map is_neutral rec) (map Not (map is_neutral rec))))
     = (lines_state env mh (filter used (one_pass (Fin t) rec)), one_pass (Fin t) rec)"
proof -
  have r: "reject_outliers (Fin t) rec (diagnose env mh rec (map is_neutral rec) (map Not (map is_neutral rec)))
      = one_pass (Fin t) rec"
    using rejection_pass_one_pass[OF assms] by (simp add: rejection_pass_def)
  show ?thesis
    unfolding r state_loop_removed
    by (simp add: diagnose_first second_diagnosis)
qed

lemma first_state:
  "state_vector (diagnose env mh rec (map is_neutral rec) (map Not (map is_neutral rec)))
     = lines_state env mh (filter used rec)"
  by (simp add: diagnose_first state_vector_def lines_state_def)


lemma loop_with_limit:
  assumes "0 < t"
  shows "state_loop env mh (Some (Some (Fin t))) False rec (map is_neutral rec) (map Not (map is_neutral rec))
     = (lines_state env mh (filter used (one_pass (Fin t) rec)), one_pass (Fin t) rec)"
proof -
  have "isfinite (Fin t)" "\<not> fge (Fin 0) (Fin t)" using assms by (simp_all add: fge_def)
  show ?thesis
    unfolding state_loop_limit[OF \<open>isfinite (Fin t)\<close> \<open>\<not> fge (Fin 0) (Fin t)\<close>]
    by (rule pass_then_state[OF assms])
qed

lemma loop_default:
  "state_loop env mh None False rec (map is_neutral rec) (map Not (map is_neutral rec))
     = (lines_state env mh (filter used (one_pass (Fin 3) rec)), one_pass (Fin 3) rec)"
  unfolding state_loop_default by (rule pass_then_state) simp

lemma loop_skipped:
  assumes "clip = Some None \<or> (\<exists>v. clip = Some (Some v) \<and> (\<not> isfinite v \<or> fge (Fin 0) v))"
  shows "state_loop env mh clip False rec (map is_neutral rec) (map Not (map is_neutral rec))
     = (lines_state env mh (filter used rec), rec)"
  unfolding state_loop_skip[OF assms] first_state ..

section \<open>A worked example\<close>

text \<open>
  Five lines measured at 100 milliAngstrom: four neutral lines (species 26)
  at excitation potentials 0, 1, 2, 3 and one ionised line (species 26.1). The stand-in
  abundance evaluator returns the \<open>loggf\<close> column, so the neutral abundances are
  8, 6, 6, 8 and the ionised one is 9; the solar abundance is 7. \<open>example_rec a b\<close> is the
  record array with the neutral lines flagged as outliers when \<open>a\<close> and the ionised line
  when \<open>b\<close>.
\<close>

definition example_env :: "collaborators" where
  "example_env =
     \<lparr>continuum_order = (\<lambda>c. - 1),
      fit_profile = (\<lambda>a c co. Inr a),
      atomic_abundances = (\<lambda>ls sp vt. Inr (map loggf ls)),
      solar_abundance = (\<lambda>sp. Fin 7)\<rparr>"

definition example_row :: "real \<Rightarrow> real \<Rightarrow> real \<Rightarrow> bool \<Rightarrow> line_rec" where
  "example_row sp ep ab out =
     \<lparr>wavelength = Fin 100, species = Fin sp, excitation_potential = Fin ep, loggf = Fin ab,
      equivalent_width = Fin 100, van_der_waals_broadening = Fin 0, damp2 = Fin 0,
      abundance = Fin ab, is_filtered = True, is_outlier = out\<rparr>"

definition example_rec :: "bool \<Rightarrow> bool \<Rightarrow> line_rec list" where
  "example_rec a b =
     [example_row 26 0 8 a, example_row 26 1 6 a, example_row 26 2 6 a, example_row 26 3 8 a,
      example_row (261 / 10) 0 9 b]"

lemmas flt_defs = fsub_def fge_def fsum_def fmean_def fstd_def linregress_def

lemma sqrt_4_25: "sqrt (4 / 25) = 2 / 5"
  by (rule real_sqrt_unique) (simp_all add: power2_eq_square)

lemma example_used: "filter used (example_rec False False) = example_rec False False"
  by (simp add: example_rec_def example_row_def used_def)

lemma example_neutral:
  "filter is_neutral (example_rec a b) =
     [example_row 26 0 8 a, example_row 26 1 6 a, example_row 26 2 6 a, example_row 26 3 8 a]"
  by (simp add: example_rec_def example_row_def is_neutral_def frac_def)

lemma example_excitation_fit: "excitation_fit (example_rec a b) = (Fin 0, Fin 7)"
  unfolding excitation_fit_def example_neutral
  by (simp add: example_row_def flt_defs)

lemma example_line_strength_fit: "line_strength_fit (example_rec a b) = (NaN, NaN)"
  unfolding line_strength_fit_def example_neutral
  by (simp add: example_row_def reduced_ew_def flt_defs)

lemma example_first_pass: "one_pass (Fin 3) (example_rec False False) = example_rec False True"
  unfolding one_pass_def example_used clipped_def example_excitation_fit example_line_strength_fit
  by (simp add: example_rec_def example_row_def used_def deviation_def flt_defs sqrt_4_25)


lemma example_used2:
  "filter used (example_rec False True) =
     [example_row 26 0 8 False, example_row 26 1 6 False, example_row 26 2 6 False,
      example_row 26 3 8 False]"
  by (simp add: example_rec_def example_row_def used_def)

lemma example_neutral4:
  "filter is_neutral [example_row 26 0 8 a, example_row 26 1 6 a, example_row 26 2 6 a, example_row 26 3 8 a]
   = [example_row 26 0 8 a, example_row 26 1 6 a, example_row 26 2 6 a, example_row 26 3 8 a]"
  by (simp add: example_row_def is_neutral_def)

lemma example_excitation_fit4:
  "excitation_fit [example_row 26 0 8 a, example_row 26 1 6 a, example_row 26 2 6 a, example_row 26 3 8 a]
   = (Fin 0, Fin 7)"
  unfolding excitation_fit_def example_neutral4
  by (simp add: example_row_def flt_defs)

lemma example_line_strength_fit4:
  "line_strength_fit [example_row 26 0 8 a, example_row 26 1 6 a, example_row 26 2 6 a, example_row 26 3 8 a]
   = (NaN, NaN)"
  unfolding line_strength_fit_def example_neutral4
  by (simp add: example_row_def reduced_ew_def flt_defs)

lemma example_second_pass: "one_pass (Fin 3) (example_rec False True) = example_rec True True"
  unfolding one_pass_def example_used2 clipped_def example_excitation_fit4 example_line_strength_fit4
  by (simp add: example_rec_def example_row_def used_def deviation_def flt_defs)

lemma example_final_state:
  "lines_state example_env (Fin 0) (filter used (example_rec False True)) = [Fin 0, NaN, Fin 0, NaN]"
  unfolding example_used2 lines_state_def example_excitation_fit4 example_line_strength_fit4 example_neutral4
  by (simp add: example_row_def is_neutral_def example_env_def flt_defs)

lemma example_initial_state:
  "lines_state example_env (Fin 0) (filter used (example_rec False False)) = [Fin 0, Fin (- 2), Fin (2 / 5), NaN]"
  unfolding example_used lines_state_def example_excitation_fit example_line_strength_fit example_neutral
  by (simp add: example_rec_def example_row_def is_neutral_def example_env_def flt_defs frac_def)


section \<open>The outlier rejection loop\<close>

text \<open>
  The loop of \<open>equalibrium_state\<close> on a record array: with a positive finite threshold
  one rejection pass and the diagnostics of the lines still in use (\<open>loop_with_limit\<close>),
  the threshold 3 when the keyword is absent (\<open>loop_default\<close>), and no rejection for
  \<open>None\<close> or a threshold that is not finite or not positive (\<open>loop_skipped\<close>). The
  method itself never gets there.
\<close>

lemma line_table_name_error:
  "line_table env data effective_temperature surface_gravity metallicity microturbulence kwargs
     = Inl (NameError ''interpolator'')"
  by (simp add: line_table_def unbound_name_def)

lemma equalibrium_state_name_error:
  "equalibrium_state env data effective_temperature surface_gravity metallicity microturbulence
     kwargs = Inl (NameError ''interpolator'')"
  by (simp add: equalibrium_state_def line_table_name_error)

text \<open>
  Claim C4. \<open>equalibrium_state\<close> calls the name \<open>interpolator\<close> before anything else is
  computed, and nothing binds that name. Every invocation, whatever the outlier threshold,
  the spectra and the stellar parameters, raises \<open>NameError\<close> there: no diagnostics are
  computed and no rejection pass runs.
\<close>

theorem equalibrium_state_runs_no_rejection_pass:
  "equalibrium_state env data effective_temperature surface_gravity metallicity microturbulence
     \<lparr>filter_transition = filter_transition', outlier_sigma_clip = Some (Some outlier_limit)\<rparr>
   = Inl (NameError ''interpolator'')
   \<and> equalibrium_state env data effective_temperature surface_gravity metallicity microturbulence
       \<lparr>filter_transition = filter_transition', outlier_sigma_clip = None\<rparr>
     = Inl (NameError ''interpolator'')
   \<and> equalibrium_state env data effective_temperature surface_gravity metallicity microturbulence
       \<lparr>filter_transition = filter_transition', outlier_sigma_clip = Some None\<rparr>
     = Inl (NameError ''interpolator'')"
  by (simp add: equalibrium_state_name_error)

section \<open>The objective of the solver at a failed abundance computation\<close>

lemma state_function_unfold:
  "state_function env transitions_table (x0, x1, x2, x3) =
     (case atomic_abundances env (map moog_line.truncate (filter used transitions_table))
             [x0, x1, x2] (Some x3) of
        Inl (ValueError v) \<Rightarrow> Inr [NaN, NaN, NaN, NaN]
      | Inl e \<Rightarrow> Inl e
      | Inr abundances \<Rightarrow>
          if length abundances \<noteq> length (filter used transitions_table) then Inl IndexError
          else
            (let rows = filter used transitions_table;
                 neutral = map is_neutral rows;
                 state =
                   [fst (linregress (map excitation_potential (filter is_neutral rows))
                                    (mask neutral abundances)),
                    fsub (fmean (mask neutral abundances))
                         (fmean (mask (map (\<lambda>r. fgt (fmod1 (species r)) (Fin 0)) rows) abundances)),
                    fmul (Fin (1 / 10))
                      (fmean (map (\<lambda>(a, r). fsub a (fadd (solar_abundance env (species r)) x2))
                                  (zip abundances rows))),
                    fst (linregress (map reduced_ew (filter is_neutral rows))
                                    (mask neutral abundances))]
             in if list_ex (\<lambda>v. \<not> isfinite v) state
                then Inl (NameError ''WTFError'') else Inr state))"
proof -
  have u: "map (\<lambda>r. is_filtered r \<and> \<not> is_outlier r) transitions_table = map used transitions_table"
    by (simp add: used_def)
  have n: "map (\<lambda>r. feq (fmod1 (species r)) (Fin 0)) (filter used transitions_table)
      = map is_neutral (filter used transitions_table)"
    by (simp add: is_neutral_def)
  have r: "map (\<lambda>r. flog (fdiv (equivalent_width r) (wavelength r))) transitions_table
      = map reduced_ew transitions_table"
    by (simp add: reduced_ew_def)
  show ?thesis
    unfolding state_function_def Let_def u mask_map_id n r mask_map
    by (simp add: is_neutral_def split: sum.split error.split)
qed

text \<open>
  Claim C3, as the code has it. When the abundance computation fails with a
  \<open>ValueError\<close> at a trial vector, \<open>state_function\<close> does not raise: it returns the
  sentinel 4-vector (NaN, NaN, NaN, NaN), which is not finite. A failure of another kind
  is not caught.
\<close>

theorem state_function_sentinel:
  "(atomic_abundances env (map moog_line.truncate (filter used transitions_table))
       [x0, x1, x2] (Some x3) = Inl (ValueError v) \<longrightarrow>
     state_function env transitions_table (x0, x1, x2, x3) = Inr [NaN, NaN, NaN, NaN])
   \<and> (atomic_abundances env (map moog_line.truncate (filter used transitions_table))
       [x0, x1, x2] (Some x3) = Inl e \<and> (\<forall>w. e \<noteq> ValueError w) \<longrightarrow>
     state_function env transitions_table (x0, x1, x2, x3) = Inl e)
   \<and> \<not> isfinite NaN"
  unfolding state_function_unfold by (cases e) auto

definition off_grid_env :: "collaborators" where
  "off_grid_env =
     example_env\<lparr>atomic_abundances := (\<lambda>ls sp vt. Inl (ValueError (External ''outside the grid'')))\<rparr>"

theorem state_function_sentinel_witness:
  "state_function off_grid_env (example_rec False True) (Fin 9000, Fin 4, Fin 0, Fin 1)
     = Inr [NaN, NaN, NaN, NaN]
   \<and> state_function
        (example_env\<lparr>atomic_abundances := (\<lambda>ls sp vt. Inl (OtherError ''interrupted''))\<rparr>)
        (example_rec False True) (Fin 9000, Fin 4, Fin 0, Fin 1)
     = Inl (OtherError ''interrupted'')"
  using state_function_sentinel[of off_grid_env "example_rec False True" "Fin 9000" "Fin 4" "Fin 0" "Fin 1"
          "External ''outside the grid''" "OtherError ''x''"]
        state_function_sentinel[of "example_env\<lparr>atomic_abundances := (\<lambda>ls sp vt. Inl (OtherError ''interrupted''))\<rparr>"
          "example_rec False True" "Fin 9000" "Fin 4" "Fin 0" "Fin 1"
          "External ''x''" "OtherError ''interrupted''"]
  by (simp add: off_grid_env_def)

text \<open>Claim C3 as stated fails: the sentinel returned is not a finite vector.\<close>

theorem state_function_finite_sentinel_counterexample:
  "state_function off_grid_env (example_rec False True) (Fin 9000, Fin 4, Fin 0, Fin 1)
     = Inr [NaN, NaN, NaN, NaN]
   \<and> \<not> list_all isfinite [NaN, NaN, NaN, NaN]"
  by (simp add: state_function_unfold off_grid_env_def)


section \<open>Regressions without a slope\<close>

text \<open>
  Claim C2. The code has no \<open>DiagnosticUndefined\<close> error, and \<open>equalibrium_state\<close>
  never gets as far as a regression: it reads the unbound name \<open>interpolator\<close> first.
  For every input, whether or not the lines would make a regression set with fewer than
  two points or with identical x-values, the call raises \<open>NameError\<close>; it returns no
  diagnostics, NaN or other.
\<close>

theorem equalibrium_state_returns_no_diagnostics:
  "equalibrium_state env data effective_temperature surface_gravity metallicity microturbulence
     kwargs \<noteq> Inr (state, atomic_transitions_rec, atomic_transitions)"
  by (simp add: equalibrium_state_name_error)


section \<open>Applying the rejection pass again\<close>

lemma length_filter_mono:
  assumes "\<And>x. x \<in> set xs \<Longrightarrow> P x \<Longrightarrow> Q x"
  shows "length (filter P xs) \<le> length (filter Q xs)"
  using assms by (induction xs) auto

lemma length_filter_strict:
  assumes "\<And>x. x \<in> set xs \<Longrightarrow> P x \<Longrightarrow> Q x" "z \<in> set xs" "Q z" "\<not> P z"
  shows "length (filter P xs) < length (filter Q xs)"
  using assms
proof (induction xs)
  case Nil
  then show ?case by simp
next
  case (Cons x xs)
  have mono: "length (filter P xs) \<le> length (filter Q xs)"
    using Cons.prems(1) by (intro length_filter_mono) auto
  show ?case
  proof (cases "z = x")
    case True
    then show ?thesis using Cons.prems mono by auto
  next
    case False
    then have "z \<in> set xs" using Cons.prems(2) by simp
    then have "length (filter P xs) < length (filter Q xs)"
      using Cons.IH Cons.prems by auto
    then show ?thesis using Cons.prems(1)[of x] by auto
  qed
qed

lemma flag_row_unchanged:
  "\<not> (used r \<and> clipped t (filter used rec) r) \<Longrightarrow> flag_row t rec r = r"
  by (auto simp: flag_row_def used_def)

lemma flag_row_flagged:
  "used r \<Longrightarrow> clipped t (filter used rec) r \<Longrightarrow> \<not> used (flag_row t rec r)"
  by (simp add: flag_row_def used_def)

lemma one_pass_fixed_or_fewer:
  "one_pass t rec = rec \<or> length (filter used (one_pass t rec)) < length (filter used rec)"
proof (cases "\<exists>r\<in>set rec. used r \<and> clipped t (filter used rec) r")
  case False
  then have "map (flag_row t rec) rec = rec"
    by (intro map_idI flag_row_unchanged) blast
  then show ?thesis by (simp add: one_pass_map)
next
  case True
  then obtain z where z: "z \<in> set rec" "used z" "clipped t (filter used rec) z" by blast
  have "length (filter used (one_pass t rec)) = length (filter (used \<circ> flag_row t rec) rec)"
    by (simp add: one_pass_map filter_map)
  also have "\<dots> < length (filter used rec)"
  proof (rule length_filter_strict[where z = z])
    show "\<And>x. x \<in> set rec \<Longrightarrow> (used \<circ> flag_row t rec) x \<Longrightarrow> used x"
      using flag_row_used by auto
    show "z \<in> set rec" "used z" by (rule z)+
    show "\<not> (used \<circ> flag_row t rec) z" using flag_row_flagged[OF z(2,3)] by simp
  qed
  finally show ?thesis by simp
qed

lemma one_pass_stable:
  "length (filter used rec) \<le> n \<Longrightarrow> one_pass t ((one_pass t ^^ n) rec) = (one_pass t ^^ n) rec"
proof (induction n arbitrary: rec)
  case 0
  then show ?case using one_pass_fixed_or_fewer[of t rec] by simp
next
  case (Suc n)
  have step: "(one_pass t ^^ Suc n) rec = (one_pass t ^^ n) (one_pass t rec)"
    by (simp add: funpow_swap1)
  show ?case
  proof (cases "one_pass t rec = rec")
    case True
    then have "(one_pass t ^^ k) rec = rec" for k by (induction k) simp_all
    then show ?thesis using True by simp
  next
    case False
    then have "length (filter used (one_pass t rec)) < length (filter used rec)"
      using one_pass_fixed_or_fewer[of t rec] by simp
    then have "length (filter used (one_pass t rec)) \<le> n" using Suc.prems by simp
    from Suc.IH[OF this] show ?thesis unfolding step .
  qed
qed

lemma one_pass_length: "length (one_pass t rec) = length rec"
  by (simp add: one_pass_map)

lemma one_pass_nth: "i < length rec \<Longrightarrow> one_pass t rec ! i = flag_row t rec (rec ! i)"
  by (simp add: one_pass_map)

lemma flag_row_keeps_flag: "is_outlier r \<Longrightarrow> is_outlier (flag_row t rec r)"
  by (simp add: flag_row_def used_def)

lemma flag_row_only_flag: "(flag_row t rec r)\<lparr>is_outlier := is_outlier r\<rparr> = r"
  by (simp add: flag_row_def)

lemma flag_row_fields:
  "is_filtered (flag_row t rec r) = is_filtered r"
  "abundance (flag_row t rec r) = abundance r"
  "equivalent_width (flag_row t rec r) = equivalent_width r"
  by (simp_all add: flag_row_def)

lemma rejection_pass_is_one_pass: "0 < t \<Longrightarrow> rejection_pass env mh (Fin t) = one_pass (Fin t)"
  by (rule ext) (rule rejection_pass_one_pass)

text \<open>
  Claim C7, as the code has it. For a positive finite threshold, an application of the
  rejection pass keeps the table's length, changes nothing but \<open>is_outlier\<close>, leaves the
  lines that are not in use alone and never clears a flag. A second application can flag
  further lines, but the lines in use only get fewer: once the pass has been applied as
  many times as there are lines in use, applying it again changes nothing, so repeated
  application cannot oscillate.
\<close>

theorem rejection_pass_only_adds_flags:
  assumes "0 < t"
  shows "length (rejection_pass env mh (Fin t) rec) = length rec
    \<and> (\<forall>i<length rec.
          (is_outlier (rec ! i) \<longrightarrow> is_outlier (rejection_pass env mh (Fin t) rec ! i))
        \<and> (\<not> used (rec ! i) \<longrightarrow> rejection_pass env mh (Fin t) rec ! i = rec ! i)
        \<and> (rejection_pass env mh (Fin t) rec ! i)\<lparr>is_outlier := is_outlier (rec ! i)\<rparr> = rec ! i)
    \<and> (\<forall>n\<ge>length (filter used rec).
          rejection_pass env mh (Fin t) ((rejection_pass env mh (Fin t) ^^ n) rec)
          = (rejection_pass env mh (Fin t) ^^ n) rec)"
  unfolding rejection_pass_is_one_pass[OF assms]
  by (auto simp: one_pass_length one_pass_nth flag_row_keeps_flag flag_row_only_flag
        flag_row_unchanged one_pass_stable)

theorem rejection_pass_only_adds_flags_witness:
  "length (rejection_pass example_env (Fin 0) (Fin 3) (example_rec False False)) = 5
   \<and> rejection_pass example_env (Fin 0) (Fin 3)
        ((rejection_pass example_env (Fin 0) (Fin 3) ^^ 5) (example_rec False False))
      = (rejection_pass example_env (Fin 0) (Fin 3) ^^ 5) (example_rec False False)"
proof -
  have "0 < (3::real)" by simp
  note th = rejection_pass_only_adds_flags[OF this, of example_env "Fin 0" "example_rec False False"]
  have l: "length (filter used (example_rec False False)) \<le> 5"
    by (simp add: example_used example_rec_def)
  from th l show ?thesis by (simp add: example_rec_def)
qed

text \<open>Claim C7 as stated fails: on the worked example with the threshold 3 the first
  application flags the ionised line only and the second flags the four neutral lines,
  whose deviations from the refitted line are all equal.\<close>

theorem rejection_pass_twice_counterexample:
  "rejection_pass example_env (Fin 0) (Fin 3) (example_rec False False) = example_rec False True
   \<and> rejection_pass example_env (Fin 0) (Fin 3)
        (rejection_pass example_env (Fin 0) (Fin 3) (example_rec False False))
      = example_rec True True
   \<and> map is_outlier (example_rec False True) = [False, False, False, False, True]
   \<and> map is_outlier (example_rec True True) = [True, True, True, True, True]"
proof -
  have p: "rejection_pass example_env (Fin 0) (Fin 3) = one_pass (Fin 3)"
    by (rule rejection_pass_is_one_pass) simp
  have m: "map is_outlier (example_rec a b) = [a, a, a, a, b]" for a b
    by (simp add: example_rec_def example_row_def)
  show ?thesis
    unfolding p example_first_pass example_second_pass m by simp
qed


section \<open>The line filter\<close>

text \<open>
  Claim C10. The filter is applied, and the abundances are assigned, in the part of
  \<open>equalibrium_state\<close> that builds the record array (\<open>line_table\<close>). With the default
  filter as with any other, that part raises \<open>NameError\<close> at the unbound name
  \<open>interpolator\<close> before a transition is fitted or filtered: no transition is given
  an abundance, NaN or other, and none contributes to a diagnostic.
\<close>

theorem line_table_applies_no_filter:
  "line_table env data effective_temperature surface_gravity metallicity microturbulence
     \<lparr>filter_transition = None, outlier_sigma_clip = outlier_sigma_clip'\<rparr>
   = Inl (NameError ''interpolator'')"
  by (rule line_table_name_error)


section \<open>Re-initialising an augmented table\<close>

lemma find_filter_other:
  assumes "\<And>x. P x \<Longrightarrow> Q x"
  shows "find P (filter Q xs) = find P xs"
  using assms by (induction xs) auto

lemma find_append_none: "find P xs = None \<Longrightarrow> find P (xs @ ys) = find P ys"
  by (induction xs) (auto split: if_splits)

lemma find_append_some: "find P xs = Some x \<Longrightarrow> find P (xs @ ys) = Some x"
  by (induction xs) (auto split: if_splits)

lemma find_append_not: "\<not> P y \<Longrightarrow> find P (xs @ [y]) = find P xs"
  by (induction xs) auto

lemma find_name_none: "find (\<lambda>c. name c = n) t = None \<longleftrightarrow> n \<notin> set (map name t)"
  by (auto simp: find_None_iff)

lemma names_replace:
  assumes "n \<in> set (map name t)" "name new = n"
  shows "set (map name (filter (\<lambda>col. name col \<noteq> n) t @ [new])) = set (map name t)"
proof
  show "set (map name (filter (\<lambda>col. name col \<noteq> n) t @ [new])) \<subseteq> set (map name t)"
    using assms by auto
  show "set (map name t) \<subseteq> set (map name (filter (\<lambda>col. name col \<noteq> n) t @ [new]))"
  proof
    fix m assume "m \<in> set (map name t)"
    then obtain col where col: "col \<in> set t" "name col = m" by auto
    show "m \<in> set (map name (filter (\<lambda>col. name col \<noteq> n) t @ [new]))"
    proof (cases "m = n")
      case True
      then show ?thesis using assms(2) by simp
    next
      case False
      then have "col \<in> set (filter (\<lambda>col. name col \<noteq> n) t)" using col by simp
      then have "name col \<in> name ` set (filter (\<lambda>col. name col \<noteq> n) t)" by (rule imageI)
      then show ?thesis using col(2) by simp
    qed
  qed
qed

lemma add_default_columns_names:
  "add_default_columns lib cs t = Inr t' \<Longrightarrow> set (map name t') = set (map name t) \<union> set (map name cs)"
proof (induction cs arbitrary: t)
  case Nil
  then show ?case by simp
next
  case (Cons c cs)
  show ?case
  proof (cases "find (\<lambda>old. name old = name c) t")
    case None
    with Cons.prems have "add_default_columns lib cs (t @ [c]) = Inr t'" by simp
    from Cons.IH[OF this] show ?thesis by auto
  next
    case (Some old)
    then have inn: "name c \<in> set (map name t)"
      by (metis find_name_none option.distinct(1))
    from Some have nm: "name old = name c" by (auto simp: find_Some_iff)
    have un: "set (map name t) \<union> set (map name (c # cs)) = set (map name t) \<union> set (map name cs)"
      using inn by auto
    show ?thesis
    proof (cases "dtype c \<noteq> dtype old")
      case True
      with Some Cons.prems obtain converted where
        a: "add_default_columns lib cs
           (filter (\<lambda>col. name col \<noteq> name c) t @ [old\<lparr>dtype := dtype c, col_data := converted\<rparr>]) = Inr t'"
        by (auto split: option.splits)
      have ns: "set (map name (filter (\<lambda>col. name col \<noteq> name c) t @ [old\<lparr>dtype := dtype c, col_data := converted\<rparr>]))
          = set (map name t)"
        by (rule names_replace[OF inn]) (simp add: nm)
      show ?thesis unfolding un using Cons.IH[OF a] by (simp only: ns)
    next
      case False
      with Some Cons.prems have "add_default_columns lib cs t = Inr t'" by simp
      from Cons.IH[OF this] show ?thesis unfolding un .
    qed
  qed
qed

lemma add_default_columns_distinct:
  "add_default_columns lib cs t = Inr t' \<Longrightarrow> distinct (map name t) \<Longrightarrow> distinct (map name t')"
proof (induction cs arbitrary: t)
  case Nil
  then show ?case by simp
next
  case (Cons c cs)
  show ?case
  proof (cases "find (\<lambda>old. name old = name c) t")
    case None
    then have "name c \<notin> set (map name t)" by (simp add: find_name_none)
    moreover from None Cons.prems have "add_default_columns lib cs (t @ [c]) = Inr t'" by simp
    ultimately show ?thesis using Cons.IH[of "t @ [c]"] Cons.prems(2) by simp
  next
    case (Some old)
    then have old: "name old = name c" by (auto simp: find_Some_iff)
    show ?thesis
    proof (cases "dtype c \<noteq> dtype old")
      case True
      with Some Cons.prems obtain converted where
        a: "add_default_columns lib cs
           (filter (\<lambda>col. name col \<noteq> name c) t @ [old\<lparr>dtype := dtype c, col_data := converted\<rparr>]) = Inr t'"
        by (auto split: option.splits)
      have "distinct (map name (filter (\<lambda>col. name col \<noteq> name c) t @ [old\<lparr>dtype := dtype c, col_data := converted\<rparr>]))"
        using Cons.prems(2) old by (auto simp: distinct_map_filter)
      from Cons.IH[OF a this] show ?thesis .
    next
      case False
      with Some Cons.prems have "add_default_columns lib cs t = Inr t'" by simp
      from Cons.IH[OF this Cons.prems(2)] show ?thesis .
    qed
  qed
qed

lemma add_default_columns_other_dtype:
  "add_default_columns lib cs t = Inr t' \<Longrightarrow> n \<notin> set (map name cs) \<Longrightarrow> dtype_of t' n = dtype_of t n"
proof (induction cs arbitrary: t)
  case Nil
  then show ?case by simp
next
  case (Cons c cs)
  then have n: "name c \<noteq> n" "n \<notin> set (map name cs)" by auto
  show ?case
  proof (cases "find (\<lambda>old. name old = name c) t")
    case None
    with Cons.prems have "add_default_columns lib cs (t @ [c]) = Inr t'" by simp
    from Cons.IH[OF this n(2)] show ?thesis using n(1) by (simp add: dtype_of_def find_append_not)
  next
    case (Some old)
    then have old: "name old = name c" by (auto simp: find_Some_iff)
    show ?thesis
    proof (cases "dtype c \<noteq> dtype old")
      case True
      with Some Cons.prems obtain converted where
        a: "add_default_columns lib cs
           (filter (\<lambda>col. name col \<noteq> name c) t @ [old\<lparr>dtype := dtype c, col_data := converted\<rparr>]) = Inr t'"
        by (auto split: option.splits)
      have "find (\<lambda>x. name x = n) (filter (\<lambda>col. name col \<noteq> name c) t) = find (\<lambda>x. name x = n) t"
        by (rule find_filter_other) (use n in auto)
      with Cons.IH[OF a n(2)] show ?thesis using n(1) old by (simp add: dtype_of_def find_append_not)
    next
      case False
      with Some Cons.prems have "add_default_columns lib cs t = Inr t'" by simp
      from Cons.IH[OF this n(2)] show ?thesis .
    qed
  qed
qed

lemma add_default_columns_dtype:
  "add_default_columns lib cs t = Inr t' \<Longrightarrow> distinct (map name cs) \<Longrightarrow> c \<in> set cs \<Longrightarrow>
     dtype_of t' (name c) = Some (dtype c)"
proof (induction cs arbitrary: t)
  case Nil
  then show ?case by simp
next
  case (Cons d cs)
  from Cons.prems(2) have dn: "name d \<notin> set (map name cs)" "distinct (map name cs)" by auto
  obtain s where s: "add_default_columns lib cs s = Inr t'" "dtype_of s (name d) = Some (dtype d)"
  proof (cases "find (\<lambda>old. name old = name d) t")
    case None
    with Cons.prems have "add_default_columns lib cs (t @ [d]) = Inr t'" by simp
    moreover have "dtype_of (t @ [d]) (name d) = Some (dtype d)"
      using None by (simp add: dtype_of_def find_append_none)
    ultimately show ?thesis using that by blast
  next
    case (Some old)
    then have old: "name old = name d" by (auto simp: find_Some_iff)
    show ?thesis
    proof (cases "dtype d \<noteq> dtype old")
      case True
      with Some Cons.prems obtain converted where
        a: "add_default_columns lib cs
           (filter (\<lambda>col. name col \<noteq> name d) t @ [old\<lparr>dtype := dtype d, col_data := converted\<rparr>]) = Inr t'"
        by (auto split: option.splits)
      have "find (\<lambda>x. name x = name d) (filter (\<lambda>col. name col \<noteq> name d) t) = None"
        by (auto simp: find_None_iff)
      then have "dtype_of (filter (\<lambda>col. name col \<noteq> name d) t @ [old\<lparr>dtype := dtype d, col_data := converted\<rparr>]) (name d)
          = Some (dtype d)"
        using old by (simp add: dtype_of_def find_append_none)
      with a show ?thesis using that by blast
    next
      case False
      with Some Cons.prems have "add_default_columns lib cs t = Inr t'" by simp
      moreover have "dtype_of t (name d) = Some (dtype d)"
        using Some False by (simp add: dtype_of_def)
      ultimately show ?thesis using that by blast
    qed
  qed
  show ?case
  proof (cases "c = d")
    case True
    then show ?thesis using add_default_columns_other_dtype[OF s(1) dn(1)] s(2) by simp
  next
    case False
    then have "c \<in> set cs" using Cons.prems(3) by simp
    from Cons.IH[OF s(1) dn(2) this] show ?thesis .
  qed
qed

lemma add_default_columns_unchanged:
  "(\<And>c. c \<in> set cs \<Longrightarrow> dtype_of t (name c) = Some (dtype c)) \<Longrightarrow> add_default_columns lib cs t = Inr t"
proof (induction cs)
  case Nil
  then show ?case by simp
next
  case (Cons c cs)
  from Cons.prems[of c] obtain old where "find (\<lambda>old. name old = name c) t = Some old" "dtype old = dtype c"
    by (auto simp: dtype_of_def)
  then show ?case using Cons by simp
qed



lemma with_units_names: "map name (with_units t) = map name t"
  by (simp add: with_units_def set_unit_def comp_def)

lemma set_units_idem:
  "set_unit a u (set_unit b v (set_unit c w (set_unit a u (set_unit b v (set_unit c w t)))))
     = set_unit a u (set_unit b v (set_unit c w t))"
  by (induction t) (auto simp: set_unit_def)

lemma with_units_idem: "with_units (with_units t) = with_units t"
  unfolding with_units_def by (rule set_units_idem)

lemma with_units_length: "length (with_units t) = length t"
  by (simp add: with_units_def set_unit_def)

lemma find_set_unit:
  "find (\<lambda>c. name c = m) (set_unit n u t)
     = map_option (\<lambda>c. if name c = n then c\<lparr>unit := Some u\<rparr> else c) (find (\<lambda>c. name c = m) t)"
  by (induction t) (auto simp: set_unit_def)

lemma dtype_of_set_unit: "dtype_of (set_unit n u t) m = dtype_of t m"
  by (cases "find (\<lambda>c. name c = m) t") (auto simp: dtype_of_def find_set_unit)

lemma dtype_of_with_units: "dtype_of (with_units t) m = dtype_of t m"
  by (simp add: with_units_def dtype_of_set_unit)

lemma default_columns_schema: "map (\<lambda>c. (name c, dtype c)) (default_columns N) = schema"
  by (simp add: default_columns_def schema_def)

lemma default_columns_names: "map name (default_columns N) = map fst schema"
  by (simp add: default_columns_def schema_def)

lemma schema_distinct: "distinct (map fst schema)"
  by (simp add: schema_def)


lemma initialise_Inr:
  assumes "initialise_atomic_transitions lib config = Inr (t', config')"
  obtains t ta where
    "load_transitions lib config = Inr (t, config')"
    "find (\<lambda>column. column \<notin> set (map name t)) required_columns = None"
    "add_default_columns lib (default_columns (table_len t)) t = Inr ta"
    "t' = with_units ta"
    "find (\<lambda>m. m \<notin> set (custom_mask config')) (used_masks (with_units ta)) = None"
proof (cases "load_transitions lib config")
  case (Inl e)
  then show ?thesis using assms by (simp add: initialise_atomic_transitions_def)
next
  case (Inr p)
  obtain t c where p: "p = (t, c)" by (cases p)
  note l = Inr[unfolded p]
  show ?thesis
  proof (cases "find (\<lambda>column. column \<notin> set (map name t)) required_columns")
    case (Some column)
    then show ?thesis using assms l by (simp add: initialise_atomic_transitions_def)
  next
    case None
    note r = None
    show ?thesis
    proof (cases "add_default_columns lib (default_columns (table_len t)) t")
      case (Inl e)
      then show ?thesis using assms l r by (simp add: initialise_atomic_transitions_def)
    next
      case (Inr ta)
      note a = Inr
      show ?thesis
      proof (cases "find (\<lambda>m. m \<notin> set (custom_mask c)) (used_masks (with_units ta))")
        case (Some m)
        then show ?thesis using assms l r a
          by (simp add: initialise_atomic_transitions_def Let_def with_units_def)
      next
        case None
        then have "t' = with_units ta" "config' = c"
          using assms l r a
          by (simp_all add: initialise_atomic_transitions_def Let_def with_units_def)
        then show ?thesis using that[of t ta] l r a None by simp
      qed
    qed
  qed
qed

lemma initialise_InrI:
  assumes "load_transitions lib config = Inr (t, config')"
    "find (\<lambda>column. column \<notin> set (map name t)) required_columns = None"
    "add_default_columns lib (default_columns (table_len t)) t = Inr ta"
    "find (\<lambda>m. m \<notin> set (custom_mask config')) (used_masks (with_units ta)) = None"
  shows "initialise_atomic_transitions lib config = Inr (with_units ta, config')"
  using assms by (simp add: initialise_atomic_transitions_def Let_def with_units_def)


lemma schema_dtypes_after:
  assumes "add_default_columns lib (default_columns N) t = Inr ta"
  shows "list_all (\<lambda>(n, d). dtype_of (with_units ta) n = Some d) schema"
proof -
  have "dtype_of (with_units ta) n = Some d" if "(n, d) \<in> set schema" for n d
  proof -
    from that have "(n, d) \<in> set (map (\<lambda>c. (name c, dtype c)) (default_columns N))"
      by (simp only: default_columns_schema)
    then obtain c where c: "c \<in> set (default_columns N)" "name c = n" "dtype c = d" by auto
    have "distinct (map name (default_columns N))"
      by (simp only: default_columns_names schema_distinct)
    from add_default_columns_dtype[OF assms this c(1)] show ?thesis
      by (simp add: dtype_of_with_units c)
  qed
  then show ?thesis by (auto simp: list_all_iff)
qed

lemma reload_keeps_columns:
  assumes init: "initialise_atomic_transitions lib config = Inr (t', config')"
    and load: "load_transitions lib config = Inr (t, c)"
    and dist: "distinct (map name t)"
    and aug: "set (map fst schema) \<subseteq> set (map name t)"
  shows "set (map name t') = set (map name t)" "distinct (map name t')" "length t' = length t"
    "list_all (\<lambda>(n, d). dtype_of t' n = Some d) schema"
proof -
  from init obtain t0 ta where
    l: "load_transitions lib config = Inr (t0, config')"
    and a: "add_default_columns lib (default_columns (table_len t0)) t0 = Inr ta"
    and u: "t' = with_units ta"
    by (rule initialise_Inr)
  from l load have t0: "t0 = t" by simp
  have "set (map name ta) = set (map name t) \<union> set (map fst schema)"
    using add_default_columns_names[OF a] by (simp only: t0 default_columns_names)
  with aug have n: "set (map name ta) = set (map name t)" by auto
  have d: "distinct (map name ta)"
    using add_default_columns_distinct[OF a] dist t0 by simp
  show "set (map name t') = set (map name t)" by (simp only: u with_units_names n)
  show "distinct (map name t')" by (simp only: u with_units_names d)
  have "length (map name ta) = length (map name t)"
    using distinct_card[OF d] distinct_card[OF dist] n by simp
  then show "length t' = length t" by (simp add: u with_units_length)
  show "list_all (\<lambda>(n, d). dtype_of t' n = Some d) schema"
    unfolding u by (rule schema_dtypes_after[OF a])
qed

lemma load_transitions_config:
  "load_transitions lib config = Inr (t, c) \<Longrightarrow> custom_mask c = custom_mask config"
  by (auto simp: load_transitions_def split: option.splits)

lemma round_trip:
  assumes init: "initialise_atomic_transitions lib config = Inr (t1, c1)"
  shows "initialise_atomic_transitions lib
           (c1\<lparr>atomic_transitions_filename := None, atomic_transitions_data := Some t1\<rparr>)
         = Inr (t1, c1\<lparr>atomic_transitions_filename := None, atomic_transitions_data := None\<rparr>)"
proof -
  from init obtain t0 ta where
    l: "load_transitions lib config = Inr (t0, c1)"
    and r: "find (\<lambda>column. column \<notin> set (map name t0)) required_columns = None"
    and a: "add_default_columns lib (default_columns (table_len t0)) t0 = Inr ta"
    and u: "t1 = with_units ta"
    and m: "find (\<lambda>m. m \<notin> set (custom_mask c1)) (used_masks (with_units ta)) = None"
    by (rule initialise_Inr)
  let ?c2 = "c1\<lparr>atomic_transitions_filename := None, atomic_transitions_data := Some t1\<rparr>"
  let ?c3 = "c1\<lparr>atomic_transitions_filename := None, atomic_transitions_data := None\<rparr>"
  have l2: "load_transitions lib ?c2 = Inr (t1, ?c3)"
    by (simp add: load_transitions_def)
  have sub: "set (map name t0) \<subseteq> set (map name t1)"
    using add_default_columns_names[OF a] by (simp only: u with_units_names) auto
  have r2: "find (\<lambda>column. column \<notin> set (map name t1)) required_columns = None"
    using r sub unfolding find_None_iff by blast
  have dt: "list_all (\<lambda>(n, d). dtype_of t1 n = Some d) schema"
    unfolding u by (rule schema_dtypes_after[OF a])
  have a2: "add_default_columns lib (default_columns (table_len t1)) t1 = Inr t1"
  proof (rule add_default_columns_unchanged)
    fix col assume "col \<in> set (default_columns (table_len t1))"
    then have "(name col, dtype col) \<in> set (map (\<lambda>c. (name c, dtype c)) (default_columns (table_len t1)))"
      unfolding set_map by (rule imageI)
    then have "(name col, dtype col) \<in> set schema" by (simp only: default_columns_schema)
    with dt show "dtype_of t1 (name col) = Some (dtype col)" by (auto simp: list_all_iff)
  qed
  have w: "with_units t1 = t1" by (simp only: u with_units_idem)
  have m2: "find (\<lambda>m. m \<notin> set (custom_mask ?c3)) (used_masks (with_units t1)) = None"
    using m by (simp add: u with_units_idem)
  from initialise_InrI[OF l2 r2 a2 m2] show ?thesis by (simp only: w)
qed


text \<open>An example: a table with the four mandatory columns and one row, given in place;
  the library stand-in cannot read files and converts every column as it is.\<close>

definition example_library :: table_library where
  "example_library = \<lparr>read_table = (\<lambda>filename format. None), cast = (\<lambda>d cells. Some cells)\<rparr>"

definition raw_column :: "string \<Rightarrow> column" where
  "raw_column n = \<lparr>name = n, dtype = Float64, unit = None, col_data = [CFloat (Fin 1)]\<rparr>"

definition example_raw_table :: table where
  "example_raw_table = map raw_column required_columns"

definition example_config :: model_config where
  "example_config =
     \<lparr>atomic_transitions_filename = None, atomic_transitions_format = None,
      atomic_transitions_data = Some example_raw_table, custom_mask = []\<rparr>"

definition example_augmented :: table where
  "example_augmented = with_units (example_raw_table @ default_columns 1)"

lemma example_raw_names: "map name example_raw_table = required_columns"
  by (simp add: example_raw_table_def raw_column_def comp_def)

lemma example_first_load:
  "initialise_atomic_transitions example_library example_config
     = Inr (example_augmented, example_config\<lparr>atomic_transitions_data := None\<rparr>)"
  unfolding example_augmented_def
proof (rule initialise_InrI)
  show "load_transitions example_library example_config
          = Inr (example_raw_table, example_config\<lparr>atomic_transitions_data := None\<rparr>)"
    by (simp add: load_transitions_def example_config_def)
  show "find (\<lambda>column. column \<notin> set (map name example_raw_table)) required_columns = None"
    by (simp add: example_raw_names find_None_iff)
  show "add_default_columns example_library (default_columns (table_len example_raw_table))
          example_raw_table = Inr (example_raw_table @ default_columns 1)"
    by (simp add: example_raw_table_def required_columns_def raw_column_def table_len_def
          default_columns_def)
  show "find (\<lambda>m. m \<notin> set (custom_mask (example_config\<lparr>atomic_transitions_data := None\<rparr>)))
          (used_masks (with_units (example_raw_table @ default_columns 1))) = None"
    by (simp add: example_raw_table_def required_columns_def raw_column_def
          default_columns_def with_units_def set_unit_def used_masks_def)
qed


text \<open>
  Claim C8. A table with distinct column names that holds the four derived columns
  (whatever their dtypes), from which the model is initialised successfully, comes out
  with the same column names, none twice, as many columns as before, and with each derived
  column at the dtype of the schema. A table that the initialisation itself produced has
  the schema's dtypes, and initialising the model from it again succeeds and gives back the
  very same table.
\<close>

theorem reinitialise_augmented_table:
  "(load_transitions lib config = Inr (t, c)
      \<and> distinct (map name t) \<and> set (map fst schema) \<subseteq> set (map name t)
      \<and> initialise_atomic_transitions lib config = Inr (t', config') \<longrightarrow>
      set (map name t') = set (map name t) \<and> distinct (map name t') \<and> length t' = length t
      \<and> list_all (\<lambda>(n, d). dtype_of t' n = Some d) schema)
   \<and> (initialise_atomic_transitions lib first = Inr (t1, c1) \<longrightarrow>
      list_all (\<lambda>(n, d). dtype_of t1 n = Some d) schema
      \<and> initialise_atomic_transitions lib
           (c1\<lparr>atomic_transitions_filename := None, atomic_transitions_data := Some t1\<rparr>)
         = Inr (t1, c1\<lparr>atomic_transitions_filename := None, atomic_transitions_data := None\<rparr>))"
proof (intro conjI impI)
  assume h: "load_transitions lib config = Inr (t, c)
      \<and> distinct (map name t) \<and> set (map fst schema) \<subseteq> set (map name t)
      \<and> initialise_atomic_transitions lib config = Inr (t', config')"
  then have i: "initialise_atomic_transitions lib config = Inr (t', config')"
    and l: "load_transitions lib config = Inr (t, c)"
    and d: "distinct (map name t)" and a: "set (map fst schema) \<subseteq> set (map name t)"
    by blast+
  show "set (map name t') = set (map name t)" by (rule reload_keeps_columns(1)[OF i l d a])
  show "distinct (map name t')" by (rule reload_keeps_columns(2)[OF i l d a])
  show "length t' = length t" by (rule reload_keeps_columns(3)[OF i l d a])
  show "list_all (\<lambda>(n, d). dtype_of t' n = Some d) schema"
    by (rule reload_keeps_columns(4)[OF i l d a])
next
  assume i: "initialise_atomic_transitions lib first = Inr (t1, c1)"
  from i obtain t0 ta where
    "add_default_columns lib (default_columns (table_len t0)) t0 = Inr ta" "t1 = with_units ta"
    by (rule initialise_Inr)
  then show "list_all (\<lambda>(n, d). dtype_of t1 n = Some d) schema"
    using schema_dtypes_after by blast
  show "initialise_atomic_transitions lib
           (c1\<lparr>atomic_transitions_filename := None, atomic_transitions_data := Some t1\<rparr>)
         = Inr (t1, c1\<lparr>atomic_transitions_filename := None, atomic_transitions_data := None\<rparr>)"
    by (rule round_trip[OF i])
qed

lemma example_augmented_names:
  "map name example_augmented =
     [''wavelength'', ''species'', ''excitation_potential'', ''loggf'',
      ''equivalent_width'', ''clean'', ''abundance'', ''custom_mask'']"
  by (simp add: example_augmented_def with_units_names example_raw_names required_columns_def
        default_columns_def)

theorem reinitialise_augmented_table_witness:
  "initialise_atomic_transitions example_library
     (example_config\<lparr>atomic_transitions_data := Some example_augmented\<rparr>)
     = Inr (example_augmented, example_config\<lparr>atomic_transitions_data := None\<rparr>)
   \<and> length example_augmented = 8
   \<and> dtype_of example_augmented ''custom_mask'' = Some (Bytes 32)"
proof -
  let ?c1 = "example_config\<lparr>atomic_transitions_data := None\<rparr>"
  let ?c2 = "example_config\<lparr>atomic_transitions_data := Some example_augmented\<rparr>"
  have c: "?c1\<lparr>atomic_transitions_filename := None, atomic_transitions_data := Some example_augmented\<rparr> = ?c2"
    "?c1\<lparr>atomic_transitions_filename := None, atomic_transitions_data := None\<rparr> = ?c1"
    by (simp_all add: example_config_def)
  have d: "distinct (map name example_augmented)"
    "set (map fst schema) \<subseteq> set (map name example_augmented)"
    unfolding example_augmented_names by (simp_all add: schema_def)
  have l: "load_transitions example_library ?c2 = Inr (example_augmented, ?c1)"
    by (simp add: load_transitions_def example_config_def)
  note th = reinitialise_augmented_table[of example_library ?c2 example_augmented ?c1
      example_augmented ?c1 example_config example_augmented ?c1]
  from th example_first_load have r: "initialise_atomic_transitions example_library ?c2
      = Inr (example_augmented, ?c1)"
    unfolding c by blast
  from th l d r have "list_all (\<lambda>(n, d). dtype_of example_augmented n = Some d) schema"
    by blast
  then have "dtype_of example_augmented ''custom_mask'' = Some (Bytes 32)"
    by (simp add: schema_def)
  moreover have "length example_augmented = 8"
    using arg_cong[OF example_augmented_names, of length] by simp
  ultimately show ?thesis using r by simp
qed


section \<open>The outlier profiles of one transition\<close>

lemma update_compound_model_components:
  "components (update_compound_model kwargs p wl) = components p"
  by (simp add: update_compound_model_def Let_def)

lemma add_outlier_profile_components:
  "add_outlier_profile env kwargs wl p x y s = Inr q \<Longrightarrow>
     length (components q) = Suc (length (components p))"
  by (auto simp: add_outlier_profile_def update_compound_model_components split: sum.splits)

lemma outlier_loop_stops_at_once:
  assumes "fitter env p x y = Inr fitted"
    and "\<not> outlier_modeling \<or> max_outlier_profiles = j
         \<or> needs_outlier env j fitted x y idx = Inr False"
  shows "outlier_loop env kwargs outlier_modeling max_outlier_profiles wl x y s idx j p
           = Some (Inr (fitted, j))"
  using assms by (subst outlier_loop.simps) auto

lemma outlier_loop_bounded:
  assumes keeps: "\<And>p q. fitter env p x y = Inr q \<Longrightarrow> length (components q) = length (components p)"
    and "j \<le> m"
  shows "\<exists>r. outlier_loop env kwargs outlier_modeling m wl x y s idx j p = Some r
            \<and> (\<forall>q j'. r = Inr (q, j') \<longrightarrow>
                  j \<le> j' \<and> j' \<le> m
                  \<and> int (length (components q)) = int (length (components p)) + (j' - j))"
  using assms(2)
proof (induction "nat (m - j)" arbitrary: j p)
  case 0
  then have mj: "m = j" by simp
  show ?case
  proof (cases "fitter env p x y")
    case (Inl e)
    then show ?thesis by (subst outlier_loop.simps) simp
  next
    case (Inr fitted)
    then show ?thesis using mj keeps[OF Inr] by (subst outlier_loop.simps) simp
  qed
next
  case (Suc n)
  then have lt: "j < m" and n: "n = nat (m - (j + 1))" and le: "j + 1 \<le> m" by linarith+
  show ?case
  proof (cases "fitter env p x y")
    case (Inl e)
    then show ?thesis by (subst outlier_loop.simps) simp
  next
    case (Inr fitted)
    note f = Inr
    show ?thesis
    proof (cases "outlier_modeling")
      case False
      then show ?thesis using f keeps[OF f] Suc.prems by (subst outlier_loop.simps) simp
    next
      case True
      note om = True
      show ?thesis
      proof (cases "needs_outlier env j fitted x y idx")
        case (Inl e)
        then show ?thesis using f lt om by (subst outlier_loop.simps) simp
      next
        case (Inr triggered)
        note t = Inr
        show ?thesis
        proof (cases triggered)
          case False
          then show ?thesis using f t keeps[OF f] Suc.prems lt om by (subst outlier_loop.simps) simp
        next
          case True
          note tr = True
          show ?thesis
          proof (cases "add_outlier_profile env kwargs wl fitted x y s")
            case (Inl e)
            then show ?thesis using f t tr lt om by (subst outlier_loop.simps) simp
          next
            case (Inr augmented)
            have len: "length (components augmented) = Suc (length (components p))"
              using add_outlier_profile_components[OF Inr] keeps[OF f] by simp
            from Suc.hyps(1)[OF n le, of augmented] obtain r where
              r: "outlier_loop env kwargs outlier_modeling m wl x y s idx (j + 1) augmented = Some r"
              and b: "\<forall>q j'. r = Inr (q, j') \<longrightarrow>
                  j + 1 \<le> j' \<and> j' \<le> m
                  \<and> int (length (components q)) = int (length (components augmented)) + (j' - (j + 1))"
              by blast
            have "outlier_loop env kwargs outlier_modeling m wl x y s idx j p = Some r"
              using f t tr Inr r lt om by (subst outlier_loop.simps) simp
            moreover have "\<forall>q j'. r = Inr (q, j') \<longrightarrow>
                  j \<le> j' \<and> j' \<le> m
                  \<and> int (length (components q)) = int (length (components p)) + (j' - j)"
              using b len by auto
            ultimately show ?thesis by blast
          qed
        qed
      qed
    qed
  qed
qed


text \<open>Stand-ins for the collaborators of the fit: the fitter returns the model it is
  given, every model evaluates to 1, and there is no continuum.\<close>

definition example_fit_env :: "unit fit_collaborators" where
  "example_fit_env =
     \<lparr>self_interpolator = (\<lambda>t g m. Inr ()), self_continuum_order = (\<lambda>d. - 1),
      synthesise = (\<lambda>rows ph vt region step. Inr ([], [])),
      fitter = (\<lambda>p x y. Inr p), evaluate = (\<lambda>p w. Fin 1),
      moog_atomic_abundances = (\<lambda>rows ph vt. Inr [])\<rparr>"

lemma fit_transition_bounded:
  assumes keeps: "\<And>p q. fitter env p (fst (window (data' ! d) wl wr)) (snd (window (data' ! d) wl wr)) = Inr q
            \<Longrightarrow> length (components q) = length (components p)"
    and m: "0 < m"
  shows "\<exists>r. fit_transition env kwargs ph vt wr om m table data' i wl d = Some r
            \<and> (\<forall>q. r = Inr q \<longrightarrow> 1 \<le> length (components q) \<and> int (length (components q)) - 1 \<le> m - 1)"
proof -
  obtain x y where w: "window (data' ! d) wl wr = (x, y)" by (cases "window (data' ! d) wl wr")
  have k: "\<And>p q. fitter env p x y = Inr q \<Longrightarrow> length (components q) = length (components p)"
    using keeps w by simp
  from m have one: "1 \<le> m" by simp
  show ?thesis
  proof (cases "\<not> searchsorted x wl < length y \<or> - 1 < self_continuum_order env d")
    case True
    then show ?thesis by (auto simp: fit_transition_def w Let_def)
  next
    case False
    note ok = False
    show ?thesis
    proof (cases "first_profile env kwargs ph vt wr table (blending_lines table wr i wl) x wl")
      case (Inl e)
      then show ?thesis using ok by (auto simp: fit_transition_def w Let_def)
    next
      case (Inr k0)
      let ?p0 = "update_compound_model kwargs
                        \<lparr>kind = k0,
                         components = [\<lparr>amplitude = fsub (Fin 1) (y ! searchsorted x wl), mean = wl,
                                        stddev = fmul (Fin 5) (fmean (np_diff x))\<rparr>],
                         fixed = (\<lambda>key. False), bounds = Map.empty, tied = Map.empty\<rparr>
                        wl"
      from outlier_loop_bounded[of env x y 1 m kwargs om wl "fmul (Fin 5) (fmean (np_diff x))"
          "searchsorted x wl" ?p0, OF k one]
      obtain r where r: "outlier_loop env kwargs om m wl x y (fmul (Fin 5) (fmean (np_diff x)))
                           (searchsorted x wl) 1 ?p0 = Some r"
        and b: "\<forall>q j'. r = Inr (q, j') \<longrightarrow> 1 \<le> j' \<and> j' \<le> m
                  \<and> int (length (components q)) = int (length (components ?p0)) + (j' - 1)"
        by blast
      have f: "fit_transition env kwargs ph vt wr om m table data' i wl d = Some (map_sum id fst r)"
        using ok Inr r by (simp add: fit_transition_def w Let_def)
      have "\<forall>q. map_sum id fst r = Inr q \<longrightarrow>
               1 \<le> length (components q) \<and> int (length (components q)) - 1 \<le> m - 1"
      proof (intro allI impI)
        fix q assume "map_sum id fst r = Inr q"
        then obtain j' where "r = Inr (q, j')" by (cases r) auto
        with b have "1 \<le> j'" "j' \<le> m"
          "int (length (components q)) = int (length (components ?p0)) + (j' - 1)" by blast+
        then show "1 \<le> length (components q) \<and> int (length (components q)) - 1 \<le> m - 1"
          by (simp add: update_compound_model_components)
      qed
      with f show ?thesis by blast
    qed
  qed
qed


section \<open>The equivalent width that is written\<close>

lemma str_0: "str 0 = ''0''"
  by (simp add: str.simps)

lemma param_names_single: "param_names [c] = [''amplitude'', ''mean'', ''stddev'']"
  by (simp add: param_names_def)

lemma param_names_compound:
  "param_names (c # c' # cs) =
     ''amplitude_0'' # ''mean_0'' # ''stddev_0'' #
     concat (map (\<lambda>k. [''amplitude_'' @ str k, ''mean_'' @ str k, ''stddev_'' @ str k])
                 [1..<Suc (Suc (length cs))])"
  by (simp add: param_names_def upt_conv_Cons str_0 del: upt_Suc)

lemma mean_not_compound: "''mean'' \<notin> set (param_names (c # c' # cs))"
  by (auto simp: param_names_def)

lemma getattr_primary:
  "getattr [c] ''amplitude'' = Some (amplitude c)"
  "getattr [c] ''stddev'' = Some (stddev c)"
  "getattr (c # c' # cs) ''amplitude_0'' = Some (amplitude c)"
  "getattr (c # c' # cs) ''stddev_0'' = Some (stddev c)"
  by (simp_all add: getattr_def param_names_single param_names_compound param_values_def)

lemma equivalent_width_of_primary:
  assumes "components p = c # cs"
  shows "equivalent_width_of p =
           Some (fmul (fmul (fmul (fmul (Fin (10 * 10 ^ 3)) (fsqrt (Fin pi))) (amplitude c))
                            (Fin 0.25)) (stddev c))"
proof (cases cs)
  case Nil
  then show ?thesis
    by (simp add: equivalent_width_of_def assms param_names_single getattr_primary)
next
  case (Cons c' cs')
  then show ?thesis
    unfolding equivalent_width_of_def assms Cons Let_def
    by (simp add: mean_not_compound getattr_primary)
qed

lemma equivalent_width_finite:
  "fmul (fmul (fmul (fmul (Fin (10 * 10 ^ 3)) (fsqrt (Fin pi))) (Fin a)) (Fin 0.25)) (Fin s)
     = Fin (10 ^ 4 * sqrt pi * a * 0.25 * s)"
  by simp


lemma fit_loop_append:
  "fit_loop env kwargs ph vt wr om m data' (pre @ post) table =
     (case fit_loop env kwargs ph vt wr om m data' pre table of
        None \<Rightarrow> None
      | Some (Some e, t) \<Rightarrow> Some (Some e, t)
      | Some (None, t) \<Rightarrow> fit_loop env kwargs ph vt wr om m data' post t)"
proof (induction pre arbitrary: table)
  case Nil
  then show ?case by simp
next
  case (Cons a pre)
  obtain i wl d where a: "a = (i, wl, d)" by (cases a)
  show ?case
    unfolding a using Cons.IH
    by (simp split: option.splits sum.splits)
qed

lemma map_update_same: "f y = f (xs ! i) \<Longrightarrow> map f (xs[i := y]) = map f xs"
  by (induction xs arbitrary: i) (auto split: nat.splits)

lemma fit_loop_frame:
  assumes "fit_loop env kwargs ph vt wr om m data' todo table = Some (e, t)"
  shows "length t = length table \<and> map wavelength t = map wavelength table
         \<and> map clean t = map clean table
         \<and> (\<forall>k. k \<notin> set (map fst todo) \<longrightarrow> t ! k = table ! k)"
  using assms
proof (induction todo arbitrary: table)
  case Nil
  then show ?case by simp
next
  case (Cons a todo)
  obtain i wl d where a: "a = (i, wl, d)" by (cases a)
  show ?case
  proof (cases "fit_transition env kwargs ph vt wr om m table data' i wl d")
    case None
    then show ?thesis using Cons.prems by (simp add: a)
  next
    case (Some r)
    show ?thesis
    proof (cases r)
      case (Inl err)
      then show ?thesis using Cons.prems Some by (simp add: a)
    next
      case (Inr p)
      show ?thesis
      proof (cases "equivalent_width_of p")
        case None
        then show ?thesis using Cons.prems Some Inr by (simp add: a)
      next
        case (Some ew)
        let ?t = "table[i := (table ! i)\<lparr>equivalent_width := ew\<rparr>]"
        have "fit_loop env kwargs ph vt wr om m data' todo ?t = Some (e, t)"
          using Cons.prems \<open>fit_transition env kwargs ph vt wr om m table data' i wl d = Some r\<close>
            Inr Some by (simp add: a)
        from Cons.IH[OF this] have ih: "length t = length ?t" "map wavelength t = map wavelength ?t"
          "map clean t = map clean ?t" "\<forall>k. k \<notin> set (map fst todo) \<longrightarrow> t ! k = ?t ! k"
          by blast+
        have w: "map wavelength ?t = map wavelength table" "map clean ?t = map clean table"
          by (simp_all add: map_update_same)
        show ?thesis using ih w by (auto simp: a)
      qed
    qed
  qed
qed

lemma fit_loop_step:
  assumes "fit_transition env kwargs ph vt wr om m table data' i wl d = Some (Inr p)"
    and "components p = c # cs"
  shows "fit_loop env kwargs ph vt wr om m data' ((i, wl, d) # rest) table =
           fit_loop env kwargs ph vt wr om m data' rest
             (table[i := (table ! i)\<lparr>equivalent_width :=
                fmul (fmul (fmul (fmul (Fin (10 * 10 ^ 3)) (fsqrt (Fin pi))) (amplitude c))
                           (Fin 0.25)) (stddev c)\<rparr>])"
  using assms(1) by (simp add: equivalent_width_of_primary[OF assms(2)])

lemma equivalent_width_recorded:
  assumes pre: "fit_loop env kwargs ph vt wr om m data' pre table = Some (None, t1)"
    and fit: "fit_transition env kwargs ph vt wr om m t1 data' i wl d = Some (Inr p)"
    and prim: "components p = c # cs"
    and i: "i < length table" "i \<notin> set (map fst rest)"
    and run: "fit_loop env kwargs ph vt wr om m data' (pre @ (i, wl, d) # rest) table = Some (e, final)"
  shows "equivalent_width (final ! i) =
           fmul (fmul (fmul (fmul (Fin (10 * 10 ^ 3)) (fsqrt (Fin pi))) (amplitude c))
                      (Fin 0.25)) (stddev c)"
proof -
  let ?ew = "fmul (fmul (fmul (fmul (Fin (10 * 10 ^ 3)) (fsqrt (Fin pi))) (amplitude c))
                      (Fin 0.25)) (stddev c)"
  let ?t = "t1[i := (t1 ! i)\<lparr>equivalent_width := ?ew\<rparr>]"
  have l1: "length t1 = length table" using fit_loop_frame[OF pre] by blast
  have "fit_loop env kwargs ph vt wr om m data' (pre @ (i, wl, d) # rest) table
          = fit_loop env kwargs ph vt wr om m data' ((i, wl, d) # rest) t1"
    by (simp add: fit_loop_append pre del: fit_loop.simps)
  then have "fit_loop env kwargs ph vt wr om m data' rest ?t = Some (e, final)"
    using run by (simp only: fit_loop_step[OF fit prim])
  from fit_loop_frame[OF this] i(2) have "final ! i = ?t ! i" by blast
  then show ?thesis using i(1) l1 by simp
qed


section \<open>The ties of the outlier profiles\<close>

lemma param_names_3:
  "param_names [c0, c1, c2] =
     [''amplitude_0'', ''mean_0'', ''stddev_0'', ''amplitude_1'', ''mean_1'', ''stddev_1'',
      ''amplitude_2'', ''mean_2'', ''stddev_2'']"
  by (simp add: param_names_def upt_rec str.simps)

lemma prefix_num_3:
  "prefix_num ''amplitude_0'' = (''amplitude'', ''0'')"
  "prefix_num ''mean_0'' = (''mean'', ''0'')"
  "prefix_num ''stddev_0'' = (''stddev'', ''0'')"
  "prefix_num ''amplitude_1'' = (''amplitude'', ''1'')"
  "prefix_num ''mean_1'' = (''mean'', ''1'')"
  "prefix_num ''stddev_1'' = (''stddev'', ''1'')"
  "prefix_num ''amplitude_2'' = (''amplitude'', ''2'')"
  "prefix_num ''mean_2'' = (''mean'', ''2'')"
  "prefix_num ''stddev_2'' = (''stddev'', ''2'')"
  by (simp_all add: prefix_num_def)

lemma getattr_3:
  "getattr [c0, c1, c2] ''stddev_0'' = Some (stddev c0)"
  "getattr [c0, c1, c2] ''mean_0'' = Some (mean c0)"
  "getattr [c0, c1, c2] ''mean_1'' = Some (mean c1)"
  "getattr [c0, c1, c2] ''mean_2'' = Some (mean c2)"
  by (simp_all add: getattr_def param_names_3 param_values_def)

lemma update_3:
  "tied (update_compound_model default_fit_kwargs
           \<lparr>kind = k, components = [c0, c1, c2], fixed = fx, bounds = bs, tied = Map.empty\<rparr> wl)
        ''stddev_1''
     = Some \<lparr>captured_model = [c0, c1, c2], captured_num = ''2''\<rparr>"
  by (simp add: update_compound_model_def Let_def param_names_3 update_step_def prefix_num_3
        default_fit_kwargs_def)

section \<open>Blended transitions without a photosphere\<close>

lemma blending_lines_wavelengths:
  assumes a: "map wavelength t1 = map wavelength table"
  shows "blending_lines t1 wr i wl = blending_lines table wr i wl"
proof -
  have m: "map (\<lambda>r. fge wr (fabs (fsub (wavelength r) wl))) t
         = map (\<lambda>w. fge wr (fabs (fsub w wl))) (map wavelength t)"
    for t :: "table_row list" by (simp add: comp_def)
  have "map (\<lambda>r. fge wr (fabs (fsub (wavelength r) wl))) t1
      = map (\<lambda>r. fge wr (fabs (fsub (wavelength r) wl))) table"
    by (simp only: m[of t1] m[of table] a)
  then show ?thesis by (simp only: blending_lines_def)
qed

lemma list_ex_id_nth: "list_ex id b \<longleftrightarrow> (\<exists>k<length b. b ! k)"
proof
  assume "list_ex id b"
  then obtain x where "x \<in> set b" "x" by (auto simp: list_ex_iff)
  then show "\<exists>k<length b. b ! k" by (metis in_set_conv_nth)
next
  assume "\<exists>k<length b. b ! k"
  then obtain k where "k < length b" "b ! k" by blast
  from \<open>k < length b\<close> have "b ! k \<in> set b" by (rule nth_mem)
  moreover from \<open>b ! k\<close> have "id (b ! k)" by simp
  ultimately show "list_ex id b" unfolding list_ex_iff by blast
qed

lemma blending_lines_ex:
  "list_ex id (blending_lines table wr i wl)
     \<longleftrightarrow> (\<exists>k<length table. k \<noteq> i \<and> fge wr (fabs (fsub (wavelength (table ! k)) wl)))"
proof -
  define b where "b = map (\<lambda>r. fge wr (fabs (fsub (wavelength r) wl))) table"
  have len: "length b = length table" by (simp add: b_def)
  have nth: "k < length table \<Longrightarrow> b ! k = fge wr (fabs (fsub (wavelength (table ! k)) wl))" for k
    by (simp add: b_def)
  have upd: "k < length b \<Longrightarrow> (b[i := False]) ! k = (k \<noteq> i \<and> b ! k)" for k
    by (cases "k = i") simp_all
  have "list_ex id (b[i := False]) \<longleftrightarrow> (\<exists>k<length b. (b[i := False]) ! k)"
    by (simp only: list_ex_id_nth length_list_update)
  also have "\<dots> \<longleftrightarrow> (\<exists>k<length b. k \<noteq> i \<and> b ! k)"
    using upd by blast
  also have "\<dots> \<longleftrightarrow> (\<exists>k<length table. k \<noteq> i \<and> fge wr (fabs (fsub (wavelength (table ! k)) wl)))"
    unfolding len using nth by blast
  finally show ?thesis by (simp only: blending_lines_def b_def)
qed

lemma fit_transition_blending:
  assumes sample: "searchsorted (fst (window (data' ! d) wl wr)) wl < length (snd (window (data' ! d) wl wr))"
    and cont: "self_continuum_order env d \<le> - 1"
    and b: "list_ex id (blending_lines table wr i wl)"
  shows "fit_transition env kwargs None vt wr om m table data' i wl d
           = Some (Inl (ValueError (BlendingWithoutParameters wl wr)))"
proof -
  obtain x y where w: "window (data' ! d) wl wr = (x, y)" by (cases "window (data' ! d) wl wr")
  have f: "first_profile env kwargs None vt wr table (blending_lines table wr i wl) x wl
             = Inl (ValueError (BlendingWithoutParameters wl wr))"
    using b by (simp add: first_profile_def)
  have s: "searchsorted x wl < length y" using sample by (simp add: w)
  have c: "\<not> - 1 < self_continuum_order env d" using cont by simp
  show ?thesis unfolding fit_transition_def Let_def w prod.case f using s c by simp
qed

lemma measurable_indices:
  "map fst (measurable_transitions table di)
     = filter (\<lambda>i. clean (table ! i) \<and> - 1 < di ! i) [0..<length table]"
  by (simp add: measurable_transitions_def comp_def)

lemma measurable_split:
  assumes "measurable_transitions table di = pre @ (i, wl, d) # rest"
  shows "i < length table" "clean (table ! i)" "wl = wavelength (table ! i)"
    "i \<notin> set (map fst pre)" "i \<notin> set (map fst rest)" 
    "set (map fst pre) \<inter> set (map fst ((i, wl, d) # rest)) = {}"
proof -
  have dist: "distinct (map fst (measurable_transitions table di))"
    unfolding measurable_indices by simp
  then have d2: "distinct (map fst pre @ i # map fst rest)" using assms by simp
  from d2 show "i \<notin> set (map fst pre)" "i \<notin> set (map fst rest)" by auto
  from d2 show "set (map fst pre) \<inter> set (map fst ((i, wl, d) # rest)) = {}" by auto
  have "(i, wl, d) \<in> set (measurable_transitions table di)" using assms by simp
  then show "i < length table" "clean (table ! i)" "wl = wavelength (table ! i)"
    by (auto simp: measurable_transitions_def)
qed

section \<open>A single line and a blended pair\<close>

text \<open>A spectrum of three pixels around 5000 with one absorption line of depth one half,
  a spectrum that covers another region, a table with that one line, and a table with a
  second line one unit further.\<close>

definition example_transition :: "real \<Rightarrow> table_row" where
  "example_transition w =
     \<lparr>wavelength = Fin w, species = Fin 26, excitation_potential = Fin 0, loggf = Fin 0,
      equivalent_width = NaN, clean = True\<rparr>"

definition single_line_spectrum :: spectrum where
  "single_line_spectrum = \<lparr>disp = [Fin 4999, Fin 5000, Fin 5001], flux = [Fin 1, Fin (1 / 2), Fin 1]\<rparr>"

definition distant_spectrum :: spectrum where
  "distant_spectrum = \<lparr>disp = [Fin 6000, Fin 6001, Fin 6002], flux = [Fin 1, Fin 1, Fin 1]\<rparr>"

definition single_transition_table :: "table_row list" where
  "single_transition_table = [example_transition 5000]"

definition blended_table :: "table_row list" where
  "blended_table = [example_transition 5000, example_transition 5001]"

definition single_line_profile :: profile where
  "single_line_profile =
     update_compound_model default_fit_kwargs
       \<lparr>kind = GaussianAbsorption1D,
        components = [\<lparr>amplitude = Fin (1 / 2), mean = Fin 5000, stddev = Fin 5\<rparr>],
        fixed = (\<lambda>key. False), bounds = Map.empty, tied = Map.empty\<rparr>
       (Fin 5000)"

lemma single_line_window:
  "window single_line_spectrum (Fin 5000) (Fin (5 / 2))
     = ([Fin 4999, Fin 5000, Fin 5001], [Fin 1, Fin (1 / 2), Fin 1])"
  by (simp add: window_def single_line_spectrum_def searchsorted_def slice_def fsub_def Let_def)

lemma single_line_guess:
  "searchsorted [Fin 4999, Fin 5000, Fin 5001] (Fin 5000) = 1"
  "fmul (Fin 5) (fmean (np_diff [Fin 4999, Fin 5000, Fin 5001])) = Fin 5"
  "fsub (Fin 1) (Fin (1 / 2)) = Fin (1 / 2)"
  by (simp_all add: searchsorted_def fmean_def np_diff_def fsum_def fsub_def)

section \<open>The run of the outlier loop\<close>

lemma outlier_loop_returns:
  assumes "j \<le> m"
  shows "\<exists>r. outlier_loop env kwargs outlier_modeling m wl x y s idx j p = Some r"
  using assms
proof (induction "nat (m - j)" arbitrary: j p)
  case 0
  then have mj: "m = j" by simp
  show ?case using mj by (subst outlier_loop.simps) (simp split: sum.split)
next
  case (Suc n)
  then have n: "n = nat (m - (j + 1))" and le: "j + 1 \<le> m" by linarith+
  have rec: "\<exists>r. outlier_loop env kwargs outlier_modeling m wl x y s idx (j + 1) q = Some r" for q
    by (rule Suc.hyps(1)[OF n le])
  show ?case
    by (subst outlier_loop.simps) (use rec in \<open>auto split: sum.split\<close>)
qed

lemma fit_transition_returns:
  assumes m: "0 < m"
  shows "\<exists>r. fit_transition env kwargs ph vt wr om m table data' i wl d = Some r"
proof -
  obtain x y where w: "window (data' ! d) wl wr = (x, y)" by (cases "window (data' ! d) wl wr")
  from m have one: "1 \<le> m" by simp
  have loop: "\<exists>r. outlier_loop env kwargs om m wl x y s idx 1 p = Some r" for s idx p
    by (rule outlier_loop_returns[OF one])
  show ?thesis
    unfolding fit_transition_def Let_def w prod.case
    using loop by (auto split: sum.split)
qed

section \<open>The method around its loop\<close>

lemma interpolate_photosphere_missing:
  "effective_temperature = None \<or> surface_gravity = None \<or> metallicity = None \<Longrightarrow>
     interpolate_photosphere env effective_temperature surface_gravity metallicity = Inr None"
  by (auto simp: interpolate_photosphere_def split: option.splits)

lemma fit_atomic_transitions_loop:
  assumes "1 \<le> oversampling_rate kwargs"
      "''wavelength'' \<notin> set (map fst (common_bounds kwargs))"
      "''mean'' \<notin> set (map fst (common_bounds kwargs))"
    and "interpolate_photosphere env effective_temperature surface_gravity metallicity = Inr ph"
    and "wavelengths_in_data (map wavelength table) data' = Inr data_indices"
  shows "fit_atomic_transitions env table data' effective_temperature surface_gravity metallicity
           vt wr om m kwargs =
         (case fit_loop env (kwargs\<lparr>wavelength_tolerance := fabs (wavelength_tolerance kwargs)\<rparr>)
                 ph vt wr om m data' (measurable_transitions table data_indices) table of
            None \<Rightarrow> None
          | Some (Some e, fitted_table) \<Rightarrow> Some (e, fitted_table)
          | Some (None, fitted_table) \<Rightarrow>
              (case moog_atomic_abundances env
                      (map (\<lambda>(i, w, d). fitted_table ! i)
                           (measurable_transitions table data_indices))
                      ph vt of
                 Inl e \<Rightarrow> Some (e, fitted_table)
               | Inr abundances \<Rightarrow> Some (NameError ''a'', fitted_table)))"
  using assms(1-3) unfolding fit_atomic_transitions_def assms(4) assms(5) by simp

lemma fit_atomic_transitions_table:
  assumes "1 \<le> oversampling_rate kwargs"
      "''wavelength'' \<notin> set (map fst (common_bounds kwargs))"
      "''mean'' \<notin> set (map fst (common_bounds kwargs))"
    and "interpolate_photosphere env effective_temperature surface_gravity metallicity = Inr ph"
    and "wavelengths_in_data (map wavelength table) data' = Inr data_indices"
    and "fit_atomic_transitions env table data' effective_temperature surface_gravity metallicity
           vt wr om m kwargs = Some (e, final)"
  shows "\<exists>e'. fit_loop env (kwargs\<lparr>wavelength_tolerance := fabs (wavelength_tolerance kwargs)\<rparr>)
                 ph vt wr om m data' (measurable_transitions table data_indices) table
               = Some (e', final)"
  using assms(6) unfolding fit_atomic_transitions_loop[OF assms(1-5)]
  by (auto split: option.splits sum.splits prod.splits)

lemma default_fit_kwargs_valid:
  "1 \<le> oversampling_rate default_fit_kwargs"
  "''wavelength'' \<notin> set (map fst (common_bounds default_fit_kwargs))"
  "''mean'' \<notin> set (map fst (common_bounds default_fit_kwargs))"
  "default_fit_kwargs\<lparr>wavelength_tolerance := fabs (wavelength_tolerance default_fit_kwargs)\<rparr>
     = default_fit_kwargs"
  by (simp_all add: default_fit_kwargs_def)

lemma single_line_first_profile:
  "first_profile env kwargs ph vt wr single_transition_table (blending_lines single_transition_table wr 0 wl) x wl
     = Inr GaussianAbsorption1D"
  by (simp add: first_profile_def blending_lines_def single_transition_table_def)

lemma example_fitter: "fitter example_fit_env p x y = Inr p"
  by (simp add: example_fit_env_def)

lemma single_line_data_indices:
  "wavelengths_in_data (map wavelength single_transition_table) [single_line_spectrum] = Inr [0]"
  by (simp add: wavelengths_in_data_def single_transition_table_def example_transition_def
        single_line_spectrum_def fge_def)

lemma single_line_measurable:
  "measurable_transitions single_transition_table [0] = [] @ (0, Fin 5000, 0) # []"
  by (simp add: measurable_transitions_def single_transition_table_def example_transition_def)

lemma single_line_components:
  "components single_line_profile = \<lparr>amplitude = Fin (1 / 2), mean = Fin 5000, stddev = Fin 5\<rparr> # []"
  by (simp add: single_line_profile_def update_compound_model_components)

lemma blended_data_indices:
  "wavelengths_in_data (map wavelength blended_table) [single_line_spectrum] = Inr [0, 0]"
  by (simp add: wavelengths_in_data_def blended_table_def example_transition_def
        single_line_spectrum_def fge_def)

lemma blended_measurable:
  "measurable_transitions blended_table [0, 0] = [] @ (0, Fin 5000, 0) # [(1, Fin 5001, 0)]"
  by (simp add: measurable_transitions_def blended_table_def example_transition_def upt_rec)

lemma distant_data_indices:
  "wavelengths_in_data (map wavelength blended_table) [distant_spectrum] = Inr [- 1, - 1]"
  by (simp add: wavelengths_in_data_def blended_table_def example_transition_def
        distant_spectrum_def fge_def)

lemma distant_measurable:
  "measurable_transitions blended_table [- 1, - 1] = []"
  by (simp add: measurable_transitions_def blended_table_def example_transition_def upt_rec)

section \<open>The equivalent width of a fitted transition\<close>

text \<open>The bounds that \<open>_update_compound_model\<close> puts on the model: every parameter
  whose prefix has common bounds gets them, whatever was set before.\<close>

lemma update_step_bounds:
  "frame_bounds (update_step kwargs tk fr n) K =
     (if n = K then (case map_of (common_bounds kwargs) (fst (prefix_num n)) of
                       Some b \<Rightarrow> Some b | None \<Rightarrow> frame_bounds fr K)
      else frame_bounds fr K)"
  by (simp add: update_step_def Let_def split: prod.split option.split)

lemma foldl_update_step_bounds:
  assumes "K \<in> set names" "map_of (common_bounds kwargs) (fst (prefix_num K)) = Some b"
  shows "frame_bounds (foldl (update_step kwargs tk) fr names) K = Some b"
  using assms(1)
proof (induction names rule: rev_induct)
  case Nil
  then show ?case by simp
next
  case (snoc n names)
  show ?case
  proof (cases "n = K")
    case True
    then show ?thesis by (simp add: update_step_bounds assms(2))
  next
    case False
    then have "K \<in> set names" using snoc.prems by simp
    then show ?thesis using snoc.IH False by (simp add: update_step_bounds)
  qed
qed

lemma update_compound_model_bounds:
  assumes "K \<in> set (param_names (components q))"
    and "map_of (common_bounds kwargs) (fst (prefix_num K)) = Some b"
  shows "bounds (update_compound_model kwargs q wl) K = Some b"
  unfolding update_compound_model_def Let_def
  by (simp add: foldl_update_step_bounds[OF assms])

lemma primary_keys:
  "''stddev'' \<in> set (param_names [c])" "''amplitude'' \<in> set (param_names [c])"
  "''stddev_0'' \<in> set (param_names (c # c' # cs))"
  "''amplitude_0'' \<in> set (param_names (c # c' # cs))"
  "fst (prefix_num ''stddev'') = ''stddev''" "fst (prefix_num ''amplitude'') = ''amplitude''"
  "fst (prefix_num ''stddev_0'') = ''stddev''" "fst (prefix_num ''amplitude_0'') = ''amplitude''"
  by (simp_all add: param_names_single param_names_compound prefix_num_def)

lemma fge_between:
  "fge v (Fin lo) \<Longrightarrow> fge (Fin hi) v \<Longrightarrow> \<exists>r. v = Fin r \<and> lo \<le> r \<and> r \<le> hi"
  by (cases v) (auto simp: fge_def)

lemma outlier_loop_fitted:
  assumes "outlier_loop (env :: 'ph fit_collaborators) kwargs om m wl x y s idx j p0 = Some r"
  shows "\<forall>p j'. r = Inr (p, j') \<longrightarrow>
           (\<exists>q. fitter env q x y = Inr p \<and> (q = p0 \<or> (\<exists>q0. q = update_compound_model kwargs q0 wl)))"
proof -
  note ind = outlier_loop.raw_induct
    [where xa = "((((((((((env, kwargs), om), m), wl), x), y), s), idx), j), p0)" and ya = r
       and P = "\<lambda>env kwargs om m wl x y s idx j p0 r. \<forall>p j'. r = Inr (p, j') \<longrightarrow>
           (\<exists>q. fitter env q x y = Inr p \<and> (q = p0 \<or> (\<exists>q0. q = update_compound_model kwargs q0 wl)))",
     unfolded prod.case]
  show ?thesis
  proof (rule ind)
    show "outlier_loop env kwargs om m wl x y s idx j p0 = Some r" by (rule assms)
  next
    fix loop :: "'ph fit_collaborators \<Rightarrow> fit_kwargs \<Rightarrow> bool \<Rightarrow> int \<Rightarrow> flt \<Rightarrow> flt list \<Rightarrow> flt list \<Rightarrow>
        flt \<Rightarrow> nat \<Rightarrow> int \<Rightarrow> profile \<Rightarrow> (error + profile \<times> int) option"
    fix env :: "'ph fit_collaborators"
    fix kwargs om m wl x y s idx j p0 r
    assume ih: "\<And>env kwargs om m wl x y s idx j p0 r. loop env kwargs om m wl x y s idx j p0 = Some r \<Longrightarrow>
               \<forall>p j'. r = Inr (p, j') \<longrightarrow>
           (\<exists>q. fitter env q x y = Inr p \<and> (q = p0 \<or> (\<exists>q0. q = update_compound_model kwargs q0 wl)))"
    assume eq: "(case fitter env p0 x y of
        Inl e \<Rightarrow> Some (Inl e)
      | Inr fitted \<Rightarrow>
          if \<not> om \<or> m = j then Some (Inr (fitted, j))
          else
            (case needs_outlier env j fitted x y idx of
               Inl e \<Rightarrow> Some (Inl e)
             | Inr triggered \<Rightarrow>
                 if triggered then
                   (case add_outlier_profile env kwargs wl fitted x y s of
                      Inl e \<Rightarrow> Some (Inl e)
                    | Inr augmented \<Rightarrow>
                        loop env kwargs om m wl x y s idx (j + 1) augmented)
                 else Some (Inr (fitted, j)))) = Some r"
    show "\<forall>p j'. r = Inr (p, j') \<longrightarrow>
           (\<exists>q. fitter env q x y = Inr p \<and> (q = p0 \<or> (\<exists>q0. q = update_compound_model kwargs q0 wl)))"
    proof (cases "fitter env p0 x y")
      case (Inl e)
      then show ?thesis using eq by auto
    next
      case (Inr fitted)
      note f = Inr
      show ?thesis
      proof (cases "\<not> om \<or> m = j")
        case True
        then show ?thesis using eq f by auto
      next
        case False
        note go = False
        show ?thesis
        proof (cases "needs_outlier env j fitted x y idx")
          case (Inl e)
          then show ?thesis using eq f go by auto
        next
          case (Inr triggered)
          note t = Inr
          show ?thesis
          proof (cases triggered)
            case False
            then show ?thesis using eq f go t by auto
          next
            case True
            note tr = True
            show ?thesis
            proof (cases "add_outlier_profile env kwargs wl fitted x y s")
              case (Inl e)
              then show ?thesis using eq f go t tr by auto
            next
              case (Inr augmented)
              then obtain q0 where a: "augmented = update_compound_model kwargs q0 wl"
                by (auto simp: add_outlier_profile_def split: sum.splits)
              have "loop env kwargs om m wl x y s idx (j + 1) augmented = Some r"
                using eq f go t tr Inr by simp
              from ih[OF this] a show ?thesis by blast
            qed
          qed
        qed
      qed
    qed
  qed
qed

lemma fit_transition_fitted:
  assumes "fit_transition env kwargs ph vt wr om m table data' i wl d = Some (Inr p)"
  shows "\<exists>q0 x y. fitter env (update_compound_model kwargs q0 wl) x y = Inr p"
proof -
  obtain x y where w: "window (data' ! d) wl wr = (x, y)" by (cases "window (data' ! d) wl wr")
  from assms obtain k0 r where
    r: "outlier_loop env kwargs om m wl x y (fmul (Fin 5) (fmean (np_diff x)))
          (searchsorted x wl) 1
          (update_compound_model kwargs
             \<lparr>kind = k0,
              components = [\<lparr>amplitude = fsub (Fin 1) (y ! searchsorted x wl), mean = wl,
                             stddev = fmul (Fin 5) (fmean (np_diff x))\<rparr>],
              fixed = (\<lambda>key. False), bounds = Map.empty, tied = Map.empty\<rparr> wl) = Some r"
    and m: "map_sum id fst r = Inr p"
    unfolding fit_transition_def Let_def w prod.case
    by (auto split: if_splits sum.splits)
  from m obtain j' where "r = Inr (p, j')" by (cases r) auto
  with outlier_loop_fitted[OF r] show ?thesis by blast
qed

lemma bounded_primary:
  assumes honours: "\<forall>q x y q'. fitter env q x y = Inr q' \<longrightarrow>
            length (components q') = length (components q)
            \<and> (\<forall>key lo hi v. bounds q key = Some (lo, hi) \<and> getattr (components q') key = Some v
                  \<longrightarrow> fge v lo \<and> fge hi v)"
    and bs: "map_of (common_bounds kwargs) ''stddev'' = Some (Fin 0, Fin smax)"
    and ba: "map_of (common_bounds kwargs) ''amplitude'' = Some (Fin 0, Fin amax)"
    and fit: "fitter env (update_compound_model kwargs q0 wl) x y = Inr p"
    and prim: "components p = c # cs"
  shows "\<exists>a s. amplitude c = Fin a \<and> stddev c = Fin s \<and> 0 \<le> a \<and> a \<le> amax \<and> 0 \<le> s \<and> s \<le> smax"
proof -
  let ?q = "update_compound_model kwargs q0 wl"
  from honours fit have len: "length (components p) = length (components q0)"
    and within: "\<And>key lo hi v. bounds ?q key = Some (lo, hi) \<Longrightarrow> getattr (components p) key = Some v
                   \<Longrightarrow> fge v lo \<and> fge hi v"
    by (auto simp: update_compound_model_components)
  have "\<exists>ks ka. bounds ?q ks = Some (Fin 0, Fin smax) \<and> getattr (components p) ks = Some (stddev c)
             \<and> bounds ?q ka = Some (Fin 0, Fin amax) \<and> getattr (components p) ka = Some (amplitude c)"
  proof (cases cs)
    case Nil
    with len prim obtain c0 where q0: "components q0 = [c0]"
      by (cases "components q0") auto
    have "bounds ?q ''stddev'' = Some (Fin 0, Fin smax)"
      by (rule update_compound_model_bounds) (simp_all add: q0 primary_keys bs)
    moreover have "bounds ?q ''amplitude'' = Some (Fin 0, Fin amax)"
      by (rule update_compound_model_bounds) (simp_all add: q0 primary_keys ba)
    moreover have "getattr (components p) ''stddev'' = Some (stddev c)"
      "getattr (components p) ''amplitude'' = Some (amplitude c)"
      using prim Nil by (simp_all add: getattr_primary)
    ultimately show ?thesis by blast
  next
    case (Cons c' cs')
    with len prim obtain c0 c0' cs0 where q0: "components q0 = c0 # c0' # cs0"
      by (cases "components q0"; cases "tl (components q0)") auto
    have "bounds ?q ''stddev_0'' = Some (Fin 0, Fin smax)"
      by (rule update_compound_model_bounds) (simp_all add: q0 primary_keys bs)
    moreover have "bounds ?q ''amplitude_0'' = Some (Fin 0, Fin amax)"
      by (rule update_compound_model_bounds) (simp_all add: q0 primary_keys ba)
    moreover have "getattr (components p) ''stddev_0'' = Some (stddev c)"
      "getattr (components p) ''amplitude_0'' = Some (amplitude c)"
      using prim Cons by (simp_all add: getattr_primary)
    ultimately show ?thesis by blast
  qed
  then obtain ks ka where
    "bounds ?q ks = Some (Fin 0, Fin smax)" "getattr (components p) ks = Some (stddev c)"
    "bounds ?q ka = Some (Fin 0, Fin amax)" "getattr (components p) ka = Some (amplitude c)"
    by blast
  with within have "fge (stddev c) (Fin 0)" "fge (Fin smax) (stddev c)"
    "fge (amplitude c) (Fin 0)" "fge (Fin amax) (amplitude c)" by blast+
  with fge_between[of "stddev c" 0 smax] fge_between[of "amplitude c" 0 amax]
  show ?thesis by blast
qed

lemma equivalent_width_bounded:
  assumes "0 \<le> a" "a \<le> amax" "0 \<le> s" "s \<le> smax"
  shows "0 \<le> 10 ^ 4 * sqrt pi * a * 0.25 * s"
    and "10 ^ 4 * sqrt pi * a * 0.25 * s \<le> 10 ^ 4 * sqrt pi * amax * 0.25 * (smax::real)"
proof -
  have "a * s \<le> amax * smax" using assms by (intro mult_mono) auto
  moreover have "0 \<le> a * s" using assms by simp
  moreover have "0 \<le> 10 ^ 4 * sqrt pi * (0.25::real)" by simp
  ultimately have "0 \<le> (10 ^ 4 * sqrt pi * 0.25) * (a * s)"
    "(10 ^ 4 * sqrt pi * 0.25) * (a * s) \<le> (10 ^ 4 * sqrt pi * 0.25) * (amax * smax)"
    by (auto intro: mult_left_mono)
  then show "0 \<le> 10 ^ 4 * sqrt pi * a * 0.25 * s"
    and "10 ^ 4 * sqrt pi * a * 0.25 * s \<le> 10 ^ 4 * sqrt pi * amax * 0.25 * smax"
    by (simp_all add: mult_ac)
qed

text \<open>A stand-in for a fitter that keeps to the bounds of the model it is given, as the
  fitter of the method does: it moves the parameters of a single profile into their
  bounds and fails when that cannot be done. The other collaborators are those of
  \<open>example_fit_env\<close>.\<close>

definition in_bounds :: "(flt \<times> flt) option \<Rightarrow> flt \<Rightarrow> bool" where
  "in_bounds b v = (case b of None \<Rightarrow> True | Some (lo, hi) \<Rightarrow> fge v lo \<and> fge hi v)"

definition clip_to :: "(flt \<times> flt) option \<Rightarrow> flt \<Rightarrow> flt" where
  "clip_to b v =
     (case b of None \<Rightarrow> v
      | Some (lo, hi) \<Rightarrow> if fgt v hi then hi else if fgt lo v then lo else v)"

definition bounded_fitter :: "profile \<Rightarrow> flt list \<Rightarrow> flt list \<Rightarrow> error + profile" where
  "bounded_fitter q x y =
     (case components q of
        [c] \<Rightarrow>
          (let c' = \<lparr>amplitude = clip_to (bounds q ''amplitude'') (amplitude c),
                     mean = clip_to (bounds q ''mean'') (mean c),
                     stddev = clip_to (bounds q ''stddev'') (stddev c)\<rparr>
           in if in_bounds (bounds q ''amplitude'') (amplitude c')
                 \<and> in_bounds (bounds q ''mean'') (mean c')
                 \<and> in_bounds (bounds q ''stddev'') (stddev c')
              then Inr (q\<lparr>components := [c']\<rparr>)
              else Inl (OtherError ''no fit within the bounds''))
      | _ \<Rightarrow> Inl (OtherError ''no fit''))"

definition bounded_fit_env :: "unit fit_collaborators" where
  "bounded_fit_env = example_fit_env\<lparr>fitter := bounded_fitter\<rparr>"

text \<open>A spectrum of five pixels holding one Gaussian absorption line of amplitude 1/2 and
  stddev 1 at 5000: the flux is \<open>1 - A * exp(-(x - mu)^2 / (2 * sigma^2))\<close>.\<close>

definition gaussian_line :: "real \<Rightarrow> real \<Rightarrow> real \<Rightarrow> real \<Rightarrow> flt" where
  "gaussian_line A mu sigma x = Fin (1 - A * exp (- ((x - mu)\<^sup>2) / (2 * sigma\<^sup>2)))"

definition wide_line_spectrum :: spectrum where
  "wide_line_spectrum =
     \<lparr>disp = [Fin 4998, Fin 4999, Fin 5000, Fin 5001, Fin 5002],
      flux = map (gaussian_line (1 / 2) 5000 1) [4998, 4999, 5000, 5001, 5002]\<rparr>"

lemma equivalent_width_in_final_table:
  assumes kw: "1 \<le> oversampling_rate kwargs"
      "''wavelength'' \<notin> set (map fst (common_bounds kwargs))"
      "''mean'' \<notin> set (map fst (common_bounds kwargs))"
    and ph: "interpolate_photosphere env effective_temperature surface_gravity metallicity = Inr ph"
    and di: "wavelengths_in_data (map wavelength table) data' = Inr data_indices"
    and todo: "measurable_transitions table data_indices = pre @ (i, wl, d) # rest"
    and before: "fit_loop env (kwargs\<lparr>wavelength_tolerance := fabs (wavelength_tolerance kwargs)\<rparr>)
                   ph vt wr om m data' pre table = Some (None, t1)"
    and fit: "fit_transition env (kwargs\<lparr>wavelength_tolerance := fabs (wavelength_tolerance kwargs)\<rparr>)
                ph vt wr om m t1 data' i wl d = Some (Inr p)"
    and prim: "components p = c # cs"
    and run: "fit_atomic_transitions env table data' effective_temperature surface_gravity
                metallicity vt wr om m kwargs = Some (e, final)"
  shows "equivalent_width (final ! i) =
           fmul (fmul (fmul (fmul (Fin (10 * 10 ^ 3)) (fsqrt (Fin pi))) (amplitude c))
                      (Fin 0.25)) (stddev c)
         \<and> (\<forall>A \<sigma>. amplitude c = Fin A \<and> stddev c = Fin \<sigma> \<longrightarrow>
                equivalent_width (final ! i) = Fin (10 ^ 4 * sqrt pi * A * 0.25 * \<sigma>))
         \<and> ((\<forall>q x y q'. fitter env q x y = Inr q' \<longrightarrow>
                 length (components q') = length (components q)
                 \<and> (\<forall>key lo hi v. bounds q key = Some (lo, hi)
                                   \<and> getattr (components q') key = Some v
                       \<longrightarrow> fge v lo \<and> fge hi v))
              \<and> map_of (common_bounds kwargs) ''stddev'' = Some (Fin 0, Fin smax)
              \<and> map_of (common_bounds kwargs) ''amplitude'' = Some (Fin 0, Fin amax)
            \<longrightarrow> (\<exists>w. equivalent_width (final ! i) = Fin w \<and> 0 \<le> w
                      \<and> w \<le> 10 ^ 4 * sqrt pi * amax * 0.25 * smax))"
proof -
  let ?kw = "kwargs\<lparr>wavelength_tolerance := fabs (wavelength_tolerance kwargs)\<rparr>"
  from fit_atomic_transitions_table[OF kw ph di run] obtain e' where
    loop: "fit_loop env ?kw ph vt wr om m data' (pre @ (i, wl, d) # rest) table = Some (e', final)"
    unfolding todo by blast
  have ew: "equivalent_width (final ! i) =
           fmul (fmul (fmul (fmul (Fin (10 * 10 ^ 3)) (fsqrt (Fin pi))) (amplitude c))
                      (Fin 0.25)) (stddev c)"
    by (rule equivalent_width_recorded[OF before fit prim measurable_split(1)[OF todo]
          measurable_split(5)[OF todo] loop])
  have fin: "equivalent_width (final ! i) = Fin (10 ^ 4 * sqrt pi * A * 0.25 * \<sigma>)"
    if "amplitude c = Fin A \<and> stddev c = Fin \<sigma>" for A \<sigma>
    using that unfolding ew by (simp only: equivalent_width_finite)
  have bounded: "\<exists>w. equivalent_width (final ! i) = Fin w \<and> 0 \<le> w
                      \<and> w \<le> 10 ^ 4 * sqrt pi * amax * 0.25 * smax"
    if h: "(\<forall>q x y q'. fitter env q x y = Inr q' \<longrightarrow>
                 length (components q') = length (components q)
                 \<and> (\<forall>key lo hi v. bounds q key = Some (lo, hi)
                                   \<and> getattr (components q') key = Some v
                       \<longrightarrow> fge v lo \<and> fge hi v))
              \<and> map_of (common_bounds kwargs) ''stddev'' = Some (Fin 0, Fin smax)
              \<and> map_of (common_bounds kwargs) ''amplitude'' = Some (Fin 0, Fin amax)"
  proof -
    from fit_transition_fitted[OF fit] obtain q0 x y where
      f: "fitter env (update_compound_model ?kw q0 wl) x y = Inr p" by blast
    have bs: "map_of (common_bounds ?kw) ''stddev'' = Some (Fin 0, Fin smax)"
      and ba: "map_of (common_bounds ?kw) ''amplitude'' = Some (Fin 0, Fin amax)"
      using h by simp_all
    from h have honours: "\<forall>q x y q'. fitter env q x y = Inr q' \<longrightarrow>
                 length (components q') = length (components q)
                 \<and> (\<forall>key lo hi v. bounds q key = Some (lo, hi)
                                   \<and> getattr (components q') key = Some v
                       \<longrightarrow> fge v lo \<and> fge hi v)" by blast
    from bounded_primary[OF honours bs ba f prim] obtain a s where
      as: "amplitude c = Fin a" "stddev c = Fin s" "0 \<le> a" "a \<le> amax" "0 \<le> s" "s \<le> smax"
      by blast
    from fin[of a s] as have "equivalent_width (final ! i) = Fin (10 ^ 4 * sqrt pi * a * 0.25 * s)"
      by simp
    with equivalent_width_bounded[OF as(3-6)] show ?thesis by blast
  qed
  from ew fin bounded show ?thesis by blast
qed

lemma bounded_fitter_honours:
  "\<forall>q x y q'. fitter bounded_fit_env q x y = Inr q' \<longrightarrow>
      length (components q') = length (components q)
      \<and> (\<forall>key lo hi v. bounds q key = Some (lo, hi) \<and> getattr (components q') key = Some v
            \<longrightarrow> fge v lo \<and> fge hi v)"
proof (intro allI impI)
  fix q x y q'
  assume "fitter bounded_fit_env q x y = Inr q'"
  then have b: "bounded_fitter q x y = Inr q'" by (simp add: bounded_fit_env_def)
  then obtain c where c: "components q = [c]"
    by (auto simp: bounded_fitter_def split: list.splits)
  let ?c = "\<lparr>amplitude = clip_to (bounds q ''amplitude'') (amplitude c),
             mean = clip_to (bounds q ''mean'') (mean c),
             stddev = clip_to (bounds q ''stddev'') (stddev c)\<rparr>"
  from b c have q': "q' = q\<lparr>components := [?c]\<rparr>"
    and w: "in_bounds (bounds q ''amplitude'') (amplitude ?c)"
       "in_bounds (bounds q ''mean'') (mean ?c)" "in_bounds (bounds q ''stddev'') (stddev ?c)"
    by (auto simp: bounded_fitter_def Let_def split: if_splits)
  have g: "getattr [?c] key = Some v \<Longrightarrow>
             (key = ''amplitude'' \<and> v = amplitude ?c) \<or> (key = ''mean'' \<and> v = mean ?c)
             \<or> (key = ''stddev'' \<and> v = stddev ?c)" for key v
    by (auto simp: getattr_def param_names_single param_values_def split: if_splits)
  show "length (components q') = length (components q)
      \<and> (\<forall>key lo hi v. bounds q key = Some (lo, hi) \<and> getattr (components q') key = Some v
            \<longrightarrow> fge v lo \<and> fge hi v)"
  proof (intro conjI allI impI)
    show "length (components q') = length (components q)" by (simp add: q' c)
  next
    fix key lo hi v
    assume a: "bounds q key = Some (lo, hi) \<and> getattr (components q') key = Some v"
    then have "getattr [?c] key = Some v" by (simp add: q')
    from g[OF this] a w show "fge v lo" by (auto simp: in_bounds_def)
  next
    fix key lo hi v
    assume a: "bounds q key = Some (lo, hi) \<and> getattr (components q') key = Some v"
    then have "getattr [?c] key = Some v" by (simp add: q')
    from g[OF this] a w show "fge hi v" by (auto simp: in_bounds_def)
  qed
qed

lemma single_line_bounds:
  "bounds single_line_profile ''amplitude'' = Some (Fin 0, Fin 1)"
  "bounds single_line_profile ''stddev'' = Some (Fin 0, Fin (3 / 10))"
  "bounds single_line_profile ''mean'' = None"
  by (simp_all add: single_line_profile_def update_compound_model_def Let_def param_names_single
        update_step_def prefix_num_def default_fit_kwargs_def)

text \<open>What the stand-in returns for the first guess at the single line: the stddev 5 of
  the guess is moved to the upper bound 0.3.\<close>

definition bounded_line_profile :: profile where
  "bounded_line_profile =
     single_line_profile
       \<lparr>components := [\<lparr>amplitude = Fin (1 / 2), mean = Fin 5000, stddev = Fin (3 / 10)\<rparr>]\<rparr>"

lemma bounded_fitter_single_line:
  "fitter bounded_fit_env single_line_profile x y = Inr bounded_line_profile"
  by (simp add: bounded_fit_env_def bounded_fitter_def single_line_components single_line_bounds
        clip_to_def in_bounds_def fge_def bounded_line_profile_def Let_def)

lemma single_transition_run:
  assumes fit: "fit_transition env default_fit_kwargs None None wr om m single_transition_table
                  data' 0 (Fin 5000) 0 = Some (Inr p)"
    and c: "components p = [c]"
    and di: "wavelengths_in_data (map wavelength single_transition_table) data' = Inr [0]"
  shows "\<exists>e. fit_atomic_transitions env single_transition_table data' None None None None wr om m
               default_fit_kwargs
             = Some (e, [(example_transition 5000)
                           \<lparr>equivalent_width :=
                              fmul (fmul (fmul (fmul (Fin (10 * 10 ^ 3)) (fsqrt (Fin pi)))
                                               (amplitude c)) (Fin 0.25)) (stddev c)\<rparr>])"
proof -
  let ?ew = "fmul (fmul (fmul (fmul (Fin (10 * 10 ^ 3)) (fsqrt (Fin pi))) (amplitude c))
                        (Fin 0.25)) (stddev c)"
  have ew: "equivalent_width_of p = Some ?ew"
    by (rule equivalent_width_of_primary[OF c])
  have loop: "fit_loop env default_fit_kwargs None None wr om m data' [(0, Fin 5000, 0)]
                single_transition_table
              = Some (None, [(example_transition 5000)\<lparr>equivalent_width := ?ew\<rparr>])"
    by (simp only: fit_loop.simps fit ew option.case sum.case prod.case)
       (simp add: single_transition_table_def)
  have m: "measurable_transitions single_transition_table [0] = [(0, Fin 5000, 0)]"
    using single_line_measurable by simp
  show ?thesis
    unfolding fit_atomic_transitions_loop[OF default_fit_kwargs_valid(1-3)
        interpolate_photosphere_missing[OF disjI1[OF refl]] di]
      default_fit_kwargs_valid(4) m loop
    by (simp split: sum.split)
qed

lemma bounded_line_components:
  "components bounded_line_profile
     = \<lparr>amplitude = Fin (1 / 2), mean = Fin 5000, stddev = Fin (3 / 10)\<rparr> # []"
  by (simp add: bounded_line_profile_def)

lemma bounded_continuum: "self_continuum_order bounded_fit_env d = - 1"
  by (simp add: bounded_fit_env_def example_fit_env_def)

lemma bounded_single_line_fit:
  "fit_transition bounded_fit_env default_fit_kwargs None None (Fin (5 / 2)) False 5
     single_transition_table [single_line_spectrum] 0 (Fin 5000) 0 = Some (Inr bounded_line_profile)"
proof -
  have loop: "outlier_loop bounded_fit_env default_fit_kwargs False 5 (Fin 5000)
                [Fin 4999, Fin 5000, Fin 5001] [Fin 1, Fin (1 / 2), Fin 1] (Fin 5) (Suc 0) 1
                single_line_profile = Some (Inr (bounded_line_profile, 1))"
    by (rule outlier_loop_stops_at_once[OF bounded_fitter_single_line]) simp
  show ?thesis
    unfolding fit_transition_def Let_def
    by (simp add: single_line_window single_line_guess single_line_first_profile
          bounded_continuum single_line_profile_def[symmetric] loop)
qed

lemma gaussian_line_centre: "gaussian_line A mu sigma mu = Fin (1 - A)"
  by (simp add: gaussian_line_def)

lemma wide_line_window:
  "window wide_line_spectrum (Fin 5000) (Fin (5 / 2))
     = ([Fin 4998, Fin 4999, Fin 5000, Fin 5001, Fin 5002],
        [gaussian_line (1 / 2) 5000 1 4998, gaussian_line (1 / 2) 5000 1 4999, Fin (1 / 2),
         gaussian_line (1 / 2) 5000 1 5001, gaussian_line (1 / 2) 5000 1 5002])"
  by (simp add: window_def wide_line_spectrum_def searchsorted_def slice_def fsub_def Let_def
        gaussian_line_centre)

lemma wide_line_guess:
  "searchsorted [Fin 4998, Fin 4999, Fin 5000, Fin 5001, Fin 5002] (Fin 5000) = 2"
  "fmul (Fin 5) (fmean (np_diff [Fin 4998, Fin 4999, Fin 5000, Fin 5001, Fin 5002])) = Fin 5"
  by (simp_all add: searchsorted_def fmean_def np_diff_def fsum_def fsub_def)

lemma wide_line_data_indices:
  "wavelengths_in_data (map wavelength single_transition_table) [wide_line_spectrum] = Inr [0]"
  by (simp add: wavelengths_in_data_def single_transition_table_def example_transition_def
        wide_line_spectrum_def fge_def)

lemma bounded_wide_line_fit:
  "fit_transition bounded_fit_env default_fit_kwargs None None (Fin (5 / 2)) False 5
     single_transition_table [wide_line_spectrum] 0 (Fin 5000) 0 = Some (Inr bounded_line_profile)"
proof -
  have loop: "outlier_loop bounded_fit_env default_fit_kwargs False 5 (Fin 5000) x y s idx 1
                single_line_profile = Some (Inr (bounded_line_profile, 1))" for x y s idx
    by (rule outlier_loop_stops_at_once[OF bounded_fitter_single_line]) simp
  show ?thesis
    unfolding fit_transition_def Let_def
    by (simp add: wide_line_window wide_line_guess single_line_first_profile fsub_def
          bounded_continuum single_line_profile_def[symmetric] loop)
qed

text \<open>
  Claim C1, as the code has it. Let \<open>fit_atomic_transitions\<close> get as far as its loop
  (valid keyword arguments, a photosphere or none, the spectra of the lines found), let
  the measurable transitions before the transition \<open>i\<close> be fitted, and let the fit of
  \<open>i\<close> return a profile whose first Gaussian component is \<open>c\<close>. Then in the table the
  method leaves behind, the equivalent width of row \<open>i\<close> is
  \<open>10e3 * sqrt(pi) * amplitude * 0.25 * stddev\<close> of \<open>c\<close>, in this order of
  multiplication, and no later transition overwrites it; for a finite amplitude \<open>A\<close> and
  a finite stddev \<open>\<sigma>\<close> of \<open>c\<close> this is the number \<open>10^4 * sqrt(pi) * A * 0.25 * \<sigma>\<close>.
  These are the fitted values, not those of the line in the data: the profile handed to
  the fitter carries the common bounds, and if the fitter returns a model with as many
  components and every bounded parameter within its bounds, with the stddev bounded by
  \<open>[0, smax]\<close> and the amplitude by \<open>[0, amax]\<close>, the recorded width is a number between
  0 and \<open>10^4 * sqrt(pi) * amax * 0.25 * smax\<close>. The defaults are \<open>smax = 0.3\<close> and
  \<open>amax = 1\<close>.
\<close>

theorem equivalent_width_written:
  assumes "1 \<le> oversampling_rate kwargs"
      "''wavelength'' \<notin> set (map fst (common_bounds kwargs))"
      "''mean'' \<notin> set (map fst (common_bounds kwargs))"
    and "interpolate_photosphere env effective_temperature surface_gravity metallicity = Inr ph"
    and "wavelengths_in_data (map wavelength table) data' = Inr data_indices"
    and "measurable_transitions table data_indices = pre @ (i, wl, d) # rest"
    and "fit_loop env (kwargs\<lparr>wavelength_tolerance := fabs (wavelength_tolerance kwargs)\<rparr>)
                   ph vt wr om m data' pre table = Some (None, t1)"
    and "fit_transition env (kwargs\<lparr>wavelength_tolerance := fabs (wavelength_tolerance kwargs)\<rparr>)
                ph vt wr om m t1 data' i wl d = Some (Inr p)"
    and "components p = c # cs"
    and "fit_atomic_transitions env table data' effective_temperature surface_gravity
                metallicity vt wr om m kwargs = Some (e, final)"
  shows "equivalent_width (final ! i) =
           fmul (fmul (fmul (fmul (Fin (10 * 10 ^ 3)) (fsqrt (Fin pi))) (amplitude c))
                      (Fin 0.25)) (stddev c)
         \<and> (\<forall>A \<sigma>. amplitude c = Fin A \<and> stddev c = Fin \<sigma> \<longrightarrow>
                equivalent_width (final ! i) = Fin (10 ^ 4 * sqrt pi * A * 0.25 * \<sigma>))
         \<and> ((\<forall>q x y q'. fitter env q x y = Inr q' \<longrightarrow>
                 length (components q') = length (components q)
                 \<and> (\<forall>key lo hi v. bounds q key = Some (lo, hi)
                                   \<and> getattr (components q') key = Some v
                       \<longrightarrow> fge v lo \<and> fge hi v))
              \<and> map_of (common_bounds kwargs) ''stddev'' = Some (Fin 0, Fin smax)
              \<and> map_of (common_bounds kwargs) ''amplitude'' = Some (Fin 0, Fin amax)
            \<longrightarrow> (\<exists>w. equivalent_width (final ! i) = Fin w \<and> 0 \<le> w
                      \<and> w \<le> 10 ^ 4 * sqrt pi * amax * 0.25 * smax))"
  using assms by (rule equivalent_width_in_final_table)

text \<open>The single line of depth one half with the bounded stand-in: the first guess has
  the stddev 5, the fit has 0.3, and the method records
  \<open>10^4 * sqrt(pi) * 0.5 * 0.25 * 0.3\<close>.\<close>

theorem equivalent_width_written_witness:
  "\<exists>e final. fit_atomic_transitions bounded_fit_env single_transition_table [single_line_spectrum]
                None None None None (Fin (5 / 2)) False 5 default_fit_kwargs = Some (e, final)
     \<and> equivalent_width (final ! 0) = Fin (10 ^ 4 * sqrt pi * (1 / 2) * 0.25 * (3 / 10))
     \<and> (\<exists>w. equivalent_width (final ! 0) = Fin w \<and> 0 \<le> w
              \<and> w \<le> 10 ^ 4 * sqrt pi * 1 * 0.25 * (3 / 10))"
proof -
  from single_transition_run[OF bounded_single_line_fit bounded_line_components
      single_line_data_indices]
  obtain e final where run: "fit_atomic_transitions bounded_fit_env single_transition_table
      [single_line_spectrum] None None None None (Fin (5 / 2)) False 5 default_fit_kwargs
      = Some (e, final)" by blast
  have before: "fit_loop bounded_fit_env
      (default_fit_kwargs\<lparr>wavelength_tolerance := fabs (wavelength_tolerance default_fit_kwargs)\<rparr>)
      None None (Fin (5 / 2)) False 5 [single_line_spectrum] [] single_transition_table
      = Some (None, single_transition_table)" by simp
  have fit: "fit_transition bounded_fit_env
      (default_fit_kwargs\<lparr>wavelength_tolerance := fabs (wavelength_tolerance default_fit_kwargs)\<rparr>)
      None None (Fin (5 / 2)) False 5 single_transition_table [single_line_spectrum] 0 (Fin 5000) 0
      = Some (Inr bounded_line_profile)"
    unfolding default_fit_kwargs_valid(4) by (rule bounded_single_line_fit)
  have bs: "map_of (common_bounds default_fit_kwargs) ''stddev'' = Some (Fin 0, Fin (3 / 10))"
    and ba: "map_of (common_bounds default_fit_kwargs) ''amplitude'' = Some (Fin 0, Fin 1)"
    by (simp_all add: default_fit_kwargs_def)
  note t = equivalent_width_written[OF default_fit_kwargs_valid(1-3)
      interpolate_photosphere_missing[OF disjI1[OF refl]] single_line_data_indices
      single_line_measurable before fit bounded_line_components run, of "3 / 10" 1]
  from t have "equivalent_width (final ! 0) = Fin (10 ^ 4 * sqrt pi * (1 / 2) * 0.25 * (3 / 10))"
    by simp
  moreover from t bounded_fitter_honours bs ba
  have "\<exists>w. equivalent_width (final ! 0) = Fin w \<and> 0 \<le> w
              \<and> w \<le> 10 ^ 4 * sqrt pi * 1 * 0.25 * (3 / 10)" by blast
  ultimately show ?thesis using run by blast
qed

text \<open>Claim C1 as stated fails: for the Gaussian line of amplitude 1/2 and stddev 1 the
  width recorded with the default bounds is \<open>10^4 * sqrt(pi) * 0.5 * 0.25 * 0.3\<close>, less
  than a third of \<open>10^4 * sqrt(pi) * 0.5 * 0.25 * 1\<close>.\<close>

theorem wide_line_not_recovered_counterexample:
  "\<exists>e final. fit_atomic_transitions bounded_fit_env single_transition_table [wide_line_spectrum]
                None None None None (Fin (5 / 2)) False 5 default_fit_kwargs = Some (e, final)
     \<and> equivalent_width (final ! 0) = Fin (10 ^ 4 * sqrt pi * (1 / 2) * 0.25 * (3 / 10))
     \<and> 10 ^ 4 * sqrt pi * (1 / 2) * 0.25 * (3 / 10) < 10 ^ 4 * sqrt pi * (1 / 2) * 0.25 * (1::real)
     \<and> flux wide_line_spectrum
         = map (\<lambda>x. Fin (1 - (1 / 2) * exp (- ((x - 5000)\<^sup>2) / (2 * 1\<^sup>2))))
               [4998, 4999, 5000, 5001, 5002]"
proof -
  from single_transition_run[OF bounded_wide_line_fit bounded_line_components
      wide_line_data_indices]
  obtain e where run: "fit_atomic_transitions bounded_fit_env single_transition_table
      [wide_line_spectrum] None None None None (Fin (5 / 2)) False 5 default_fit_kwargs
      = Some (e, [(example_transition 5000)
                           \<lparr>equivalent_width :=
                              fmul (fmul (fmul (fmul (Fin (10 * 10 ^ 3)) (fsqrt (Fin pi)))
                                               (Fin (1 / 2))) (Fin 0.25)) (Fin (3 / 10))\<rparr>])"
    by auto
  have ew: "equivalent_width ([(example_transition 5000)
                           \<lparr>equivalent_width :=
                              fmul (fmul (fmul (fmul (Fin (10 * 10 ^ 3)) (fsqrt (Fin pi)))
                                               (Fin (1 / 2))) (Fin 0.25)) (Fin (3 / 10))\<rparr>] ! 0)
             = Fin (10 ^ 4 * sqrt pi * (1 / 2) * 0.25 * (3 / 10))" by simp
  have "0 < sqrt pi" by simp
  then have lt: "10 ^ 4 * sqrt pi * (1 / 2) * 0.25 * (3 / 10) < 10 ^ 4 * sqrt pi * (1 / 2) * 0.25 * (1::real)"
    by simp
  have fl: "flux wide_line_spectrum
         = map (\<lambda>x. Fin (1 - (1 / 2) * exp (- ((x - 5000)\<^sup>2) / (2 * 1\<^sup>2))))
               [4998, 4999, 5000, 5001, 5002]"
    by (simp add: wide_line_spectrum_def gaussian_line_def)
  from run ew lt fl show ?thesis by blast
qed

section \<open>The tie of an outlier stddev\<close>

text \<open>
  Claim C5. In a model of three components the tie that \<open>_update_compound_model\<close> stores
  for \<open>stddev_1\<close> evaluates to \<open>stddev_0 * mean_2 / mean_0\<close>: the \<open>lambda\<close> reads the
  variable \<open>num\<close> when the fitter calls it, after the loop over the parameter names has
  left \<open>num\<close> at the number of the last component. The claim has \<open>mean_1\<close> in the place of
  \<open>mean_2\<close>, as has the comment in the source
  (\<open>R = lambda_1/delta_lambda_1 = lambda_2/delta_lambda_2\<close>).
\<close>

theorem tied_stddev_reads_the_last_mean:
  "map_option (\<lambda>made. tied_value made [c0, c1, c2])
     (tied (update_compound_model default_fit_kwargs
              \<lparr>kind = k, components = [c0, c1, c2], fixed = fx, bounds = bs, tied = Map.empty\<rparr> wl)
           ''stddev_1'')
   = Some (Some (fdiv (fmul (stddev c0) (mean c2)) (mean c0)))"
  by (simp add: update_3 tied_value_def getattr_3)

section \<open>The number of outlier profiles\<close>

definition flat_profile :: profile where
  "flat_profile =
     \<lparr>kind = GaussianAbsorption1D,
      components = [\<lparr>amplitude = Fin 0, mean = Fin 5000, stddev = Fin 0.1\<rparr>],
      fixed = (\<lambda>key. False), bounds = [''stddev'' \<mapsto> (Fin 0, Fin 0.3)], tied = Map.empty\<rparr>"

lemma outlier_augmentation:
  assumes m: "0 < m"
  shows "(\<exists>r. fit_transition env kwargs ph vt wr True m table data' i wl d = Some r
            \<and> ((\<forall>p q. fitter env p (fst (window (data' ! d) wl wr))
                                   (snd (window (data' ! d) wl wr)) = Inr q
                       \<longrightarrow> length (components q) = length (components p))
                 \<longrightarrow> (\<forall>q. r = Inr q \<longrightarrow> 1 \<le> length (components q)
                                        \<and> int (length (components q)) - 1 \<le> m - 1)))
         \<and> (\<forall>j p fitted x y s idx.
               fitter env p x y = Inr fitted \<and> needs_outlier env j fitted x y idx = Inr False
                 \<longrightarrow> outlier_loop env kwargs True m wl x y s idx j p = Some (Inr (fitted, j)))"
proof (intro conjI allI impI)
  from fit_transition_returns[OF m] obtain r where
    r: "fit_transition env kwargs ph vt wr True m table data' i wl d = Some r" by blast
  have "(\<forall>p q. fitter env p (fst (window (data' ! d) wl wr))
                                   (snd (window (data' ! d) wl wr)) = Inr q
                       \<longrightarrow> length (components q) = length (components p))
                 \<longrightarrow> (\<forall>q. r = Inr q \<longrightarrow> 1 \<le> length (components q)
                                        \<and> int (length (components q)) - 1 \<le> m - 1)"
  proof
    assume k: "\<forall>p q. fitter env p (fst (window (data' ! d) wl wr))
                                   (snd (window (data' ! d) wl wr)) = Inr q
                       \<longrightarrow> length (components q) = length (components p)"
    from fit_transition_bounded[of env data' d wl wr m kwargs ph vt True table i, OF _ m] k
    obtain r' where "fit_transition env kwargs ph vt wr True m table data' i wl d = Some r'"
      "\<forall>q. r' = Inr q \<longrightarrow> 1 \<le> length (components q) \<and> int (length (components q)) - 1 \<le> m - 1"
      by blast
    with r show "\<forall>q. r = Inr q \<longrightarrow> 1 \<le> length (components q)
                                        \<and> int (length (components q)) - 1 \<le> m - 1" by simp
  qed
  with r show "\<exists>r. fit_transition env kwargs ph vt wr True m table data' i wl d = Some r
            \<and> ((\<forall>p q. fitter env p (fst (window (data' ! d) wl wr))
                                   (snd (window (data' ! d) wl wr)) = Inr q
                       \<longrightarrow> length (components q) = length (components p))
                 \<longrightarrow> (\<forall>q. r = Inr q \<longrightarrow> 1 \<le> length (components q)
                                        \<and> int (length (components q)) - 1 \<le> m - 1))" by blast
next
  fix j p fitted x y s idx
  assume "fitter env p x y = Inr fitted \<and> needs_outlier env j fitted x y idx = Inr False"
  then show "outlier_loop env kwargs True m wl x y s idx j p = Some (Inr (fitted, j))"
    by (intro outlier_loop_stops_at_once) simp_all
qed

lemma single_line_triggers:
  "needs_outlier example_fit_env 1 single_line_profile
     [Fin 4999, Fin 5000, Fin 5001] [Fin 1, Fin (1 / 2), Fin 1] (Suc 0) = Inr True"
proof -
  have c: "components single_line_profile = [\<lparr>amplitude = Fin (1 / 2), mean = Fin 5000, stddev = Fin 5\<rparr>]"
    by (simp add: single_line_profile_def update_compound_model_components)
  show ?thesis
    by (cases "upper_bound single_line_profile ''stddev''")
       (simp_all add: needs_outlier_def c getattr_primary example_fit_env_def split: bool.splits)
qed

lemma single_line_most_discrepant:
  "most_discrepant example_fit_env single_line_profile
     [Fin 4999, Fin 5000, Fin 5001] [Fin 1, Fin (1 / 2), Fin 1] (Fin 5) = Inr 0"
proof -
  have c: "components single_line_profile = [\<lparr>amplitude = Fin (1 / 2), mean = Fin 5000, stddev = Fin 5\<rparr>]"
    by (simp add: single_line_profile_def update_compound_model_components)
  show ?thesis
    by (simp add: most_discrepant_def c example_fit_env_def fsub_def searchsorted_def
          clip_index_def zero_slice_def upt_rec np_argmax_def Let_def)
qed

lemma single_line_fit_with_outlier:
  "\<exists>q. fit_transition example_fit_env default_fit_kwargs None None (Fin (5 / 2)) True 2
          single_transition_table [single_line_spectrum] 0 (Fin 5000) 0 = Some (Inr q)
       \<and> length (components q) = 2"
proof -
  let ?x = "[Fin 4999, Fin 5000, Fin 5001]" and ?y = "[Fin 1, Fin (1 / 2), Fin 1]"
  obtain q where q: "add_outlier_profile example_fit_env default_fit_kwargs (Fin 5000)
                       single_line_profile ?x ?y (Fin 5) = Inr q"
    by (simp add: add_outlier_profile_def single_line_most_discrepant)
  have len: "length (components q) = 2"
    using add_outlier_profile_components[OF q]
    by (simp add: single_line_profile_def update_compound_model_components)
  have last: "outlier_loop example_fit_env default_fit_kwargs True 2 (Fin 5000) ?x ?y (Fin 5) (Suc 0) 2 q
                = Some (Inr (q, 2))"
    by (rule outlier_loop_stops_at_once[OF example_fitter]) simp
  have loop: "outlier_loop example_fit_env default_fit_kwargs True 2 (Fin 5000) ?x ?y (Fin 5) (Suc 0) 1
                single_line_profile = Some (Inr (q, 2))"
    by (subst outlier_loop.simps) (simp add: example_fitter single_line_triggers q last)
  have "fit_transition example_fit_env default_fit_kwargs None None (Fin (5 / 2)) True 2
          single_transition_table [single_line_spectrum] 0 (Fin 5000) 0 = Some (Inr q)"
    unfolding fit_transition_def Let_def
    by (simp add: single_line_window single_line_guess single_line_first_profile
          example_fit_env_def[THEN arg_cong, of self_continuum_order]
          single_line_profile_def[symmetric] loop)
  with len show ?thesis by blast
qed

lemma flat_profile_settled:
  "needs_outlier example_fit_env 1 flat_profile [Fin 5000] [Fin 1] 0 = Inr False"
  by (simp add: needs_outlier_def flat_profile_def getattr_primary upper_bound_def
        example_fit_env_def)

text \<open>
  Claim C6. For a positive \<open>max_outlier_profiles\<close> \<open>m\<close> (an integer) and outlier
  modelling enabled, the fit of a transition returns, with a profile or with an error: the
  \<open>while True\<close> loop ends. If the fitter returns models with as many components as it
  was given, the fitted profile has its primary component and at most \<open>m - 1\<close> more, so at
  most \<open>m\<close>. And at any round of the loop, a fit after which neither condition triggers
  ends the loop with that fit, the counter unchanged.
\<close>

theorem outlier_augmentation_is_bounded:
  assumes "0 < m"
  shows "(\<exists>r. fit_transition env kwargs ph vt wr True m table data' i wl d = Some r
            \<and> ((\<forall>p q. fitter env p (fst (window (data' ! d) wl wr))
                                   (snd (window (data' ! d) wl wr)) = Inr q
                       \<longrightarrow> length (components q) = length (components p))
                 \<longrightarrow> (\<forall>q. r = Inr q \<longrightarrow> 1 \<le> length (components q)
                                        \<and> int (length (components q)) - 1 \<le> m - 1)))
         \<and> (\<forall>j p fitted x y s idx.
               fitter env p x y = Inr fitted \<and> needs_outlier env j fitted x y idx = Inr False
                 \<longrightarrow> outlier_loop env kwargs True m wl x y s idx j p = Some (Inr (fitted, j)))"
  using assms by (rule outlier_augmentation)

text \<open>With \<open>m = 2\<close> the single line, which the stand-in model misses by a half, gets one
  more component; a model within 5 per cent of flat data, its stddev off the bound, gets
  none.\<close>

theorem outlier_augmentation_is_bounded_witness:
  "(\<exists>q. fit_transition example_fit_env default_fit_kwargs None None (Fin (5 / 2)) True 2
           single_transition_table [single_line_spectrum] 0 (Fin 5000) 0 = Some (Inr q)
        \<and> 1 \<le> length (components q) \<and> int (length (components q)) - 1 \<le> 2 - 1)
   \<and> outlier_loop example_fit_env default_fit_kwargs True 2 (Fin 5000) [Fin 5000] [Fin 1]
        (Fin 5) 0 1 flat_profile = Some (Inr (flat_profile, 1))"
proof -
  note t = outlier_augmentation_is_bounded[of 2 example_fit_env default_fit_kwargs None None
      "Fin (5 / 2)" single_transition_table "[single_line_spectrum]" 0 "Fin 5000" 0]
  from single_line_fit_with_outlier obtain q where
    q: "fit_transition example_fit_env default_fit_kwargs None None (Fin (5 / 2)) True 2
          single_transition_table [single_line_spectrum] 0 (Fin 5000) 0 = Some (Inr q)" by blast
  have keeps: "\<forall>p q. fitter example_fit_env p
                   (fst (window ([single_line_spectrum] ! 0) (Fin 5000) (Fin (5 / 2))))
                   (snd (window ([single_line_spectrum] ! 0) (Fin 5000) (Fin (5 / 2)))) = Inr q
                 \<longrightarrow> length (components q) = length (components p)"
    by (simp add: example_fitter)
  from t keeps q have "1 \<le> length (components q) \<and> int (length (components q)) - 1 \<le> 2 - 1"
    by simp
  moreover from t example_fitter flat_profile_settled
  have "outlier_loop example_fit_env default_fit_kwargs True 2 (Fin 5000) [Fin 5000] [Fin 1]
        (Fin 5) 0 1 flat_profile = Some (Inr (flat_profile, 1))" by simp
  ultimately show ?thesis using q by blast
qed

section \<open>A blend without stellar parameters\<close>

lemma blending_aborts:
  assumes kw: "1 \<le> oversampling_rate kwargs"
      "''wavelength'' \<notin> set (map fst (common_bounds kwargs))"
      "''mean'' \<notin> set (map fst (common_bounds kwargs))"
    and missing: "effective_temperature = None \<or> surface_gravity = None \<or> metallicity = None"
    and di: "wavelengths_in_data (map wavelength table) data' = Inr data_indices"
    and todo: "measurable_transitions table data_indices = pre @ (i, wl, d) # rest"
    and before: "fit_loop env (kwargs\<lparr>wavelength_tolerance := fabs (wavelength_tolerance kwargs)\<rparr>)
                   None vt wr om m data' pre table = Some (None, t1)"
    and sample: "searchsorted (fst (window (data' ! d) wl wr)) wl
                   < length (snd (window (data' ! d) wl wr))"
    and cont: "self_continuum_order env d \<le> - 1"
    and blend: "\<exists>k<length table. k \<noteq> i \<and> fge wr (fabs (fsub (wavelength (table ! k)) wl))"
  shows "fit_atomic_transitions env table data' effective_temperature surface_gravity metallicity
           vt wr om m kwargs = Some (ValueError (BlendingWithoutParameters wl wr), t1)
         \<and> wl = wavelength (table ! i)
         \<and> (\<forall>k\<in>set (map fst ((i, wl, d) # rest)). t1 ! k = table ! k)"
proof -
  let ?kw = "kwargs\<lparr>wavelength_tolerance := fabs (wavelength_tolerance kwargs)\<rparr>"
  from fit_loop_frame[OF before] have fr: "length t1 = length table"
    "map wavelength t1 = map wavelength table"
    "\<forall>k. k \<notin> set (map fst pre) \<longrightarrow> t1 ! k = table ! k" by blast+
  have b: "list_ex id (blending_lines t1 wr i wl)"
    unfolding blending_lines_wavelengths[OF fr(2)] blending_lines_ex by (rule blend)
  have ft: "fit_transition env ?kw None vt wr om m t1 data' i wl d
           = Some (Inl (ValueError (BlendingWithoutParameters wl wr)))"
    by (rule fit_transition_blending[OF sample cont b])
  have fl: "fit_loop env ?kw None vt wr om m data' (pre @ (i, wl, d) # rest) table
          = Some (Some (ValueError (BlendingWithoutParameters wl wr)), t1)"
    by (simp add: fit_loop_append before ft)
  have run: "fit_atomic_transitions env table data' effective_temperature surface_gravity metallicity
           vt wr om m kwargs = Some (ValueError (BlendingWithoutParameters wl wr), t1)"
    unfolding fit_atomic_transitions_loop[OF kw interpolate_photosphere_missing[OF missing] di]
      todo fl by simp
  have same: "\<forall>k\<in>set (map fst ((i, wl, d) # rest)). t1 ! k = table ! k"
    using fr(3) measurable_split(6)[OF todo] by blast
  from run measurable_split(3)[OF todo] same show ?thesis by blast
qed

text \<open>
  Claim C9, as the code has it. Let one of the effective temperature, the surface gravity
  and the metallicity be missing, the keyword arguments valid, and let the measurable
  transitions (clean and covered by a spectrum) before the transition \<open>i\<close> be fitted. If
  \<open>i\<close> is measurable, its window holds the pixel of the line, there is no continuum
  to fit, and another line of the table lies within the wavelength region, then
  \<open>fit_atomic_transitions\<close> raises the \<open>ValueError\<close> that names the wavelength of \<open>i\<close>
  and the region. The loop ends there: the rows of \<open>i\<close> and of every later measurable
  transition are as they were.
\<close>

theorem blending_without_parameters_aborts:
  assumes "1 \<le> oversampling_rate kwargs"
      "''wavelength'' \<notin> set (map fst (common_bounds kwargs))"
      "''mean'' \<notin> set (map fst (common_bounds kwargs))"
    and "effective_temperature = None \<or> surface_gravity = None \<or> metallicity = None"
    and "wavelengths_in_data (map wavelength table) data' = Inr data_indices"
    and "measurable_transitions table data_indices = pre @ (i, wl, d) # rest"
    and "fit_loop env (kwargs\<lparr>wavelength_tolerance := fabs (wavelength_tolerance kwargs)\<rparr>)
                   None vt wr om m data' pre table = Some (None, t1)"
    and "searchsorted (fst (window (data' ! d) wl wr)) wl
                   < length (snd (window (data' ! d) wl wr))"
    and "self_continuum_order env d \<le> - 1"
    and "\<exists>k<length table. k \<noteq> i \<and> fge wr (fabs (fsub (wavelength (table ! k)) wl))"
  shows "fit_atomic_transitions env table data' effective_temperature surface_gravity metallicity
           vt wr om m kwargs = Some (ValueError (BlendingWithoutParameters wl wr), t1)
         \<and> wl = wavelength (table ! i)
         \<and> (\<forall>k\<in>set (map fst ((i, wl, d) # rest)). t1 ! k = table ! k)"
  using assms by (rule blending_aborts)

text \<open>The blended pair in the spectrum of the single line.\<close>

theorem blending_without_parameters_aborts_witness:
  "fit_atomic_transitions example_fit_env blended_table [single_line_spectrum]
     None None None None (Fin (5 / 2)) True 5 default_fit_kwargs
   = Some (ValueError (BlendingWithoutParameters (Fin 5000) (Fin (5 / 2))), blended_table)
   \<and> Fin 5000 = wavelength (blended_table ! 0)"
proof -
  have before: "fit_loop example_fit_env
      (default_fit_kwargs\<lparr>wavelength_tolerance := fabs (wavelength_tolerance default_fit_kwargs)\<rparr>)
      None None (Fin (5 / 2)) True 5 [single_line_spectrum] [] blended_table
      = Some (None, blended_table)" by simp
  have sample: "searchsorted (fst (window ([single_line_spectrum] ! 0) (Fin 5000) (Fin (5 / 2)))) (Fin 5000)
                   < length (snd (window ([single_line_spectrum] ! 0) (Fin 5000) (Fin (5 / 2))))"
    by (simp add: single_line_window single_line_guess)
  have cont: "self_continuum_order example_fit_env 0 \<le> - 1" by (simp add: example_fit_env_def)
  have "1 < length blended_table \<and> (1::nat) \<noteq> 0
          \<and> fge (Fin (5 / 2)) (fabs (fsub (wavelength (blended_table ! 1)) (Fin 5000)))"
    by (simp add: blended_table_def example_transition_def fge_def fsub_def)
  then have blend: "\<exists>k<length blended_table. k \<noteq> 0
          \<and> fge (Fin (5 / 2)) (fabs (fsub (wavelength (blended_table ! k)) (Fin 5000)))" by blast
  from blending_without_parameters_aborts[OF default_fit_kwargs_valid(1-3) disjI1[OF refl]
      blended_data_indices blended_measurable before sample cont blend]
  show ?thesis by blast
qed

text \<open>Claim C9 as stated fails: the two lines of the blended pair are clean and within
  the region of each other, no stellar parameter is given, and the only spectrum covers
  neither of them. No transition is fitted, and the method ends as it does after a
  complete loop, in the \<open>NameError\<close> of its last statement.\<close>

theorem unmeasurable_blend_raises_no_configuration_error_counterexample:
  "fit_atomic_transitions example_fit_env blended_table [distant_spectrum]
     None None None None (Fin (5 / 2)) True 5 default_fit_kwargs
   = Some (NameError ''a'', blended_table)
   \<and> clean (blended_table ! 0)
   \<and> fge (Fin (5 / 2)) (fabs (fsub (wavelength (blended_table ! 1)) (wavelength (blended_table ! 0))))"
proof -
  have "fit_atomic_transitions example_fit_env blended_table [distant_spectrum]
     None None None None (Fin (5 / 2)) True 5 default_fit_kwargs
   = Some (NameError ''a'', blended_table)"
    unfolding fit_atomic_transitions_loop[OF default_fit_kwargs_valid(1-3)
        interpolate_photosphere_missing[OF disjI1[OF refl]] distant_data_indices]
      distant_measurable
    by (simp add: example_fit_env_def)
  moreover have "clean (blended_table ! 0)
   \<and> fge (Fin (5 / 2)) (fabs (fsub (wavelength (blended_table ! 1)) (wavelength (blended_table ! 0))))"
    by (simp add: blended_table_def example_transition_def fge_def fsub_def)
  ultimately show ?thesis by blast
qed

end
